theory Spec2Isabelle
  imports Complex_Main
begin

section \<open>Numeric cells\<close>

text \<open>
  The statements are pandas frames of dtype float64. A cell is a finite number, a
  negative zero, one of the two infinities, or NaN (the marker pandas uses for a missing
  or undefined value). \<open>Fin 0\<close> is the zero \<open>+0.0\<close> and \<open>NegZero\<close> is \<open>-0.0\<close>.

  The arithmetic is that of numpy on float64, which raises nothing: the sign of a
  product or quotient is the product of the signs, zeros included; a non-zero number
  divided by a zero is an infinity; zero by zero, infinity by infinity, zero times
  infinity and the sum of the two infinities are NaN; NaN is absorbing; a sum that
  cancels is \<open>+0.0\<close>. Finite results are exact here (rationals): rounding and overflow
  are not modelled, so the properties below state the operations the code performs and
  rest on no identity of exact arithmetic that rounding would break.
\<close>

datatype fval = Fin rat | NegZero | PosInf | NegInf | NaN

definition signed_inf :: "bool \<Rightarrow> fval" where
  "signed_inf pos = (if pos then PosInf else NegInf)"

definition signed_zero :: "bool \<Rightarrow> fval" where
  "signed_zero pos = (if pos then Fin 0 else NegZero)"

fun is_negative :: "fval \<Rightarrow> bool" where
  "is_negative (Fin a) = (a < 0)"
| "is_negative NegZero = True"
| "is_negative NegInf = True"
| "is_negative _ = False"

fun is_zero :: "fval \<Rightarrow> bool" where
  "is_zero (Fin a) = (a = 0)"
| "is_zero NegZero = True"
| "is_zero _ = False"

fun is_inf :: "fval \<Rightarrow> bool" where
  "is_inf PosInf = True"
| "is_inf NegInf = True"
| "is_inf _ = False"

fun fneg :: "fval \<Rightarrow> fval" where
  "fneg (Fin a) = (if a = 0 then NegZero else Fin (- a))"
| "fneg NegZero = Fin 0"
| "fneg PosInf = NegInf"
| "fneg NegInf = PosInf"
| "fneg NaN = NaN"

fun fadd :: "fval \<Rightarrow> fval \<Rightarrow> fval" where
  "fadd NaN _ = NaN"
| "fadd _ NaN = NaN"
| "fadd (Fin a) (Fin b) = Fin (a + b)"
| "fadd (Fin a) NegZero = Fin a"
| "fadd NegZero (Fin b) = Fin b"
| "fadd NegZero NegZero = NegZero"
| "fadd PosInf NegInf = NaN"
| "fadd NegInf PosInf = NaN"
| "fadd PosInf _ = PosInf"
| "fadd NegInf _ = NegInf"
| "fadd _ PosInf = PosInf"
| "fadd _ NegInf = NegInf"

definition fsub :: "fval \<Rightarrow> fval \<Rightarrow> fval" where
  "fsub x y = fadd x (fneg y)"

fun fmul :: "fval \<Rightarrow> fval \<Rightarrow> fval" where
  "fmul NaN _ = NaN"
| "fmul _ NaN = NaN"
| "fmul (Fin a) (Fin b) =
     (if a * b = 0 then signed_zero (\<not> (a < 0 \<or> b < 0)) else Fin (a * b))"
| "fmul x y =
     (if (is_zero x \<and> is_inf y) \<or> (is_inf x \<and> is_zero y) then NaN
      else if is_inf x \<or> is_inf y then signed_inf (is_negative x = is_negative y)
      else signed_zero (is_negative x = is_negative y))"

fun fdiv :: "fval \<Rightarrow> fval \<Rightarrow> fval" where
  "fdiv NaN _ = NaN"
| "fdiv _ NaN = NaN"
| "fdiv (Fin a) (Fin b) =
     (if b = 0 then (if a = 0 then NaN else signed_inf (0 < a))
      else if a = 0 then signed_zero (0 < b)
      else Fin (a / b))"
| "fdiv x y =
     (if (is_zero x \<and> is_zero y) \<or> (is_inf x \<and> is_inf y) then NaN
      else if is_inf x \<or> is_zero y then signed_inf (is_negative x = is_negative y)
      else signed_zero (is_negative x = is_negative y))"

definition isna :: "fval \<Rightarrow> bool" where
  "isna v = (v = NaN)"

section \<open>The pandas objects the engine uses\<close>

text \<open>
  A fiscal period is a column label of a statement: a pandas Timestamp, an ordered value
  that is an integer underneath. A Series is a sequence of labelled cells in storage
  order. A DataFrame has row labels, column labels and a row-major table of cells.
  \<open>pd.Series()\<close> and \<open>pd.DataFrame()\<close> are the empty ones.

  A frame is well formed (\<open>wf_frame\<close>) when its row labels are distinct, its column
  labels are distinct and every row has one cell per column. The statements of the
  specification are mappings, so they are well formed; pandas itself also admits
  repeated labels. With a repeated row label \<open>.loc\<close> is modelled by the first such row, and
  the alignment of two Series of which one has repeated labels keeps the first cell of
  each label; pandas does more there, and no property below is about such an input
  except where it says so.
\<close>

type_synonym period = int

type_synonym 'l series = "('l \<times> fval) list"

record ('i, 'c) dataframe =
  df_index :: "'i list"
  df_columns :: "'c list"
  df_values :: "fval list list"

type_synonym statement = "(string, period) dataframe"

definition empty_series :: "'l series" where
  "empty_series = []"

definition empty_frame :: "('i, 'c) dataframe" where
  "empty_frame = \<lparr>df_index = [], df_columns = [], df_values = []\<rparr>"

definition wf_frame :: "('i, 'c) dataframe \<Rightarrow> bool" where
  "wf_frame df \<longleftrightarrow>
     distinct (df_index df) \<and> distinct (df_columns df) \<and>
     length (df_values df) = length (df_index df) \<and>
     list_all (\<lambda>r. length r = length (df_columns df)) (df_values df)"

text \<open>\<open>df.empty\<close>: an axis of length zero.\<close>

definition df_empty :: "('i, 'c) dataframe \<Rightarrow> bool" where
  "df_empty df \<longleftrightarrow> df_index df = [] \<or> df_columns df = []"

datatype py_error = KeyError string | IndexError | ValueError

text \<open>\<open>df.loc[label]\<close>: the row with that label as a Series over the columns; KeyError
  when no row has the label. \<open>row_values\<close> is the lookup in the row labels alone.\<close>

definition row_values :: "('i, 'c) dataframe \<Rightarrow> 'i \<Rightarrow> fval list option" where
  "row_values df label = map_of (zip (df_index df) (df_values df)) label"

definition loc :: "(string, 'c) dataframe \<Rightarrow> string \<Rightarrow> py_error + 'c series" where
  "loc df label =
     (case row_values df label of
        None \<Rightarrow> Inl (KeyError label)
      | Some r \<Rightarrow> Inr (zip (df_columns df) r))"

text \<open>The cell a Series holds under a label; reindexing to a label the Series lacks
  gives NaN.\<close>

definition value_at :: "'l series \<Rightarrow> 'l \<Rightarrow> fval" where
  "value_at s l = (case map_of s l of None \<Rightarrow> NaN | Some v \<Rightarrow> v)"

text \<open>
  Arithmetic of two Series. Equal indexes: cell by cell, in place. Different indexes:
  pandas aligns both on the outer join of the labels, sorted ascending, and a label
  missing from an operand counts as NaN there.
\<close>

definition align_outer :: "('l::linorder) list \<Rightarrow> 'l list \<Rightarrow> 'l list" where
  "align_outer ia ib = sort (remdups (ia @ ib))"

definition series_binop ::
    "(fval \<Rightarrow> fval \<Rightarrow> fval) \<Rightarrow> ('l::linorder) series \<Rightarrow> 'l series \<Rightarrow> 'l series" where
  "series_binop f a b =
     (if map fst a = map fst b
      then map (\<lambda>(x, y). (fst x, f (snd x) (snd y))) (zip a b)
      else map (\<lambda>l. (l, f (value_at a l) (value_at b l)))
               (align_outer (map fst a) (map fst b)))"

definition series_div :: "('l::linorder) series \<Rightarrow> 'l series \<Rightarrow> 'l series" where
  "series_div = series_binop fdiv"

definition series_add :: "('l::linorder) series \<Rightarrow> 'l series \<Rightarrow> 'l series" where
  "series_add = series_binop fadd"

text \<open>Arithmetic of a Series and a number.\<close>

definition series_mul_scalar :: "'l series \<Rightarrow> rat \<Rightarrow> 'l series" where
  "series_mul_scalar s c = map (\<lambda>(l, v). (l, fmul v (Fin c))) s"

definition series_sub_scalar :: "'l series \<Rightarrow> rat \<Rightarrow> 'l series" where
  "series_sub_scalar s c = map (\<lambda>(l, v). (l, fsub v (Fin c))) s"

section \<open>The metrics engine\<close>

record calculator =
  income_stmt :: statement
  balance_sheet :: statement
  cash_flow :: statement

definition init_calculator :: "statement \<Rightarrow> statement \<Rightarrow> statement \<Rightarrow> calculator" where
  "init_calculator i b c = \<lparr>income_stmt = i, balance_sheet = b, cash_flow = c\<rparr>"

text \<open>
  Every metric is a \<open>try\<close> block with a handler for any exception that prints one line
  and returns \<open>pd.Series()\<close>. The block is a value of \<open>py_error + series\<close>; the handler
  turns it into a Series and the lines printed so far.
\<close>

type_synonym stdout = "string list"

fun str_of_error :: "py_error \<Rightarrow> string" where
  "str_of_error (KeyError k) = [CHR 0x27] @ k @ [CHR 0x27]"
| "str_of_error IndexError = ''single positional indexer is out-of-bounds''"
| "str_of_error ValueError = ''cannot reindex on an axis with duplicate labels''"

definition except_print ::
    "string \<Rightarrow> py_error + period series \<Rightarrow> stdout \<Rightarrow> period series \<times> stdout" where
  "except_print what block out =
     (case block of
        Inr s \<Rightarrow> (s, out)
      | Inl e \<Rightarrow> (empty_series, out @ [''Error calculating '' @ what @ '': '' @ str_of_error e]))"

text \<open>
  \<open>Series.shift(periods)\<close> moves the cells along the index and keeps the labels; the
  cells moved in from outside are NaN. A negative count moves cells towards the front.
\<close>

definition shift :: "int \<Rightarrow> 'l series \<Rightarrow> 'l series" where
  "shift periods s =
     (let vs = map snd s; n = length vs; k = min (nat \<bar>periods\<bar>) n
      in zip (map fst s)
           (if 0 \<le> periods then replicate k NaN @ take (n - k) vs
            else drop k vs @ replicate k NaN))"

text \<open>
  \<open>Series.pct_change(periods)\<close> is \<open>data / data.shift(periods) - 1\<close>, where \<open>data\<close> is the
  Series itself when \<open>fill_method\<close> is None and the forward-filled Series when it is
  \<open>'pad'\<close>. The engine passes no \<open>fill_method\<close>; the default is \<open>'pad'\<close> up to pandas 2 and
  None from pandas 3, so the default is a parameter of the engine here.
\<close>

datatype fill_method = Pad | NoFill

fun ffill_from :: "fval \<Rightarrow> fval list \<Rightarrow> fval list" where
  "ffill_from prev [] = []"
| "ffill_from prev (v # vs) =
     (if isna v then prev # ffill_from prev vs else v # ffill_from v vs)"

definition fill :: "fill_method \<Rightarrow> 'l series \<Rightarrow> 'l series" where
  "fill fm s = (case fm of NoFill \<Rightarrow> s | Pad \<Rightarrow> zip (map fst s) (ffill_from NaN (map snd s)))"

definition pct_change :: "fill_method \<Rightarrow> int \<Rightarrow> ('l::linorder) series \<Rightarrow> 'l series" where
  "pct_change fm periods s =
     (let data = fill fm s;
          shifted = shift periods data
      in series_sub_scalar (series_div data shifted) 1)"

definition revenue_growth_try :: "fill_method \<Rightarrow> calculator \<Rightarrow> py_error + period series" where
  "revenue_growth_try fm self =
     (case loc (income_stmt self) ''Total Revenue'' of
        Inl e \<Rightarrow> Inl e
      | Inr revenue \<Rightarrow> Inr (series_mul_scalar (pct_change fm (- 1) revenue) 100))"

definition calculate_revenue_growth ::
    "fill_method \<Rightarrow> calculator \<Rightarrow> stdout \<Rightarrow> period series \<times> stdout" where
  "calculate_revenue_growth fm self =
     except_print ''revenue growth'' (revenue_growth_try fm self)"

definition gross_margin_try :: "calculator \<Rightarrow> py_error + period series" where
  "gross_margin_try self =
     (case loc (income_stmt self) ''Total Revenue'' of
        Inl e \<Rightarrow> Inl e
      | Inr revenue \<Rightarrow>
          (case loc (income_stmt self) ''Gross Profit'' of
             Inl e \<Rightarrow> Inl e
           | Inr gross_profit \<Rightarrow>
               Inr (series_mul_scalar (series_div gross_profit revenue) 100)))"

definition calculate_gross_margin :: "calculator \<Rightarrow> stdout \<Rightarrow> period series \<times> stdout" where
  "calculate_gross_margin self = except_print ''gross margin'' (gross_margin_try self)"

definition operating_margin_try :: "calculator \<Rightarrow> py_error + period series" where
  "operating_margin_try self =
     (case loc (income_stmt self) ''Total Revenue'' of
        Inl e \<Rightarrow> Inl e
      | Inr revenue \<Rightarrow>
          (case loc (income_stmt self) ''Operating Income'' of
             Inl e \<Rightarrow> Inl e
           | Inr operating_income \<Rightarrow>
               Inr (series_mul_scalar (series_div operating_income revenue) 100)))"

definition calculate_operating_margin :: "calculator \<Rightarrow> stdout \<Rightarrow> period series \<times> stdout" where
  "calculate_operating_margin self =
     except_print ''operating margin'' (operating_margin_try self)"

definition net_margin_try :: "calculator \<Rightarrow> py_error + period series" where
  "net_margin_try self =
     (case loc (income_stmt self) ''Total Revenue'' of
        Inl e \<Rightarrow> Inl e
      | Inr revenue \<Rightarrow>
          (case loc (income_stmt self) ''Net Income'' of
             Inl e \<Rightarrow> Inl e
           | Inr net_income \<Rightarrow>
               Inr (series_mul_scalar (series_div net_income revenue) 100)))"

definition calculate_net_margin :: "calculator \<Rightarrow> stdout \<Rightarrow> period series \<times> stdout" where
  "calculate_net_margin self = except_print ''net margin'' (net_margin_try self)"

definition free_cash_flow_try :: "calculator \<Rightarrow> py_error + period series" where
  "free_cash_flow_try self =
     (case loc (cash_flow self) ''Operating Cash Flow'' of
        Inl e \<Rightarrow> Inl e
      | Inr operating_cf \<Rightarrow>
          (case loc (cash_flow self) ''Capital Expenditure'' of
             Inl e \<Rightarrow> Inl e
           | Inr capex \<Rightarrow> Inr (series_add operating_cf capex)))"

definition calculate_free_cash_flow :: "calculator \<Rightarrow> stdout \<Rightarrow> period series \<times> stdout" where
  "calculate_free_cash_flow self = except_print ''free cash flow'' (free_cash_flow_try self)"

definition current_ratio_try :: "calculator \<Rightarrow> py_error + period series" where
  "current_ratio_try self =
     (case loc (balance_sheet self) ''Current Assets'' of
        Inl e \<Rightarrow> Inl e
      | Inr current_assets \<Rightarrow>
          (case loc (balance_sheet self) ''Current Liabilities'' of
             Inl e \<Rightarrow> Inl e
           | Inr current_liabilities \<Rightarrow> Inr (series_div current_assets current_liabilities)))"

definition calculate_current_ratio :: "calculator \<Rightarrow> stdout \<Rightarrow> period series \<times> stdout" where
  "calculate_current_ratio self = except_print ''current ratio'' (current_ratio_try self)"

definition debt_to_equity_try :: "calculator \<Rightarrow> py_error + period series" where
  "debt_to_equity_try self =
     (case loc (balance_sheet self) ''Total Debt'' of
        Inl e \<Rightarrow> Inl e
      | Inr total_debt \<Rightarrow>
          (case loc (balance_sheet self) ''Stockholders Equity'' of
             Inl e \<Rightarrow> Inl e
           | Inr stockholders_equity \<Rightarrow> Inr (series_div total_debt stockholders_equity)))"

definition calculate_debt_to_equity :: "calculator \<Rightarrow> stdout \<Rightarrow> period series \<times> stdout" where
  "calculate_debt_to_equity self = except_print ''debt-to-equity'' (debt_to_equity_try self)"

definition roe_try :: "calculator \<Rightarrow> py_error + period series" where
  "roe_try self =
     (case loc (income_stmt self) ''Net Income'' of
        Inl e \<Rightarrow> Inl e
      | Inr net_income \<Rightarrow>
          (case loc (balance_sheet self) ''Stockholders Equity'' of
             Inl e \<Rightarrow> Inl e
           | Inr equity \<Rightarrow> Inr (series_mul_scalar (series_div net_income equity) 100)))"

definition calculate_roe :: "calculator \<Rightarrow> stdout \<Rightarrow> period series \<times> stdout" where
  "calculate_roe self = except_print ''ROE'' (roe_try self)"

definition roa_try :: "calculator \<Rightarrow> py_error + period series" where
  "roa_try self =
     (case loc (income_stmt self) ''Net Income'' of
        Inl e \<Rightarrow> Inl e
      | Inr net_income \<Rightarrow>
          (case loc (balance_sheet self) ''Total Assets'' of
             Inl e \<Rightarrow> Inl e
           | Inr total_assets \<Rightarrow>
               Inr (series_mul_scalar (series_div net_income total_assets) 100)))"

definition calculate_roa :: "calculator \<Rightarrow> stdout \<Rightarrow> period series \<times> stdout" where
  "calculate_roa self = except_print ''ROA'' (roa_try self)"

text \<open>
  \<open>pd.DataFrame(dict of Series)\<close>: one column per entry, in the dictionary's order. The
  rows are the union of the indexes of the Series, taken one after the other
  (\<open>Index.union\<close>): an index joined with an empty or an equal one stays as it is;
  otherwise the union holds each label as often as the index that has it most often,
  sorted. Each Series is then reindexed to the union: a Series whose index is the
  union keeps its cells; another Series gives, for each label of the union, its cell
  under that label or NaN; but a Series with a repeated label cannot be reindexed,
  and pandas raises ValueError. The constructor is called outside every \<open>try\<close>.
\<close>

definition union_with_duplicates :: "'l list \<Rightarrow> 'l list \<Rightarrow> 'l list" where
  "union_with_duplicates a b =
     concat (map (\<lambda>x. replicate (max (count_list a x) (count_list b x)) x) (remdups (a @ b)))"

definition index_union :: "('l::linorder) list \<Rightarrow> 'l list \<Rightarrow> 'l list" where
  "index_union a b =
     (if b = [] \<or> a = b then a
      else if a = [] then b
      else sort (union_with_duplicates a b))"

definition union_indexes :: "('l::linorder) list list \<Rightarrow> 'l list" where
  "union_indexes ixs = (case ixs of [] \<Rightarrow> [] | i # rest \<Rightarrow> foldl index_union i rest)"

definition reindex :: "'l series \<Rightarrow> 'l list \<Rightarrow> py_error + fval list" where
  "reindex s target =
     (if map fst s = target then Inr (map snd s)
      else if distinct (map fst s) then Inr (map (value_at s) target)
      else Inl ValueError)"

text \<open>The results of a list of steps, or the error of the first step that failed.\<close>

fun collect :: "('e + 'a) list \<Rightarrow> 'e + 'a list" where
  "collect [] = Inr []"
| "collect (Inl e # rs) = Inl e"
| "collect (Inr x # rs) = (case collect rs of Inl e \<Rightarrow> Inl e | Inr xs \<Rightarrow> Inr (x # xs))"

definition DataFrame_of_dict ::
    "(string \<times> ('l::linorder) series) list \<Rightarrow> py_error + ('l, string) dataframe" where
  "DataFrame_of_dict d =
     (let idx = union_indexes (map (\<lambda>(name, s). map fst s) d)
      in case collect (map (\<lambda>(name, s). reindex s idx) d) of
           Inl e \<Rightarrow> Inl e
         | Inr cols \<Rightarrow>
             Inr \<lparr>df_index = idx,
                  df_columns = map fst d,
                  df_values = map (\<lambda>i. map (\<lambda>col. col ! i) cols) [0..<length idx]\<rparr>)"

text \<open>\<open>df.sort_index(ascending=False)\<close>: the rows reordered by label, greatest first
  (the order pandas gives rows of equal label is not modelled). The labels are periods,
  values of one ordered type, so the comparison of two labels raises nothing.\<close>

definition sort_index_descending :: "('i::linorder, 'c) dataframe \<Rightarrow> ('i, 'c) dataframe" where
  "sort_index_descending df =
     (let rows = rev (sort_key fst (zip (df_index df) (df_values df)))
      in df\<lparr>df_index := map fst rows, df_values := map snd rows\<rparr>)"

text \<open>
  \<open>calculate_all_metrics\<close>: the nine methods in turn, each with its own handler, then the
  frame of their Series and the sort, neither inside a \<open>try\<close>: an exception of the
  frame constructor leaves the method.
\<close>

definition calculate_all_metrics ::
    "fill_method \<Rightarrow> calculator \<Rightarrow> stdout
       \<Rightarrow> py_error + ((period, string) dataframe \<times> stdout)" where
  "calculate_all_metrics fm self out0 =
     (let (revenue_growth, out1) = calculate_revenue_growth fm self out0;
          (gross_margin, out2) = calculate_gross_margin self out1;
          (operating_margin, out3) = calculate_operating_margin self out2;
          (net_margin, out4) = calculate_net_margin self out3;
          (free_cash_flow, out5) = calculate_free_cash_flow self out4;
          (current_ratio, out6) = calculate_current_ratio self out5;
          (debt_to_equity, out7) = calculate_debt_to_equity self out6;
          (roe, out8) = calculate_roe self out7;
          (roa, out9) = calculate_roa self out8;
          metrics =
            [(''Revenue Growth (%)'', revenue_growth),
             (''Gross Margin (%)'', gross_margin),
             (''Operating Margin (%)'', operating_margin),
             (''Net Margin (%)'', net_margin),
             (''Free Cash Flow'', free_cash_flow),
             (''Current Ratio'', current_ratio),
             (''Debt to Equity'', debt_to_equity),
             (''ROE (%)'', roe),
             (''ROA (%)'', roa)]
      in case DataFrame_of_dict metrics of
           Inl e \<Rightarrow> Inl e
         | Inr df \<Rightarrow> Inr (sort_index_descending df, out9))"

section \<open>The cross-company aggregator\<close>

text \<open>
  \<open>companies_data\<close> is a dictionary from ticker to the data of a company, itself a
  dictionary from \<open>'income_statement'\<close>, \<open>'balance_sheet'\<close> and \<open>'cash_flow'\<close> to the
  statements (its \<open>'company_info'\<close> entry is not read here and is left out). The loop
  visits the items in insertion order; \<open>data[key]\<close> raises KeyError when the key is
  missing. A row of the comparison is a dictionary from column name to a number or a
  string. \<open>pd.DataFrame(list of dicts)\<close> has one row per dictionary, in order: the list
  of dictionaries stands for that frame.
\<close>

type_synonym company_data = "(string \<times> statement) list"

definition getitem :: "(string \<times> 'v) list \<Rightarrow> string \<Rightarrow> py_error + 'v" where
  "getitem d k = (case map_of d k of None \<Rightarrow> Inl (KeyError k) | Some v \<Rightarrow> Inr v)"

datatype cell = Num fval | Str string

type_synonym row_dict = "(string \<times> cell) list"

text \<open>\<open>df.iloc[n]\<close> for \<open>n \<ge> 0\<close>: row \<open>n\<close> as a Series over the columns; IndexError when
  the frame has no such row.\<close>

definition iloc :: "('i, 'c) dataframe \<Rightarrow> nat \<Rightarrow> py_error + 'c series" where
  "iloc df n =
     (if n < length (df_index df) then Inr (zip (df_columns df) (df_values df ! n))
      else Inl IndexError)"

definition to_dict :: "string series \<Rightarrow> row_dict" where
  "to_dict s = map (\<lambda>(name, v). (name, Num v)) s"

text \<open>\<open>d[k] = v\<close>: the value replaced where the key is, a new last entry otherwise.\<close>

fun dict_set :: "('k \<times> 'v) list \<Rightarrow> 'k \<Rightarrow> 'v \<Rightarrow> ('k \<times> 'v) list" where
  "dict_set [] k v = [(k, v)]"
| "dict_set ((k', v') # d) k v = (if k' = k then (k, v) # d else (k', v') # dict_set d k v)"

fun comparison_loop ::
    "fill_method \<Rightarrow> (string \<times> company_data) list \<Rightarrow> row_dict list \<Rightarrow> stdout
       \<Rightarrow> py_error + (row_dict list \<times> stdout)" where
  "comparison_loop fm [] comparison_data out = Inr (comparison_data, out)"
| "comparison_loop fm ((ticker, data) # items) comparison_data out =
     (case getitem data ''income_statement'' of
        Inl e \<Rightarrow> Inl e
      | Inr income \<Rightarrow>
     (case getitem data ''balance_sheet'' of
        Inl e \<Rightarrow> Inl e
      | Inr balance \<Rightarrow>
     (case getitem data ''cash_flow'' of
        Inl e \<Rightarrow> Inl e
      | Inr cash \<Rightarrow>
     (case calculate_all_metrics fm (init_calculator income balance cash) out of
        Inl e \<Rightarrow> Inl e
      | Inr (metrics, out') \<Rightarrow>
          if \<not> df_empty metrics
          then (case iloc metrics 0 of
                  Inl e \<Rightarrow> Inl e
                | Inr latest_row \<Rightarrow>
                    (let latest = to_dict latest_row;
                         latest = dict_set latest ''Company'' (Str ticker)
                     in comparison_loop fm items (comparison_data @ [latest]) out'))
          else comparison_loop fm items comparison_data out'))))"

definition create_comparison_dataframe ::
    "fill_method \<Rightarrow> (string \<times> company_data) list \<Rightarrow> stdout
       \<Rightarrow> py_error + (row_dict list \<times> stdout)" where
  "create_comparison_dataframe fm companies_data out = comparison_loop fm companies_data [] out"

section \<open>Vocabulary of the properties\<close>

text \<open>
  The nine operations by name: the key under which \<open>calculate_all_metrics\<close> files each
  Series, the method that computes it, its \<open>try\<close> block, and the rows the block reads
  with \<open>.loc\<close> (statement and label, in the order they are read).
\<close>

datatype metric =
  RevenueGrowth | GrossMargin | OperatingMargin | NetMargin | FreeCashFlow
| CurrentRatio | DebtToEquity | ROE | ROA

definition all_metrics :: "metric list" where
  "all_metrics =
     [RevenueGrowth, GrossMargin, OperatingMargin, NetMargin, FreeCashFlow,
      CurrentRatio, DebtToEquity, ROE, ROA]"

fun metric_name :: "metric \<Rightarrow> string" where
  "metric_name RevenueGrowth = ''Revenue Growth (%)''"
| "metric_name GrossMargin = ''Gross Margin (%)''"
| "metric_name OperatingMargin = ''Operating Margin (%)''"
| "metric_name NetMargin = ''Net Margin (%)''"
| "metric_name FreeCashFlow = ''Free Cash Flow''"
| "metric_name CurrentRatio = ''Current Ratio''"
| "metric_name DebtToEquity = ''Debt to Equity''"
| "metric_name ROE = ''ROE (%)''"
| "metric_name ROA = ''ROA (%)''"

fun calculate :: "fill_method \<Rightarrow> metric \<Rightarrow> calculator \<Rightarrow> stdout \<Rightarrow> period series \<times> stdout" where
  "calculate fm RevenueGrowth = calculate_revenue_growth fm"
| "calculate fm GrossMargin = calculate_gross_margin"
| "calculate fm OperatingMargin = calculate_operating_margin"
| "calculate fm NetMargin = calculate_net_margin"
| "calculate fm FreeCashFlow = calculate_free_cash_flow"
| "calculate fm CurrentRatio = calculate_current_ratio"
| "calculate fm DebtToEquity = calculate_debt_to_equity"
| "calculate fm ROE = calculate_roe"
| "calculate fm ROA = calculate_roa"

fun try_block :: "fill_method \<Rightarrow> metric \<Rightarrow> calculator \<Rightarrow> py_error + period series" where
  "try_block fm RevenueGrowth = revenue_growth_try fm"
| "try_block fm GrossMargin = gross_margin_try"
| "try_block fm OperatingMargin = operating_margin_try"
| "try_block fm NetMargin = net_margin_try"
| "try_block fm FreeCashFlow = free_cash_flow_try"
| "try_block fm CurrentRatio = current_ratio_try"
| "try_block fm DebtToEquity = debt_to_equity_try"
| "try_block fm ROE = roe_try"
| "try_block fm ROA = roa_try"

fun required_rows :: "metric \<Rightarrow> calculator \<Rightarrow> (statement \<times> string) list" where
  "required_rows RevenueGrowth self = [(income_stmt self, ''Total Revenue'')]"
| "required_rows GrossMargin self =
     [(income_stmt self, ''Total Revenue''), (income_stmt self, ''Gross Profit'')]"
| "required_rows OperatingMargin self =
     [(income_stmt self, ''Total Revenue''), (income_stmt self, ''Operating Income'')]"
| "required_rows NetMargin self =
     [(income_stmt self, ''Total Revenue''), (income_stmt self, ''Net Income'')]"
| "required_rows FreeCashFlow self =
     [(cash_flow self, ''Operating Cash Flow''), (cash_flow self, ''Capital Expenditure'')]"
| "required_rows CurrentRatio self =
     [(balance_sheet self, ''Current Assets''), (balance_sheet self, ''Current Liabilities'')]"
| "required_rows DebtToEquity self =
     [(balance_sheet self, ''Total Debt''), (balance_sheet self, ''Stockholders Equity'')]"
| "required_rows ROE self =
     [(income_stmt self, ''Net Income''), (balance_sheet self, ''Stockholders Equity'')]"
| "required_rows ROA self =
     [(income_stmt self, ''Net Income''), (balance_sheet self, ''Total Assets'')]"

text \<open>The Series an operation returns, whatever has been printed before.\<close>

definition metric_series :: "fill_method \<Rightarrow> metric \<Rightarrow> calculator \<Rightarrow> period series" where
  "metric_series fm m self =
     (case try_block fm m self of Inl e \<Rightarrow> empty_series | Inr s \<Rightarrow> s)"

text \<open>
  The seven operations that divide: the row divided and the row divided by (statement
  and label), and whether the method multiplies the quotient by 100. \<open>ratio_cell\<close> is
  what such a method does to one pair of cells, and \<open>divided_by_zero\<close> is the quotient
  numpy gives when the divisor is \<open>+0.0\<close>: an infinity of the sign of a non-zero or
  infinite dividend, NaN for a zero or NaN dividend. For the divisor \<open>-0.0\<close> the quotient
  is the negation of that.
\<close>

fun ratio_rows ::
    "metric \<Rightarrow> calculator \<Rightarrow> ((statement \<times> string) \<times> (statement \<times> string)) option" where
  "ratio_rows GrossMargin self =
     Some ((income_stmt self, ''Gross Profit''), (income_stmt self, ''Total Revenue''))"
| "ratio_rows OperatingMargin self =
     Some ((income_stmt self, ''Operating Income''), (income_stmt self, ''Total Revenue''))"
| "ratio_rows NetMargin self =
     Some ((income_stmt self, ''Net Income''), (income_stmt self, ''Total Revenue''))"
| "ratio_rows CurrentRatio self =
     Some ((balance_sheet self, ''Current Assets''), (balance_sheet self, ''Current Liabilities''))"
| "ratio_rows DebtToEquity self =
     Some ((balance_sheet self, ''Total Debt''), (balance_sheet self, ''Stockholders Equity''))"
| "ratio_rows ROE self =
     Some ((income_stmt self, ''Net Income''), (balance_sheet self, ''Stockholders Equity''))"
| "ratio_rows ROA self =
     Some ((income_stmt self, ''Net Income''), (balance_sheet self, ''Total Assets''))"
| "ratio_rows RevenueGrowth self = None"
| "ratio_rows FreeCashFlow self = None"

fun percent :: "metric \<Rightarrow> bool" where
  "percent CurrentRatio = False"
| "percent DebtToEquity = False"
| "percent FreeCashFlow = False"
| "percent _ = True"

definition ratio_cell :: "metric \<Rightarrow> fval \<Rightarrow> fval \<Rightarrow> fval" where
  "ratio_cell m n d = (if percent m then fmul (fdiv n d) (Fin 100) else fdiv n d)"

definition divided_by_zero :: "fval \<Rightarrow> fval" where
  "divided_by_zero n =
     (case n of
        Fin a \<Rightarrow> (if a = 0 then NaN else signed_inf (0 < a))
      | NegZero \<Rightarrow> NaN
      | _ \<Rightarrow> n)"

text \<open>
  The rule a quotient \<open>v\<close> of dividend \<open>n\<close> and divisor \<open>d\<close> obeys where the divisor is a
  zero or undefined.
\<close>

definition divisor_rule :: "fval \<Rightarrow> fval \<Rightarrow> fval \<Rightarrow> bool" where
  "divisor_rule n d v \<longleftrightarrow>
     (d = Fin 0 \<longrightarrow> v = divided_by_zero n) \<and>
     (d = NegZero \<longrightarrow> v = fneg (divided_by_zero n)) \<and>
     (d = NaN \<longrightarrow> v = NaN)"

text \<open>What the caller of a method receives: the exception raised or the value returned.\<close>

definition returned :: "py_error + ('a \<times> stdout) \<Rightarrow> py_error + 'a" where
  "returned r = map_sum id fst r"

text \<open>The cell of a frame at a row label and a column label, when the frame has both.\<close>

definition df_cell :: "('i, 'c) dataframe \<Rightarrow> 'i \<Rightarrow> 'c \<Rightarrow> fval option" where
  "df_cell df i c =
     (case row_values df i of None \<Rightarrow> None | Some r \<Rightarrow> map_of (zip (df_columns df) r) c)"

text \<open>Columns stored newest-first: every label is later than the ones after it.\<close>

definition newest_first :: "period list \<Rightarrow> bool" where
  "newest_first ps = sorted_wrt (\<lambda>p q. q < p) ps"

definition oldest_first :: "period list \<Rightarrow> bool" where
  "oldest_first ps = sorted_wrt (\<lambda>p q. p < q) ps"

text \<open>
  What \<open>calculate_revenue_growth\<close> does to one cell: \<open>(a / b - 1) * 100\<close>, with \<open>a\<close> the
  cell and \<open>b\<close> the cell it is compared with. \<open>fill_values\<close> is the effect of the fill of
  \<open>pct_change\<close> on the cells of a Series.
\<close>

definition growth_cell :: "fval \<Rightarrow> fval \<Rightarrow> fval" where
  "growth_cell a b = fmul (fsub (fdiv a b) (Fin 1)) (Fin 100)"

definition fill_values :: "fill_method \<Rightarrow> fval list \<Rightarrow> fval list" where
  "fill_values fm vs = (case fm of NoFill \<Rightarrow> vs | Pad \<Rightarrow> ffill_from NaN vs)"

text \<open>
  Chronology, as the specification words it: the period before \<open>t\<close> among the periods
  \<open>ps\<close> is the latest one earlier than \<open>t\<close>, the period after \<open>t\<close> the earliest one later
  than \<open>t\<close>. The growth the specification asks for at \<open>t\<close> is
  \<open>(revenue[t] - revenue[t-1]) / revenue[t-1] * 100\<close>, undefined without a period before
  (\<open>spec_revenue_growth\<close>). \<open>chronological_growth\<close> is the same growth in the form the code
  computes it, \<open>(revenue[t] / revenue[t-1] - 1) * 100\<close>; in float64 the two forms differ by
  rounding.
\<close>

definition prior_period :: "period list \<Rightarrow> period \<Rightarrow> period option" where
  "prior_period ps t =
     (let earlier = filter (\<lambda>p. p < t) ps
      in if earlier = [] then None else Some (Max (set earlier)))"

definition next_period :: "period list \<Rightarrow> period \<Rightarrow> period option" where
  "next_period ps t =
     (let later = filter (\<lambda>p. t < p) ps
      in if later = [] then None else Some (Min (set later)))"

definition spec_growth_cell :: "fval \<Rightarrow> fval \<Rightarrow> fval" where
  "spec_growth_cell a b = fmul (fdiv (fsub a b) b) (Fin 100)"

definition spec_revenue_growth :: "period series \<Rightarrow> period \<Rightarrow> fval" where
  "spec_revenue_growth revenue t =
     (case prior_period (map fst revenue) t of
        None \<Rightarrow> NaN
      | Some t' \<Rightarrow> spec_growth_cell (value_at revenue t) (value_at revenue t'))"

definition chronological_growth :: "period series \<Rightarrow> period \<Rightarrow> fval" where
  "chronological_growth revenue t =
     (case prior_period (map fst revenue) t of
        None \<Rightarrow> NaN
      | Some t' \<Rightarrow> growth_cell (value_at revenue t) (value_at revenue t'))"

text \<open>
  The fill of \<open>pct_change\<close> leaves a row as it is when pandas does not fill or the row has
  no NaN.
\<close>

definition fill_keeps :: "fill_method \<Rightarrow> fval list \<Rightarrow> bool" where
  "fill_keeps fm vs \<longleftrightarrow> fm = NoFill \<or> list_all (\<lambda>v. \<not> isna v) vs"

text \<open>
  A StatementSet of the specification has statements that are mappings, from line item
  to period to value: the three frames are well formed (\<open>wf_statements\<close>), and in
  particular no period occurs twice among the columns of a statement
  (\<open>distinct_periods\<close>). The data of a company are a StatementSet when they hold the
  three statements and these are well formed.
\<close>

definition distinct_periods :: "calculator \<Rightarrow> bool" where
  "distinct_periods self \<longleftrightarrow>
     distinct (df_columns (income_stmt self)) \<and>
     distinct (df_columns (balance_sheet self)) \<and>
     distinct (df_columns (cash_flow self))"

definition wf_statements :: "calculator \<Rightarrow> bool" where
  "wf_statements self \<longleftrightarrow>
     wf_frame (income_stmt self) \<and> wf_frame (balance_sheet self) \<and> wf_frame (cash_flow self)"

definition company_calculator :: "company_data \<Rightarrow> calculator option" where
  "company_calculator data =
     (case map_of data ''income_statement'' of
        None \<Rightarrow> None
      | Some i \<Rightarrow>
          (case map_of data ''balance_sheet'' of
             None \<Rightarrow> None
           | Some b \<Rightarrow>
               (case map_of data ''cash_flow'' of
                  None \<Rightarrow> None
                | Some c \<Rightarrow> Some (init_calculator i b c))))"

definition statement_set :: "company_data \<Rightarrow> bool" where
  "statement_set data =
     (case company_calculator data of None \<Rightarrow> False | Some self \<Rightarrow> wf_statements self)"

text \<open>
  The nine Series under their names, as \<open>calculate_all_metrics\<close> hands them to the frame
  constructor, and the frame the constructor builds of Series that need no check: the
  union of the indexes as rows, and in each row the cell of each Series under the label
  of the row.
\<close>

definition named_series :: "fill_method \<Rightarrow> calculator \<Rightarrow> (string \<times> period series) list" where
  "named_series fm self = map (\<lambda>m. (metric_name m, metric_series fm m self)) all_metrics"

definition outer_join :: "(string \<times> ('l::linorder) series) list \<Rightarrow> ('l, string) dataframe" where
  "outer_join d =
     (let idx = union_indexes (map (\<lambda>(name, s). map fst s) d)
      in \<lparr>df_index = idx,
          df_columns = map fst d,
          df_values = map (\<lambda>l. map (\<lambda>(name, s). value_at s l) d) idx\<rparr>)"

text \<open>The table of a calculator whose Series need no check: the frame, sorted.\<close>

definition metrics_frame :: "fill_method \<Rightarrow> calculator \<Rightarrow> (period, string) dataframe" where
  "metrics_frame fm self = sort_index_descending (outer_join (named_series fm self))"

text \<open>
  The aggregator as the specification words it: the MetricsTable of a company, when the
  engine returns one; the ComparisonRow made of a MetricsTable, its first row with the
  company identifier attached; and the ComparisonTable, the rows of the companies whose
  MetricsTable is not empty, in the order of the companies.
\<close>

definition metrics_table ::
    "fill_method \<Rightarrow> company_data \<Rightarrow> (period, string) dataframe option" where
  "metrics_table fm data =
     (case company_calculator data of
        None \<Rightarrow> None
      | Some self \<Rightarrow>
          (case calculate_all_metrics fm self [] of
             Inl e \<Rightarrow> None
           | Inr (table, out) \<Rightarrow> Some table))"

definition comparison_row :: "string \<Rightarrow> (period, string) dataframe \<Rightarrow> row_dict" where
  "comparison_row ticker table =
     map (\<lambda>(name, v). (name, Num v)) (zip (df_columns table) (hd (df_values table)))
     @ [(''Company'', Str ticker)]"

definition spec_comparison :: "fill_method \<Rightarrow> (string \<times> company_data) list \<Rightarrow> row_dict list" where
  "spec_comparison fm companies =
     concat (map (\<lambda>(ticker, data).
                    case metrics_table fm data of
                      None \<Rightarrow> []
                    | Some table \<Rightarrow>
                        if df_empty table then [] else [comparison_row ticker table])
              companies)"

section \<open>Example statements\<close>

text \<open>Small statements on which the properties below are evaluated.\<close>

definition example_cash_flow :: statement where
  "example_cash_flow =
     \<lparr>df_index = [''Operating Cash Flow'', ''Capital Expenditure''],
      df_columns = [2023, 2022],
      df_values = [[Fin 500, Fin 450], [Fin (- 120), Fin (- 100)]]\<rparr>"

definition example_income_statement :: statement where
  "example_income_statement =
     \<lparr>df_index = [''Total Revenue'', ''Gross Profit'', ''Operating Income'', ''Net Income''],
      df_columns = [2023, 2022],
      df_values = [[Fin 200, Fin 100], [Fin 50, Fin 40], [Fin 30, Fin 20], [Fin 40, Fin 15]]\<rparr>"

definition example_income_oldest_first :: statement where
  "example_income_oldest_first =
     \<lparr>df_index = [''Total Revenue'', ''Gross Profit''],
      df_columns = [2022, 2023],
      df_values = [[Fin 100, Fin 200], [Fin 40, Fin 50]]\<rparr>"

definition example_income_zero_revenue :: statement where
  "example_income_zero_revenue =
     \<lparr>df_index = [''Total Revenue'', ''Gross Profit''],
      df_columns = [2023, 2022],
      df_values = [[Fin 120, Fin 0], [Fin 54, Fin 40]]\<rparr>"

definition example_income_negative_zero :: statement where
  "example_income_negative_zero =
     \<lparr>df_index = [''Total Revenue'', ''Gross Profit''],
      df_columns = [2023, 2022],
      df_values = [[Fin 120, NegZero], [Fin 54, Fin 40]]\<rparr>"

definition example_income_with_gaps :: statement where
  "example_income_with_gaps =
     \<lparr>df_index = [''Total Revenue''],
      df_columns = [2024, 2023, 2022, 2021],
      df_values = [[NaN, Fin 200, NaN, Fin 100]]\<rparr>"

definition example_income_repeated_period :: statement where
  "example_income_repeated_period =
     \<lparr>df_index = [''Total Revenue'', ''Gross Profit''],
      df_columns = [2023, 2023],
      df_values = [[Fin 200, Fin 100], [Fin 50, Fin 40]]\<rparr>"

definition example_company :: company_data where
  "example_company =
     [(''income_statement'', example_income_statement),
      (''balance_sheet'', empty_frame),
      (''cash_flow'', example_cash_flow)]"

definition example_company_no_data :: company_data where
  "example_company_no_data =
     [(''income_statement'', empty_frame),
      (''balance_sheet'', empty_frame),
      (''cash_flow'', empty_frame)]"

definition example_company_missing_key :: company_data where
  "example_company_missing_key =
     [(''income_statement'', example_income_statement),
      (''balance_sheet'', empty_frame)]"

definition example_company_repeated_period :: company_data where
  "example_company_repeated_period =
     [(''income_statement'', example_income_repeated_period),
      (''balance_sheet'', empty_frame),
      (''cash_flow'', example_cash_flow)]"

section \<open>Facts about the pandas operations\<close>

lemma loc_Some: "row_values df l = Some r \<Longrightarrow> loc df l = Inr (zip (df_columns df) r)"
  by (simp add: loc_def)

lemma wf_row_length:
  assumes "wf_frame df" and "row_values df l = Some r"
  shows "length r = length (df_columns df)"
proof -
  from assms(2) have "(l, r) \<in> set (zip (df_index df) (df_values df))"
    unfolding row_values_def by (rule map_of_SomeD)
  then have "r \<in> set (df_values df)" by (rule set_zip_rightD)
  with assms(1) show ?thesis by (simp add: wf_frame_def list_all_iff)
qed

lemma series_binop_same_index:
  assumes "length xs = length cs" and "length ys = length cs"
  shows "series_binop f (zip cs xs) (zip cs ys) = zip cs (map (\<lambda>(x, y). f x y) (zip xs ys))"
proof -
  have "map fst (zip cs xs) = map fst (zip cs ys)" using assms by simp
  moreover have "map (\<lambda>(x, y). (fst x, f (snd x) (snd y))) (zip (zip cs xs) (zip cs ys))
      = zip cs (map (\<lambda>(x, y). f x y) (zip xs ys))"
    using assms
  proof (induction cs arbitrary: xs ys)
    case Nil then show ?case by simp
  next
    case (Cons c cs)
    then obtain x xs' y ys' where "xs = x # xs'" "ys = y # ys'"
      by (metis length_Suc_conv)
    with Cons show ?case by simp
  qed
  ultimately show ?thesis by (simp add: series_binop_def)
qed

lemma value_at_zip:
  assumes "distinct cs" and "length vs = length cs" and "i < length cs"
  shows "value_at (zip cs vs) (cs ! i) = vs ! i"
proof -
  have "map_of (zip cs vs) (cs ! i) = Some (vs ! i)"
    using assms by (simp add: map_of_zip_nth)
  then show ?thesis by (simp add: value_at_def)
qed

lemma fst_except_print:
  "fst (except_print what block out) = (case block of Inl e \<Rightarrow> empty_series | Inr s \<Rightarrow> s)"
  by (simp add: except_print_def split: sum.splits)

section \<open>Free cash flow\<close>

text \<open>
  C4. When the cash-flow statement has both the 'Operating Cash Flow' row and the
  'Capital Expenditure' row, \<open>calculate_free_cash_flow\<close> returns, for each period of the
  statement, the sum of the two cells of that period, and prints nothing; a period with
  Operating Cash Flow 500 and Capital Expenditure -120 has Free Cash Flow 380.
\<close>

theorem free_cash_flow_is_sum:
  assumes wf: "wf_frame (cash_flow self)"
    and ocf: "row_values (cash_flow self) ''Operating Cash Flow'' = Some operating_cf"
    and cap: "row_values (cash_flow self) ''Capital Expenditure'' = Some capex"
  shows "calculate_free_cash_flow self out =
           (zip (df_columns (cash_flow self)) (map (\<lambda>(x, y). fadd x y) (zip operating_cf capex)), out)
         \<and> (\<forall>i < length (df_columns (cash_flow self)).
              value_at (fst (calculate_free_cash_flow self out)) (df_columns (cash_flow self) ! i)
                = fadd (operating_cf ! i) (capex ! i)
              \<and> (operating_cf ! i = Fin 500 \<and> capex ! i = Fin (- 120) \<longrightarrow>
                   value_at (fst (calculate_free_cash_flow self out))
                     (df_columns (cash_flow self) ! i) = Fin 380))"
proof -
  let ?cols = "df_columns (cash_flow self)"
  let ?sum = "map (\<lambda>(x, y). fadd x y) (zip operating_cf capex)"
  have l1: "length operating_cf = length ?cols" using wf ocf by (rule wf_row_length)
  have l2: "length capex = length ?cols" using wf cap by (rule wf_row_length)
  have d: "distinct ?cols" using wf by (simp add: wf_frame_def)
  have blk: "free_cash_flow_try self = Inr (zip ?cols ?sum)"
    by (simp add: free_cash_flow_try_def loc_Some[OF ocf] loc_Some[OF cap] series_add_def
        series_binop_same_index[OF l1 l2])
  have res: "calculate_free_cash_flow self out = (zip ?cols ?sum, out)"
    by (simp add: calculate_free_cash_flow_def blk except_print_def)
  have cell: "value_at (zip ?cols ?sum) (?cols ! i) = fadd (operating_cf ! i) (capex ! i)"
    if "i < length ?cols" for i
  proof -
    have "length ?sum = length ?cols" using l1 l2 by simp
    then have "value_at (zip ?cols ?sum) (?cols ! i) = ?sum ! i"
      using d that by (simp add: value_at_zip)
    also have "\<dots> = fadd (operating_cf ! i) (capex ! i)"
      using that l1 l2 by simp
    finally show ?thesis .
  qed
  show ?thesis
  proof (intro conjI allI impI)
    show "calculate_free_cash_flow self out = (zip ?cols ?sum, out)" by (rule res)
  next
    fix i assume "i < length ?cols"
    then show "value_at (fst (calculate_free_cash_flow self out)) (?cols ! i)
        = fadd (operating_cf ! i) (capex ! i)"
      by (simp add: res cell)
  next
    fix i assume "i < length ?cols" and "operating_cf ! i = Fin 500 \<and> capex ! i = Fin (- 120)"
    then show "value_at (fst (calculate_free_cash_flow self out)) (?cols ! i) = Fin 380"
      by (simp add: res cell)
  qed
qed

theorem free_cash_flow_is_sum_witness:
  "wf_frame example_cash_flow
   \<and> row_values example_cash_flow ''Operating Cash Flow'' = Some [Fin 500, Fin 450]
   \<and> row_values example_cash_flow ''Capital Expenditure'' = Some [Fin (- 120), Fin (- 100)]
   \<and> calculate_free_cash_flow (init_calculator empty_frame empty_frame example_cash_flow) []
       = ([(2023, Fin 380), (2022, Fin 350)], [])"
proof -
  let ?c = "init_calculator empty_frame empty_frame example_cash_flow"
  have cf: "cash_flow ?c = example_cash_flow" by (simp add: init_calculator_def)
  have wf: "wf_frame (cash_flow ?c)"
    unfolding cf by (simp add: wf_frame_def example_cash_flow_def)
  have ocf: "row_values (cash_flow ?c) ''Operating Cash Flow'' = Some [Fin 500, Fin 450]"
    unfolding cf by (simp add: row_values_def example_cash_flow_def)
  have cap: "row_values (cash_flow ?c) ''Capital Expenditure'' = Some [Fin (- 120), Fin (- 100)]"
    unfolding cf by (simp add: row_values_def example_cash_flow_def)
  from free_cash_flow_is_sum[OF wf ocf cap, of "[]"]
  have "calculate_free_cash_flow ?c [] =
      (zip (df_columns (cash_flow ?c))
         (map (\<lambda>(x, y). fadd x y) (zip [Fin 500, Fin 450] [Fin (- 120), Fin (- 100)])), [])"
    by (rule conjunct1)
  then have "calculate_free_cash_flow ?c [] = ([(2023, Fin 380), (2022, Fin 350)], [])"
    unfolding cf by (simp add: example_cash_flow_def)
  with wf ocf cap show ?thesis unfolding cf by simp
qed

lemmas try_defs =
  revenue_growth_try_def gross_margin_try_def operating_margin_try_def net_margin_try_def
  free_cash_flow_try_def current_ratio_try_def debt_to_equity_try_def roe_try_def roa_try_def

lemmas calculate_defs =
  calculate_revenue_growth_def calculate_gross_margin_def calculate_operating_margin_def
  calculate_net_margin_def calculate_free_cash_flow_def calculate_current_ratio_def
  calculate_debt_to_equity_def calculate_roe_def calculate_roa_def

lemma row_values_empty_frame: "row_values empty_frame label = None"
  by (simp add: row_values_def empty_frame_def)

lemma calculate_eq:
  "\<exists>what. calculate fm m self = except_print what (try_block fm m self)"
  by (cases m) (auto simp: calculate_defs)

lemma fst_calculate:
  "fst (calculate fm m self out) = (case try_block fm m self of Inl e \<Rightarrow> empty_series | Inr s \<Rightarrow> s)"
  using calculate_eq[of fm m self] by (auto simp: fst_except_print)

lemma try_block_missing:
  assumes "(st, label) \<in> set (required_rows m self)" and "row_values st label = None"
  shows "\<exists>e. try_block fm m self = Inl e"
  using assms by (cases m) (auto simp: try_defs loc_def split: option.splits)

section \<open>Missing rows and empty statements\<close>

text \<open>
  C3. For each of the nine operations: when a row the operation reads is absent from its
  statement, or that statement is the empty frame, the \<open>try\<close> block raises, the handler
  prints one line, and the operation returns the empty Series; no exception leaves the
  operation.
\<close>

theorem missing_row_gives_empty_series:
  assumes "(st, label) \<in> set (required_rows m self)"
    and "row_values st label = None \<or> st = empty_frame"
  shows "(\<exists>e. try_block fm m self = Inl e)
         \<and> fst (calculate fm m self out) = empty_series
         \<and> (\<exists>line. snd (calculate fm m self out) = out @ [line])"
proof -
  from assms(2) have "row_values st label = None"
    by (auto simp: row_values_empty_frame)
  with assms(1) obtain e where e: "try_block fm m self = Inl e"
    using try_block_missing by blast
  obtain what where w: "calculate fm m self = except_print what (try_block fm m self)"
    using calculate_eq by blast
  show ?thesis
    by (simp add: e w except_print_def)
qed

theorem missing_row_gives_empty_series_witness:
  "(empty_frame, ''Stockholders Equity'')
      \<in> set (required_rows ROE (init_calculator example_income_statement empty_frame empty_frame))
   \<and> (row_values (empty_frame :: statement) ''Stockholders Equity'' = None
        \<or> (empty_frame :: statement) = empty_frame)
   \<and> (\<exists>e. try_block Pad ROE (init_calculator example_income_statement empty_frame empty_frame) = Inl e)
   \<and> fst (calculate Pad ROE (init_calculator example_income_statement empty_frame empty_frame) [])
        = empty_series
   \<and> (\<exists>line. snd (calculate Pad ROE
          (init_calculator example_income_statement empty_frame empty_frame) []) = [] @ [line])"
proof -
  let ?c = "init_calculator example_income_statement empty_frame empty_frame"
  have m: "(empty_frame, ''Stockholders Equity'') \<in> set (required_rows ROE ?c)"
    by (simp add: init_calculator_def)
  have r: "row_values (empty_frame :: statement) ''Stockholders Equity'' = None
        \<or> (empty_frame :: statement) = empty_frame"
    by simp
  from missing_row_gives_empty_series[OF m r, of Pad "[]"] m r show ?thesis
    by blast
qed

section \<open>Facts about revenue growth\<close>

lemma length_ffill_from [simp]: "length (ffill_from x vs) = length vs"
  by (induction vs arbitrary: x) auto

lemma length_fill_values [simp]: "length (fill_values fm vs) = length vs"
  by (cases fm) (simp_all add: fill_values_def)

lemma fill_zip:
  "length vs = length cs \<Longrightarrow> fill fm (zip cs vs) = zip cs (fill_values fm vs)"
  by (cases fm) (simp_all add: fill_def fill_values_def)

lemma shift_neg1_zip:
  "length vs = length cs \<Longrightarrow>
     shift (- 1) (zip cs vs) = zip cs (drop 1 vs @ replicate (min 1 (length vs)) NaN)"
proof -
  assume l: "length vs = length cs"
  have d: "drop (min 1 (length vs)) vs = drop 1 vs" by (cases vs) simp_all
  have m: "map snd (zip cs vs) = vs" "map fst (zip cs vs) = cs" using l by simp_all
  have "shift (- 1) (zip cs vs) =
      zip cs (drop (min 1 (length vs)) vs @ replicate (min 1 (length vs)) NaN)"
    unfolding shift_def Let_def m by simp
  then show ?thesis by (simp only: d)
qed

lemma growth_cell_NaN [simp]: "growth_cell a NaN = NaN"
  by (cases a) (simp_all add: growth_cell_def fsub_def)

lemma series_mul_scalar_zip:
  "series_mul_scalar (zip cs vs) c = zip cs (map (\<lambda>v. fmul v (Fin c)) vs)"
  by (simp add: series_mul_scalar_def zip_map2)

lemma series_sub_scalar_zip:
  "series_sub_scalar (zip cs vs) c = zip cs (map (\<lambda>v. fsub v (Fin c)) vs)"
  by (simp add: series_sub_scalar_def zip_map2)

lemma revenue_growth_zip:
  assumes "length vs = length cs"
  shows "series_mul_scalar (pct_change fm (- 1) (zip cs vs)) 100 =
     zip cs (map (\<lambda>(a, b). growth_cell a b)
       (zip (fill_values fm vs)
            (drop 1 (fill_values fm vs) @ replicate (min 1 (length vs)) NaN)))"
proof -
  let ?d = "fill_values fm vs"
  let ?s = "drop 1 ?d @ replicate (min 1 (length vs)) NaN"
  have ld: "length ?d = length cs" using assms by simp
  have ls: "length ?s = length cs" using assms by (cases vs) auto
  have sh: "shift (- 1) (zip cs ?d) = zip cs ?s"
    using shift_neg1_zip[OF ld] by simp
  have "pct_change fm (- 1) (zip cs vs) =
      series_sub_scalar (series_div (zip cs ?d) (zip cs ?s)) 1"
    by (simp only: pct_change_def Let_def fill_zip[OF assms] sh)
  also have "\<dots> = series_sub_scalar (zip cs (map (\<lambda>(x, y). fdiv x y) (zip ?d ?s))) 1"
    by (simp only: series_div_def series_binop_same_index[OF ld ls])
  also have "\<dots> = zip cs (map (\<lambda>v. fsub v (Fin 1)) (map (\<lambda>(x, y). fdiv x y) (zip ?d ?s)))"
    by (simp only: series_sub_scalar_zip)
  finally have "pct_change fm (- 1) (zip cs vs) =
      zip cs (map (\<lambda>v. fsub v (Fin 1)) (map (\<lambda>(x, y). fdiv x y) (zip ?d ?s)))" .
  then show ?thesis
    by (simp add: series_mul_scalar_zip growth_cell_def split_def comp_def)
qed

lemma filter_after_nth:
  assumes "sorted_wrt R xs" and "\<And>x y. R x y \<Longrightarrow> \<not> R y x" and "i < length xs"
  shows "filter (R (xs ! i)) xs = drop (Suc i) xs"
  using assms(1,3)
proof (induction xs arbitrary: i)
  case Nil
  then show ?case by simp
next
  case (Cons x xs)
  have irr: "\<not> R x x" using assms(2) by blast
  show ?case
  proof (cases i)
    case 0
    have "filter (R x) xs = xs" using Cons.prems(1) by (simp add: filter_id_conv)
    with 0 irr show ?thesis by simp
  next
    case (Suc j)
    with Cons.prems have j: "j < length xs" and "R x (xs ! j)" by auto
    then have "\<not> R (xs ! j) x" using assms(2) by blast
    moreover have "filter (R (xs ! j)) xs = drop (Suc j) xs"
      using Cons.IH[OF _ j] Cons.prems(1) by simp
    ultimately show ?thesis using Suc by simp
  qed
qed

lemma prior_period_newest_first:
  assumes "newest_first ps" and "i < length ps"
  shows "prior_period ps (ps ! i) = (if Suc i < length ps then Some (ps ! Suc i) else None)"
proof -
  have f: "filter (\<lambda>p. p < ps ! i) ps = drop (Suc i) ps"
    using filter_after_nth[of "\<lambda>p q. q < p" ps i] assms by (simp add: newest_first_def)
  show ?thesis
  proof (cases "Suc i < length ps")
    case False
    then show ?thesis by (simp add: prior_period_def f)
  next
    case True
    then have d: "drop (Suc i) ps = ps ! Suc i # drop (Suc (Suc i)) ps"
      by (simp add: Cons_nth_drop_Suc)
    have "sorted_wrt (\<lambda>p q. q < p) (drop (Suc i) ps)"
      using assms(1) by (simp add: newest_first_def sorted_wrt_drop)
    then have "\<forall>q \<in> set (drop (Suc (Suc i)) ps). q < ps ! Suc i"
      unfolding d by simp
    then have "Max (set (drop (Suc i) ps)) = ps ! Suc i"
      unfolding d by (intro Max_eqI) auto
    with True show ?thesis by (simp add: prior_period_def f Let_def d)
  qed
qed

lemma next_period_oldest_first:
  assumes "oldest_first ps" and "i < length ps"
  shows "next_period ps (ps ! i) = (if Suc i < length ps then Some (ps ! Suc i) else None)"
proof -
  have f: "filter (\<lambda>p. ps ! i < p) ps = drop (Suc i) ps"
    using filter_after_nth[of "\<lambda>p q. p < q" ps i] assms by (simp add: oldest_first_def)
  show ?thesis
  proof (cases "Suc i < length ps")
    case False
    then show ?thesis by (simp add: next_period_def f)
  next
    case True
    then have d: "drop (Suc i) ps = ps ! Suc i # drop (Suc (Suc i)) ps"
      by (simp add: Cons_nth_drop_Suc)
    have "sorted_wrt (\<lambda>p q. p < q) (drop (Suc i) ps)"
      using assms(1) by (simp add: oldest_first_def sorted_wrt_drop)
    then have "\<forall>q \<in> set (drop (Suc (Suc i)) ps). ps ! Suc i < q"
      unfolding d by simp
    then have "Min (set (drop (Suc i) ps)) = ps ! Suc i"
      unfolding d by (intro Min_eqI) auto
    with True show ?thesis by (simp add: next_period_def f Let_def d)
  qed
qed

lemma newest_first_distinct: "newest_first ps \<Longrightarrow> distinct ps"
  unfolding newest_first_def by (induction ps) auto

lemma oldest_first_distinct: "oldest_first ps \<Longrightarrow> distinct ps"
  unfolding oldest_first_def by (induction ps) auto

lemma ffill_from_id: "list_all (\<lambda>v. \<not> isna v) vs \<Longrightarrow> ffill_from x vs = vs"
  by (induction vs arbitrary: x) auto

lemma fill_values_id: "fill_keeps fm vs \<Longrightarrow> fill_values fm vs = vs"
  by (cases fm) (auto simp: fill_keeps_def fill_values_def ffill_from_id)

lemma shifted_nth:
  assumes "i < length d"
  shows "(drop 1 d @ replicate (min 1 (length d)) NaN) ! i
           = (if Suc i < length d then d ! Suc i else NaN)"
proof (cases "Suc i < length d")
  case True
  then have "i < length (drop 1 d)" by simp
  then have "(drop 1 d @ replicate (min 1 (length d)) NaN) ! i = drop 1 d ! i"
    by (simp only: nth_append if_True)
  with True show ?thesis by simp
next
  case False
  with assms have "length d = Suc i" by simp
  then show ?thesis by (simp add: nth_append)
qed

lemma revenue_growth_result:
  assumes wf: "wf_frame (income_stmt self)"
    and rev: "row_values (income_stmt self) ''Total Revenue'' = Some revenue"
  shows "calculate_revenue_growth fm self out =
     (zip (df_columns (income_stmt self))
        (map (\<lambda>(a, b). growth_cell a b)
           (zip (fill_values fm revenue)
              (drop 1 (fill_values fm revenue) @ replicate (min 1 (length revenue)) NaN))), out)"
proof -
  have l: "length revenue = length (df_columns (income_stmt self))"
    using wf rev by (rule wf_row_length)
  show ?thesis
    by (simp only: calculate_revenue_growth_def revenue_growth_try_def loc_Some[OF rev]
        sum.case revenue_growth_zip[OF l] except_print_def)
qed

lemma revenue_growth_nth:
  assumes wf: "wf_frame (income_stmt self)"
    and rev: "row_values (income_stmt self) ''Total Revenue'' = Some revenue"
    and i: "i < length (df_columns (income_stmt self))"
  shows "fst (calculate_revenue_growth fm self out) ! i =
     (df_columns (income_stmt self) ! i,
      if Suc i < length (df_columns (income_stmt self))
      then growth_cell (fill_values fm revenue ! i) (fill_values fm revenue ! Suc i)
      else NaN)"
proof -
  let ?d = "fill_values fm revenue"
  let ?s = "drop 1 ?d @ replicate (min 1 (length revenue)) NaN"
  have l: "length revenue = length (df_columns (income_stmt self))"
    using wf rev by (rule wf_row_length)
  have ld: "length ?d = length (df_columns (income_stmt self))" using l by simp
  have ls: "length ?s = length (df_columns (income_stmt self))"
    using l by (cases revenue) auto
  have s: "?s ! i = (if Suc i < length ?d then ?d ! Suc i else NaN)"
    using shifted_nth[of i ?d] i ld by simp
  have "map (\<lambda>(a, b). growth_cell a b) (zip ?d ?s) ! i = growth_cell (?d ! i) (?s ! i)"
    using i ld ls by simp
  also have "\<dots> = (if Suc i < length ?d then growth_cell (?d ! i) (?d ! Suc i) else NaN)"
    by (simp only: s growth_cell_NaN if_distrib[of "growth_cell (?d ! i)"])
  finally show ?thesis
    using i ld ls by (simp add: revenue_growth_result[OF wf rev])
qed

lemma revenue_growth_index:
  assumes wf: "wf_frame (income_stmt self)"
    and rev: "row_values (income_stmt self) ''Total Revenue'' = Some revenue"
  shows "map fst (fst (calculate_revenue_growth fm self out)) = df_columns (income_stmt self)"
proof -
  have l: "length revenue = length (df_columns (income_stmt self))"
    using wf rev by (rule wf_row_length)
  then have "length (drop 1 (fill_values fm revenue) @ replicate (min 1 (length revenue)) NaN)
      = length (df_columns (income_stmt self))"
    by (cases revenue) auto
  then show ?thesis
    using l by (simp add: revenue_growth_result[OF wf rev])
qed

lemma value_at_nth:
  assumes "distinct (map fst s)" and "i < length s"
  shows "value_at s (fst (s ! i)) = snd (s ! i)"
proof -
  have "map_of s (fst (s ! i)) = Some (snd (s ! i))"
    using assms by (intro map_of_is_SomeI) auto
  then show ?thesis by (simp add: value_at_def)
qed

lemma revenue_growth_value_at:
  assumes wf: "wf_frame (income_stmt self)"
    and rev: "row_values (income_stmt self) ''Total Revenue'' = Some revenue"
    and i: "i < length (df_columns (income_stmt self))"
  shows "value_at (fst (calculate_revenue_growth fm self out)) (df_columns (income_stmt self) ! i) =
     (if Suc i < length (df_columns (income_stmt self))
      then growth_cell (fill_values fm revenue ! i) (fill_values fm revenue ! Suc i)
      else NaN)"
proof -
  let ?g = "fst (calculate_revenue_growth fm self out)"
  have ix: "map fst ?g = df_columns (income_stmt self)"
    using wf rev by (rule revenue_growth_index)
  have d: "distinct (map fst ?g)" using wf by (simp add: ix wf_frame_def)
  have len: "i < length ?g" using i ix by (metis length_map)
  have n: "?g ! i = (df_columns (income_stmt self) ! i,
      if Suc i < length (df_columns (income_stmt self))
      then growth_cell (fill_values fm revenue ! i) (fill_values fm revenue ! Suc i)
      else NaN)"
    using wf rev i by (rule revenue_growth_nth)
  from value_at_nth[OF d len] show ?thesis by (simp only: n fst_conv snd_conv)
qed

lemma example_oldest_wf: "wf_frame example_income_oldest_first"
  by (simp add: wf_frame_def example_income_oldest_first_def)

section \<open>Revenue growth follows the storage order\<close>

text \<open>
  C10, as amended. \<open>calculate_revenue_growth\<close> keeps the labels of the stored 'Total
  Revenue' row in their stored order and compares, at each position, the cell of the
  row after the fill of \<open>pct_change\<close> with the cell at the next position of that filled
  row; the cell at the last position is NaN. Nothing is sorted by label. When pandas
  does not fill, or the row has no NaN, the filled row is the stored row, and position
  \<open>i\<close> of the stored row is compared with position \<open>i + 1\<close> of the stored row. So for a
  statement stored oldest-first the value under a period is the change against the
  period after it, and the latest period is the undefined one.
\<close>

theorem revenue_growth_is_positional:
  assumes wf: "wf_frame (income_stmt self)"
    and rev: "row_values (income_stmt self) ''Total Revenue'' = Some revenue"
  shows "(\<forall>i < length (df_columns (income_stmt self)).
            fst (calculate_revenue_growth fm self out) ! i =
              (df_columns (income_stmt self) ! i,
               if Suc i < length (df_columns (income_stmt self))
               then growth_cell (fill_values fm revenue ! i) (fill_values fm revenue ! Suc i)
               else NaN))
       \<and> length (fst (calculate_revenue_growth fm self out)) = length (df_columns (income_stmt self))
       \<and> (fill_keeps fm revenue \<longrightarrow>
            (\<forall>i < length (df_columns (income_stmt self)).
               fst (calculate_revenue_growth fm self out) ! i =
                 (df_columns (income_stmt self) ! i,
                  if Suc i < length (df_columns (income_stmt self))
                  then growth_cell (revenue ! i) (revenue ! Suc i)
                  else NaN)))
       \<and> (oldest_first (df_columns (income_stmt self)) \<longrightarrow>
            (\<forall>t \<in> set (df_columns (income_stmt self)).
               value_at (fst (calculate_revenue_growth fm self out)) t =
                 (case next_period (df_columns (income_stmt self)) t of
                    None \<Rightarrow> NaN
                  | Some t' \<Rightarrow>
                      growth_cell
                        (value_at (zip (df_columns (income_stmt self)) (fill_values fm revenue)) t)
                        (value_at (zip (df_columns (income_stmt self)) (fill_values fm revenue)) t'))))"
proof (intro conjI allI impI ballI)
  fix i assume "i < length (df_columns (income_stmt self))"
  with wf rev show "fst (calculate_revenue_growth fm self out) ! i =
      (df_columns (income_stmt self) ! i,
       if Suc i < length (df_columns (income_stmt self))
       then growth_cell (fill_values fm revenue ! i) (fill_values fm revenue ! Suc i)
       else NaN)"
    by (rule revenue_growth_nth)
next
  show "length (fst (calculate_revenue_growth fm self out)) = length (df_columns (income_stmt self))"
    using revenue_growth_index[OF wf rev, of fm out] by (metis length_map)
next
  fix i assume k: "fill_keeps fm revenue" and i: "i < length (df_columns (income_stmt self))"
  have "fill_values fm revenue = revenue" using k by (rule fill_values_id)
  with revenue_growth_nth[OF wf rev i, of fm out]
  show "fst (calculate_revenue_growth fm self out) ! i =
      (df_columns (income_stmt self) ! i,
       if Suc i < length (df_columns (income_stmt self))
       then growth_cell (revenue ! i) (revenue ! Suc i)
       else NaN)"
    by simp
next
  let ?cols = "df_columns (income_stmt self)"
  let ?d = "fill_values fm revenue"
  fix t assume old: "oldest_first ?cols" and t: "t \<in> set ?cols"
  from t obtain i where i: "i < length ?cols" and ti: "t = ?cols ! i"
    by (metis in_set_conv_nth)
  have dist: "distinct ?cols" using old by (rule oldest_first_distinct)
  have ld: "length ?d = length ?cols" using wf_row_length[OF wf rev] by simp
  have nx: "next_period ?cols t = (if Suc i < length ?cols then Some (?cols ! Suc i) else None)"
    unfolding ti using old i by (rule next_period_oldest_first)
  have v: "value_at (fst (calculate_revenue_growth fm self out)) t =
      (if Suc i < length ?cols then growth_cell (?d ! i) (?d ! Suc i) else NaN)"
    unfolding ti using wf rev i by (rule revenue_growth_value_at)
  show "value_at (fst (calculate_revenue_growth fm self out)) t =
      (case next_period ?cols t of
         None \<Rightarrow> NaN
       | Some t' \<Rightarrow> growth_cell (value_at (zip ?cols ?d) t) (value_at (zip ?cols ?d) t'))"
  proof (cases "Suc i < length ?cols")
    case False
    then show ?thesis by (simp add: v nx)
  next
    case True
    have "value_at (zip ?cols ?d) t = ?d ! i"
      unfolding ti using dist ld i by (rule value_at_zip)
    moreover have "value_at (zip ?cols ?d) (?cols ! Suc i) = ?d ! Suc i"
      using dist ld True by (rule value_at_zip)
    ultimately show ?thesis using True by (simp add: v nx)
  qed
qed

theorem revenue_growth_is_positional_witness:
  "wf_frame (income_stmt (init_calculator example_income_oldest_first empty_frame empty_frame))
   \<and> row_values (income_stmt (init_calculator example_income_oldest_first empty_frame empty_frame))
        ''Total Revenue'' = Some [Fin 100, Fin 200]
   \<and> fill_keeps Pad [Fin 100, Fin 200]
   \<and> oldest_first (df_columns (income_stmt
        (init_calculator example_income_oldest_first empty_frame empty_frame)))
   \<and> next_period [2022, 2023] 2022 = Some 2023
   \<and> fst (calculate_revenue_growth Pad
        (init_calculator example_income_oldest_first empty_frame empty_frame) []) ! 0
        = (2022, Fin (- 50))
   \<and> fst (calculate_revenue_growth Pad
        (init_calculator example_income_oldest_first empty_frame empty_frame) []) ! 1
        = (2023, NaN)
   \<and> value_at (fst (calculate_revenue_growth Pad
        (init_calculator example_income_oldest_first empty_frame empty_frame) [])) 2022
        = Fin (- 50)"
proof -
  let ?c = "init_calculator example_income_oldest_first empty_frame empty_frame"
  let ?g = "fst (calculate_revenue_growth Pad ?c [])"
  have inc: "income_stmt ?c = example_income_oldest_first" by (simp add: init_calculator_def)
  have cols: "df_columns example_income_oldest_first = [2022, 2023]"
    by (simp add: example_income_oldest_first_def)
  have wf: "wf_frame (income_stmt ?c)" unfolding inc by (rule example_oldest_wf)
  have rev: "row_values (income_stmt ?c) ''Total Revenue'' = Some [Fin 100, Fin 200]"
    unfolding inc by (simp add: row_values_def example_income_oldest_first_def)
  have keeps: "fill_keeps Pad [Fin 100, Fin 200]" by (simp add: fill_keeps_def isna_def)
  have old: "oldest_first (df_columns (income_stmt ?c))"
    unfolding inc cols by (simp add: oldest_first_def)
  have nx: "next_period [2022, 2023] 2022 = Some 2023"
    by (simp add: next_period_def)
  have fv: "fill_values Pad [Fin 100, Fin 200] = [Fin 100, Fin 200]"
    by (simp add: fill_values_def isna_def)
  have gc: "growth_cell (Fin 100) (Fin 200) = Fin (- 50)"
    by (simp add: growth_cell_def fsub_def)
  note inst = revenue_growth_is_positional[OF wf rev, of Pad "[]", unfolded inc cols fv]
  from inst have stored: "fill_keeps Pad [Fin 100, Fin 200] \<longrightarrow>
      (\<forall>i < length [2022, 2023 :: int]. ?g ! i =
         ([2022, 2023] ! i,
          if Suc i < length [2022, 2023 :: int]
          then growth_cell ([Fin 100, Fin 200] ! i) ([Fin 100, Fin 200] ! Suc i) else NaN))"
    by (elim conjE)
  from stored[THEN mp, OF keeps, THEN spec, of 0] have a: "?g ! 0 = (2022, Fin (- 50))"
    by (simp add: gc)
  from stored[THEN mp, OF keeps, THEN spec, of 1] have b: "?g ! 1 = (2023, NaN)"
    by simp
  have old': "oldest_first [2022, 2023]" using old by (simp only: inc cols)
  from inst have "oldest_first [2022, 2023] \<longrightarrow>
      (\<forall>t \<in> set [2022, 2023 :: int]. value_at ?g t =
         (case next_period [2022, 2023] t of
            None \<Rightarrow> NaN
          | Some t' \<Rightarrow>
              growth_cell (value_at (zip [2022, 2023] [Fin 100, Fin 200]) t)
                (value_at (zip [2022, 2023] [Fin 100, Fin 200]) t')))"
    by (elim conjE)
  from this[THEN mp, OF old']
  have "\<forall>t \<in> set [2022, 2023 :: int]. value_at ?g t =
         (case next_period [2022, 2023] t of
            None \<Rightarrow> NaN
          | Some t' \<Rightarrow>
              growth_cell (value_at (zip [2022, 2023] [Fin 100, Fin 200]) t)
                (value_at (zip [2022, 2023] [Fin 100, Fin 200]) t'))" .
  from this[THEN bspec, of 2022] have c: "value_at ?g 2022 = Fin (- 50)"
    by (simp add: nx gc value_at_def)
  from wf rev keeps old nx a b c show ?thesis by (intro conjI)
qed

text \<open>
  C10 as stated, on the stored row, fails where pandas forward-fills (pandas before 3;
  the code passes no \<open>fill_method\<close>) and the row has a NaN: with the stored row NaN, 200,
  NaN, 100 for 2024 to 2021 the value under 2023 is 0 and the value under 2022 is 100,
  where the stored cells at those positions and the next give NaN.
\<close>

theorem revenue_growth_stored_row_counterexample:
  "row_values (income_stmt (init_calculator example_income_with_gaps empty_frame empty_frame))
      ''Total Revenue'' = Some [NaN, Fin 200, NaN, Fin 100]
   \<and> df_columns (income_stmt (init_calculator example_income_with_gaps empty_frame empty_frame))
        = [2024, 2023, 2022, 2021]
   \<and> fst (calculate_revenue_growth Pad
        (init_calculator example_income_with_gaps empty_frame empty_frame) [])
        = [(2024, NaN), (2023, Fin 0), (2022, Fin 100), (2021, NaN)]
   \<and> growth_cell ([NaN, Fin 200, NaN, Fin 100] ! 1) ([NaN, Fin 200, NaN, Fin 100] ! 2) = NaN
   \<and> growth_cell ([NaN, Fin 200, NaN, Fin 100] ! 2) ([NaN, Fin 200, NaN, Fin 100] ! 3) = NaN"
proof -
  let ?c = "init_calculator example_income_with_gaps empty_frame empty_frame"
  have inc: "income_stmt ?c = example_income_with_gaps" by (simp add: init_calculator_def)
  have cols: "df_columns example_income_with_gaps = [2024, 2023, 2022, 2021]"
    by (simp add: example_income_with_gaps_def)
  have wf: "wf_frame (income_stmt ?c)"
    unfolding inc by (simp add: wf_frame_def example_income_with_gaps_def)
  have rev: "row_values (income_stmt ?c) ''Total Revenue'' = Some [NaN, Fin 200, NaN, Fin 100]"
    unfolding inc by (simp add: row_values_def example_income_with_gaps_def)
  have g: "fst (calculate_revenue_growth Pad ?c [])
      = [(2024, NaN), (2023, Fin 0), (2022, Fin 100), (2021, NaN)]"
    by (simp add: revenue_growth_result[OF wf rev] inc cols fill_values_def isna_def
        growth_cell_def fsub_def signed_zero_def)
  have n1: "growth_cell ([NaN, Fin 200, NaN, Fin 100] ! 1) ([NaN, Fin 200, NaN, Fin 100] ! 2) = NaN"
    by simp
  have n2: "growth_cell ([NaN, Fin 200, NaN, Fin 100] ! 2) ([NaN, Fin 200, NaN, Fin 100] ! 3) = NaN"
    by (simp add: growth_cell_def fsub_def)
  from rev g n1 n2 show ?thesis by (simp add: inc cols)
qed

lemma prior_period_Min:
  assumes "ps \<noteq> []"
  shows "prior_period ps (Min (set ps)) = None"
proof -
  have "\<forall>p \<in> set ps. \<not> p < Min (set ps)"
    by (auto simp: not_less)
  then have "filter (\<lambda>p. p < Min (set ps)) ps = []"
    by (simp add: filter_empty_conv)
  then show ?thesis by (simp add: prior_period_def)
qed

lemma example_income_wf: "wf_frame example_income_statement"
  by (simp add: wf_frame_def example_income_statement_def)

section \<open>Revenue growth in chronological order\<close>

text \<open>
  C1, as amended. When the income statement has a 'Total Revenue' row, its columns are
  stored newest-first, and the fill of \<open>pct_change\<close> leaves the row as it is (no fill, or
  no NaN in the row), \<open>calculate_revenue_growth\<close> returns under every period \<open>t\<close> that has
  a period before it the value \<open>(revenue[t] / revenue[t-1] - 1) * 100\<close>, which is the
  growth of the claim in the form the code computes it, and NaN under the earliest
  period.
\<close>

theorem revenue_growth_chronological_when_newest_first:
  assumes wf: "wf_frame (income_stmt self)"
    and rev: "row_values (income_stmt self) ''Total Revenue'' = Some revenue"
    and nf: "newest_first (df_columns (income_stmt self))"
    and keeps: "fill_keeps fm revenue"
  shows "(\<forall>t \<in> set (df_columns (income_stmt self)).
            value_at (fst (calculate_revenue_growth fm self out)) t
              = chronological_growth (zip (df_columns (income_stmt self)) revenue) t)
       \<and> (df_columns (income_stmt self) \<noteq> [] \<longrightarrow>
            value_at (fst (calculate_revenue_growth fm self out))
              (Min (set (df_columns (income_stmt self)))) = NaN)"
proof -
  let ?cols = "df_columns (income_stmt self)"
  let ?g = "fst (calculate_revenue_growth fm self out)"
  have l: "length revenue = length ?cols" using wf rev by (rule wf_row_length)
  have dist: "distinct ?cols" using nf by (rule newest_first_distinct)
  have fv: "fill_values fm revenue = revenue" using keeps by (rule fill_values_id)
  have ix: "map fst (zip ?cols revenue) = ?cols" using l by simp
  have main: "value_at ?g t = chronological_growth (zip ?cols revenue) t"
    if t: "t \<in> set ?cols" for t
  proof -
    from t obtain i where i: "i < length ?cols" and ti: "t = ?cols ! i"
      by (metis in_set_conv_nth)
    have v: "value_at ?g t =
        (if Suc i < length ?cols then growth_cell (revenue ! i) (revenue ! Suc i) else NaN)"
      unfolding ti using revenue_growth_value_at[OF wf rev i, of fm out] by (simp only: fv)
    have pp: "prior_period ?cols t = (if Suc i < length ?cols then Some (?cols ! Suc i) else None)"
      unfolding ti using nf i by (rule prior_period_newest_first)
    show ?thesis
    proof (cases "Suc i < length ?cols")
      case False
      then show ?thesis by (simp add: v chronological_growth_def ix pp)
    next
      case True
      have a: "value_at (zip ?cols revenue) t = revenue ! i"
        unfolding ti using dist l i by (rule value_at_zip)
      have b: "value_at (zip ?cols revenue) (?cols ! Suc i) = revenue ! Suc i"
        using dist l True by (rule value_at_zip)
      show ?thesis using True by (simp add: v chronological_growth_def ix pp a b)
    qed
  qed
  show ?thesis
  proof (intro conjI ballI impI)
    fix t assume "t \<in> set ?cols"
    then show "value_at ?g t = chronological_growth (zip ?cols revenue) t" by (rule main)
  next
    assume ne: "?cols \<noteq> []"
    then have "Min (set ?cols) \<in> set ?cols" by (intro Min_in) auto
    then have "value_at ?g (Min (set ?cols))
        = chronological_growth (zip ?cols revenue) (Min (set ?cols))"
      by (rule main)
    also have "\<dots> = NaN"
      by (simp add: chronological_growth_def ix prior_period_Min[OF ne])
    finally show "value_at ?g (Min (set ?cols)) = NaN" .
  qed
qed

theorem revenue_growth_chronological_when_newest_first_witness:
  "wf_frame (income_stmt (init_calculator example_income_statement empty_frame empty_frame))
   \<and> row_values (income_stmt (init_calculator example_income_statement empty_frame empty_frame))
        ''Total Revenue'' = Some [Fin 200, Fin 100]
   \<and> newest_first (df_columns (income_stmt
        (init_calculator example_income_statement empty_frame empty_frame)))
   \<and> fill_keeps Pad [Fin 200, Fin 100]
   \<and> prior_period [2023, 2022] 2023 = Some 2022
   \<and> value_at (fst (calculate_revenue_growth Pad
        (init_calculator example_income_statement empty_frame empty_frame) [])) 2023 = Fin 100
   \<and> value_at (fst (calculate_revenue_growth Pad
        (init_calculator example_income_statement empty_frame empty_frame) [])) 2022 = NaN"
proof -
  let ?c = "init_calculator example_income_statement empty_frame empty_frame"
  have inc: "income_stmt ?c = example_income_statement" by (simp add: init_calculator_def)
  have cols: "df_columns example_income_statement = [2023, 2022]"
    by (simp add: example_income_statement_def)
  have wf: "wf_frame (income_stmt ?c)" unfolding inc by (rule example_income_wf)
  have rev: "row_values (income_stmt ?c) ''Total Revenue'' = Some [Fin 200, Fin 100]"
    unfolding inc by (simp add: row_values_def example_income_statement_def)
  have nf: "newest_first (df_columns (income_stmt ?c))"
    unfolding inc cols by (simp add: newest_first_def)
  have keeps: "fill_keeps Pad [Fin 200, Fin 100]" by (simp add: fill_keeps_def isna_def)
  have pp: "prior_period [2023, 2022] 2023 = Some 2022" by (simp add: prior_period_def)
  have s1: "chronological_growth [(2023, Fin 200), (2022, Fin 100)] 2023 = Fin 100"
    by (simp add: chronological_growth_def prior_period_def value_at_def growth_cell_def fsub_def)
  have s2: "chronological_growth [(2023, Fin 200), (2022, Fin 100)] 2022 = NaN"
    by (simp add: chronological_growth_def prior_period_def)
  note inst = revenue_growth_chronological_when_newest_first[OF wf rev nf keeps, of "[]",
      unfolded inc cols]
  from inst have "value_at (fst (calculate_revenue_growth Pad ?c [])) 2023 = Fin 100"
    by (simp add: s1)
  moreover from inst have "value_at (fst (calculate_revenue_growth Pad ?c [])) 2022 = NaN"
    by (simp add: s2)
  ultimately show ?thesis using wf rev nf keeps pp by blast
qed

text \<open>
  C1 as stated, for every statement, fails on a statement stored oldest-first: with
  revenue 100 in 2022 and 200 in 2023 the value under 2023, which has a period before
  it, is NaN and not 100, and the value under 2022, the earliest period, is a number.
\<close>

theorem revenue_growth_chronological_counterexample:
  "row_values (income_stmt (init_calculator example_income_oldest_first empty_frame empty_frame))
      ''Total Revenue'' = Some [Fin 100, Fin 200]
   \<and> df_columns (income_stmt (init_calculator example_income_oldest_first empty_frame empty_frame))
        = [2022, 2023]
   \<and> prior_period [2022, 2023] 2023 = Some 2022
   \<and> prior_period [2022, 2023] 2022 = None
   \<and> spec_revenue_growth (zip [2022, 2023] [Fin 100, Fin 200]) 2023 = Fin 100
   \<and> chronological_growth (zip [2022, 2023] [Fin 100, Fin 200]) 2023 = Fin 100
   \<and> fst (calculate_revenue_growth Pad
        (init_calculator example_income_oldest_first empty_frame empty_frame) [])
        = [(2022, Fin (- 50)), (2023, NaN)]
   \<and> fst (calculate_revenue_growth NoFill
        (init_calculator example_income_oldest_first empty_frame empty_frame) [])
        = [(2022, Fin (- 50)), (2023, NaN)]"
proof -
  let ?c = "init_calculator example_income_oldest_first empty_frame empty_frame"
  have inc: "income_stmt ?c = example_income_oldest_first" by (simp add: init_calculator_def)
  have cols: "df_columns example_income_oldest_first = [2022, 2023]"
    by (simp add: example_income_oldest_first_def)
  have wf: "wf_frame (income_stmt ?c)" unfolding inc by (rule example_oldest_wf)
  have rev: "row_values (income_stmt ?c) ''Total Revenue'' = Some [Fin 100, Fin 200]"
    unfolding inc by (simp add: row_values_def example_income_oldest_first_def)
  have p1: "prior_period [2022, 2023] 2023 = Some 2022" by (simp add: prior_period_def)
  have p2: "prior_period [2022, 2023] 2022 = None" by (simp add: prior_period_def)
  have sp: "spec_revenue_growth (zip [2022, 2023] [Fin 100, Fin 200]) 2023 = Fin 100"
    by (simp add: spec_revenue_growth_def p1 value_at_def spec_growth_cell_def fsub_def)
  have ch: "chronological_growth (zip [2022, 2023] [Fin 100, Fin 200]) 2023 = Fin 100"
    by (simp add: chronological_growth_def p1 value_at_def growth_cell_def fsub_def)
  have g: "fst (calculate_revenue_growth fm ?c []) = [(2022, Fin (- 50)), (2023, NaN)]" for fm
    by (cases fm)
       (simp_all add: revenue_growth_result[OF wf rev] inc cols fill_values_def isna_def
          growth_cell_def fsub_def)
  show ?thesis using rev p1 p2 sp ch g[of Pad] g[of NoFill] by (simp add: inc cols)
qed

section \<open>Facts about aligned Series arithmetic\<close>

lemma map_of_tabulate:
  "p \<in> set ls \<Longrightarrow> map_of (map (\<lambda>l. (l, g l)) ls) p = Some (g p)"
  by (induction ls) auto

lemma set_align_outer: "set (align_outer ia ib) = set ia \<union> set ib"
  by (auto simp: align_outer_def)

lemma series_binop_keys:
  "fst ` set (series_binop f a b) = fst ` set a \<union> fst ` set b"
proof (cases "map fst a = map fst b")
  case True
  then have len: "length a = length b" by (metis length_map)
  have "map fst (map (\<lambda>(x, y). (fst x, f (snd x) (snd y))) (zip a b)) = map fst (map fst (zip a b))"
    by (simp add: case_prod_beta comp_def)
  also have "\<dots> = map fst a" using len by simp
  finally have "map fst (series_binop f a b) = map fst a"
    using True by (simp add: series_binop_def)
  then have "set (map fst (series_binop f a b)) = set (map fst a)" by simp
  moreover have "set (map fst b) = set (map fst a)" using True by simp
  ultimately show ?thesis by (simp only: set_map) blast
next
  case False
  then have "map fst (series_binop f a b) = align_outer (map fst a) (map fst b)"
    by (simp add: series_binop_def comp_def)
  then have "set (map fst (series_binop f a b)) = set (map fst a) \<union> set (map fst b)"
    by (simp only: set_align_outer)
  then show ?thesis by (simp only: set_map)
qed

lemma zip_fst_snd: "zip (map fst s) (map snd s) = s"
  by (rule zip_map_fst_snd)

lemma series_binop_value:
  assumes da: "distinct (map fst a)" and db: "distinct (map fst b)"
    and p: "p \<in> fst ` set (series_binop f a b)"
  shows "value_at (series_binop f a b) p = f (value_at a p) (value_at b p)"
proof (cases "map fst a = map fst b")
  case False
  from p have "p \<in> set (align_outer (map fst a) (map fst b))"
    by (simp only: series_binop_keys set_align_outer set_map)
  then have "map_of (map (\<lambda>l. (l, f (value_at a l) (value_at b l)))
       (align_outer (map fst a) (map fst b))) p = Some (f (value_at a p) (value_at b p))"
    by (rule map_of_tabulate)
  with False show ?thesis by (simp add: series_binop_def value_at_def)
next
  case True
  let ?ks = "map fst a"
  let ?xs = "map snd a"
  let ?ys = "map snd b"
  have a: "a = zip ?ks ?xs" by (simp only: zip_fst_snd)
  have b: "b = zip ?ks ?ys" by (simp only: True zip_fst_snd)
  have lx: "length ?xs = length ?ks" by simp
  have "length b = length a" using True by (metis length_map)
  then have ly: "length ?ys = length ?ks" by simp
  let ?zs = "map (\<lambda>(x, y). f x y) (zip ?xs ?ys)"
  have r: "series_binop f a b = zip ?ks ?zs"
    using series_binop_same_index[OF lx ly, of f] a b by simp
  have "set (map fst b) = set ?ks" using True by simp
  then have "fst ` set b = set ?ks" by (simp only: set_map)
  with p have "p \<in> set ?ks"
    by (simp only: series_binop_keys set_map) blast
  then obtain i where i: "i < length ?ks" and pi: "p = ?ks ! i"
    by (metis in_set_conv_nth)
  have lz: "length ?zs = length ?ks" using lx ly by simp
  have "value_at (zip ?ks ?zs) (?ks ! i) = ?zs ! i" using da lz i by (rule value_at_zip)
  moreover have "?zs ! i = f (?xs ! i) (?ys ! i)" using i lx ly by simp
  moreover have "value_at (zip ?ks ?xs) (?ks ! i) = ?xs ! i" using da lx i by (rule value_at_zip)
  moreover have "value_at (zip ?ks ?ys) (?ks ! i) = ?ys ! i" using da ly i by (rule value_at_zip)
  ultimately have "value_at (zip ?ks ?zs) p = f (value_at (zip ?ks ?xs) p) (value_at (zip ?ks ?ys) p)"
    by (simp only: pi)
  then show ?thesis using r a b by simp
qed

lemma series_mul_scalar_keys: "fst ` set (series_mul_scalar s c) = fst ` set s"
  by (force simp: series_mul_scalar_def)

lemma map_of_map_values:
  "map_of (map (\<lambda>(l, v). (l, g v)) s) p = map_option g (map_of s p)"
  by (induction s) auto

lemma series_mul_scalar_value:
  "value_at (series_mul_scalar s c) p = fmul (value_at s p) (Fin c)"
  by (simp add: series_mul_scalar_def value_at_def map_of_map_values split: option.splits)

lemma keys_zip: "length vs = length cs \<Longrightarrow> fst ` set (zip cs vs) = set cs"
  by (metis map_fst_zip set_map)


lemma series_binop_index:
  "map fst (series_binop f a b) =
     (if map fst a = map fst b then map fst a else align_outer (map fst a) (map fst b))"
proof (cases "map fst a = map fst b")
  case True
  then have len: "length a = length b" by (metis length_map)
  have "map fst (map (\<lambda>(x, y). (fst x, f (snd x) (snd y))) (zip a b)) = map fst (map fst (zip a b))"
    by (simp add: case_prod_beta comp_def)
  also have "\<dots> = map fst a" using len by simp
  finally show ?thesis using True by (simp add: series_binop_def)
next
  case False
  then show ?thesis by (simp add: series_binop_def comp_def)
qed

lemma distinct_series_binop:
  "distinct (map fst a) \<Longrightarrow> distinct (map fst (series_binop f a b))"
  by (auto simp: series_binop_index align_outer_def)

lemma series_mul_scalar_index: "map fst (series_mul_scalar s c) = map fst s"
  by (simp add: series_mul_scalar_def comp_def case_prod_beta)

lemma series_sub_scalar_index: "map fst (series_sub_scalar s c) = map fst s"
  by (simp add: series_sub_scalar_def comp_def case_prod_beta)

lemma fill_index: "map fst (fill fm s) = map fst s"
  by (cases fm) (simp_all add: fill_def)

lemma shift_index: "map fst (shift periods s) = map fst s"
  by (simp add: shift_def Let_def)

lemma pct_change_index: "map fst (pct_change fm periods s) = map fst s"
  by (simp add: pct_change_def Let_def series_sub_scalar_index series_div_def series_binop_index
      shift_index fill_index)

lemma loc_distinct:
  assumes "loc df label = Inr s" and "distinct (df_columns df)"
  shows "distinct (map fst s)"
proof -
  from assms(1) obtain r where "s = zip (df_columns df) r"
    by (auto simp: loc_def split: option.splits)
  then have "map fst s = take (length r) (df_columns df)"
    by (simp add: map_fst_zip_take take_all_iff min_def)
  with assms(2) show ?thesis by simp
qed

section \<open>Facts about the frame constructor\<close>

lemma count_list_distinct:
  "distinct xs \<Longrightarrow> count_list xs x = (if x \<in> set xs then 1 else 0)"
  by (induction xs) auto

lemma concat_singletons: "concat (map (\<lambda>x. replicate 1 x) xs) = xs"
  by (induction xs) auto

lemma union_with_duplicates_distinct:
  assumes "distinct a" and "distinct b"
  shows "union_with_duplicates a b = remdups (a @ b)"
proof -
  have "max (count_list a x) (count_list b x) = 1" if "x \<in> set (remdups (a @ b))" for x
    using that assms by (auto simp: count_list_distinct)
  then have "map (\<lambda>x. replicate (max (count_list a x) (count_list b x)) x) (remdups (a @ b))
      = map (\<lambda>x. replicate 1 x) (remdups (a @ b))"
    by (intro map_cong) simp_all
  then show ?thesis by (simp only: union_with_duplicates_def concat_singletons)
qed

lemma index_union_distinct:
  assumes "distinct a" and "distinct b"
  shows "distinct (index_union a b) \<and> set (index_union a b) = set a \<union> set b"
  using assms by (auto simp: index_union_def union_with_duplicates_distinct)

lemma foldl_index_union_distinct:
  assumes "distinct i" and "\<forall>x \<in> set rest. distinct x"
  shows "distinct (foldl index_union i rest)
         \<and> set (foldl index_union i rest) = set i \<union> \<Union> (set ` set rest)"
  using assms
proof (induction rest arbitrary: i)
  case Nil
  then show ?case by simp
next
  case (Cons x rest)
  have d: "distinct (index_union i x)" and s: "set (index_union i x) = set i \<union> set x"
    using index_union_distinct[of i x] Cons.prems by auto
  from Cons.IH[OF d] Cons.prems(2) show ?case by (auto simp: s)
qed

lemma union_indexes_distinct:
  assumes "\<forall>x \<in> set ixs. distinct x"
  shows "distinct (union_indexes ixs) \<and> set (union_indexes ixs) = \<Union> (set ` set ixs)"
proof (cases ixs)
  case Nil
  then show ?thesis by (simp add: union_indexes_def)
next
  case (Cons i rest)
  with assms foldl_index_union_distinct[of i rest] show ?thesis
    by (simp add: union_indexes_def)
qed

lemma map_snd_eq_value_at:
  assumes "distinct (map fst s)"
  shows "map snd s = map (value_at s) (map fst s)"
proof (rule nth_equalityI)
  show "length (map snd s) = length (map (value_at s) (map fst s))" by simp
next
  fix i assume "i < length (map snd s)"
  then have i: "i < length s" by simp
  from value_at_nth[OF assms i] i
  show "map snd s ! i = map (value_at s) (map fst s) ! i" by simp
qed

lemma reindex_distinct:
  assumes "distinct (map fst s)"
  shows "reindex s target = Inr (map (value_at s) target)"
  using assms map_snd_eq_value_at[OF assms] by (auto simp: reindex_def)

lemma collect_all_Inr: "collect (map (\<lambda>x. Inr (f x)) xs) = Inr (map f xs)"
  by (induction xs) auto

lemma transpose_columns:
  "map (\<lambda>i. map (\<lambda>col. col ! i) (map (\<lambda>(name, s). map (value_at s) idx) d)) [0..<length idx]
     = map (\<lambda>l. map (\<lambda>(name, s). value_at s l) d) idx"
proof -
  have "map (\<lambda>col. col ! i) (map (\<lambda>(name, s). map (value_at s) idx) d)
      = map (\<lambda>(name, s). value_at s (idx ! i)) d" if "i < length idx" for i
    using that by (simp add: comp_def case_prod_beta)
  then have "map (\<lambda>i. map (\<lambda>col. col ! i) (map (\<lambda>(name, s). map (value_at s) idx) d))
        [0..<length idx]
      = map (\<lambda>i. map (\<lambda>(name, s). value_at s (idx ! i)) d) [0..<length idx]"
    by (intro map_cong) simp_all
  also have "\<dots> = map (\<lambda>l. map (\<lambda>(name, s). value_at s l) d) (map (\<lambda>i. idx ! i) [0..<length idx])"
    by (simp add: comp_def)
  also have "\<dots> = map (\<lambda>l. map (\<lambda>(name, s). value_at s l) d) idx"
    by (simp only: map_nth)
  finally show ?thesis .
qed

lemma DataFrame_of_distinct_series:
  assumes "\<forall>(name, s) \<in> set d. distinct (map fst s)"
  shows "DataFrame_of_dict d = Inr (outer_join d)"
proof -
  let ?idx = "union_indexes (map (\<lambda>(name, s). map fst s) d)"
  have "map (\<lambda>(name, s). reindex s ?idx) d
      = map (\<lambda>x. Inr ((\<lambda>(name, s). map (value_at s) ?idx) x)) d"
    using assms by (intro map_cong) (auto simp: reindex_distinct)
  then have c: "collect (map (\<lambda>(name, s). reindex s ?idx) d)
      = Inr (map (\<lambda>(name, s). map (value_at s) ?idx) d)"
    by (simp only: collect_all_Inr)
  show ?thesis
    unfolding DataFrame_of_dict_def outer_join_def Let_def c sum.case transpose_columns ..
qed

section \<open>Facts about the metrics table\<close>

lemma fst_calculate_series: "fst (calculate fm m self out) = metric_series fm m self"
  by (simp add: fst_calculate metric_series_def)

lemma calculate_all_metrics_result:
  "\<exists>out'. calculate_all_metrics fm self out =
     (case DataFrame_of_dict (named_series fm self) of
        Inl e \<Rightarrow> Inl e
      | Inr df \<Rightarrow> Inr (sort_index_descending df, out'))"
proof -
  have "\<And>what b o1. except_print what b o1 =
      ((case b of Inl e \<Rightarrow> empty_series | Inr s \<Rightarrow> s), snd (except_print what b o1))"
    by (simp add: except_print_def split: sum.splits)
  then show ?thesis
    by (simp add: calculate_all_metrics_def Let_def case_prod_beta named_series_def
        all_metrics_def metric_series_def calculate_defs fst_except_print
        split: sum.splits)
qed

lemma distinct_metric_series:
  assumes "distinct_periods self"
  shows "distinct (map fst (metric_series fm m self))"
proof (cases "try_block fm m self")
  case (Inl e)
  then show ?thesis by (simp add: metric_series_def empty_series_def)
next
  case (Inr s)
  have d: "distinct (df_columns (income_stmt self))" "distinct (df_columns (balance_sheet self))"
    "distinct (df_columns (cash_flow self))"
    using assms by (simp_all add: distinct_periods_def)
  have "distinct (map fst s)"
    using Inr d
    by (cases m)
       (auto simp: try_defs series_mul_scalar_index pct_change_index series_div_def
          series_add_def distinct_series_binop
          split: sum.splits dest: loc_distinct)
  with Inr show ?thesis by (simp add: metric_series_def)
qed

lemma distinct_named_series:
  assumes "distinct_periods self"
  shows "\<forall>(name, s) \<in> set (named_series fm self). distinct (map fst s)"
  using distinct_metric_series[OF assms] by (auto simp: named_series_def)

lemma all_metrics_returns:
  assumes "distinct_periods self"
  shows "\<exists>out'. calculate_all_metrics fm self out = Inr (metrics_frame fm self, out')"
  using calculate_all_metrics_result[of fm self out]
  by (simp add: DataFrame_of_distinct_series[OF distinct_named_series[OF assms]]
      metrics_frame_def)

lemma distinct_map_sort_key: "distinct (map f (sort_key f xs)) = distinct (map f xs)"
  by (induction xs) (auto simp: distinct_insort_key)

lemma sorted_table_index:
  "df_index (sort_index_descending df)
     = rev (map fst (sort_key fst (zip (df_index df) (df_values df))))"
  by (simp add: sort_index_descending_def Let_def rev_map)

lemma sorted_table_columns: "df_columns (sort_index_descending df) = df_columns df"
  by (simp add: sort_index_descending_def Let_def)

lemma sorted_table_rows:
  "zip (df_index (sort_index_descending df)) (df_values (sort_index_descending df))
     = rev (sort_key fst (zip (df_index df) (df_values df)))"
  by (simp add: sort_index_descending_def Let_def zip_map_fst_snd)

lemma outer_join_rows:
  "zip (df_index (outer_join d)) (df_values (outer_join d))
     = map (\<lambda>l. (l, map (\<lambda>(name, s). value_at s l) d))
         (union_indexes (map (\<lambda>(name, s). map fst s) d))"
  by (simp add: outer_join_def Let_def zip_map2 zip_same_conv_map)

lemma outer_join_index:
  assumes "\<forall>(name, s) \<in> set d. distinct (map fst s)"
  shows "distinct (union_indexes (map (\<lambda>(name, s). map fst s) d))"
    and "set (union_indexes (map (\<lambda>(name, s). map fst s) d)) = (\<Union>(name, s) \<in> set d. fst ` set s)"
proof -
  have a: "\<forall>x \<in> set (map (\<lambda>(name, s). map fst s) d). distinct x"
    using assms by auto
  from union_indexes_distinct[OF a]
  show "distinct (union_indexes (map (\<lambda>(name, s). map fst s) d))" by simp
  from union_indexes_distinct[OF a]
  have "set (union_indexes (map (\<lambda>(name, s). map fst s) d))
      = \<Union> (set ` set (map (\<lambda>(name, s). map fst s) d))" by simp
  also have "\<dots> = (\<Union>(name, s) \<in> set d. fst ` set s)" by auto
  finally show "set (union_indexes (map (\<lambda>(name, s). map fst s) d))
      = (\<Union>(name, s) \<in> set d. fst ` set s)" .
qed

lemma table_index_set:
  assumes "\<forall>(name, s) \<in> set d. distinct (map fst s)"
  shows "set (df_index (sort_index_descending (outer_join d)))
     = (\<Union>(name, s) \<in> set d. fst ` set s)"
proof -
  have "set (df_index (sort_index_descending (outer_join d)))
      = fst ` set (zip (df_index (outer_join d)) (df_values (outer_join d)))"
    by (simp add: sorted_table_index)
  also have "\<dots> = set (union_indexes (map (\<lambda>(name, s). map fst s) d))"
    by (simp only: outer_join_rows) (simp add: image_image)
  also have "\<dots> = (\<Union>(name, s) \<in> set d. fst ` set s)"
    using assms by (rule outer_join_index)
  finally show ?thesis .
qed

lemma table_index_newest_first:
  assumes "\<forall>(name, s) \<in> set d. distinct (map fst s)"
  shows "newest_first (df_index (sort_index_descending (outer_join d)))"
proof -
  let ?rows = "zip (df_index (outer_join d)) (df_values (outer_join d))"
  have "map fst ?rows = union_indexes (map (\<lambda>(name, s). map fst s) d)"
    by (simp only: outer_join_rows) (simp add: comp_def)
  then have "distinct (map fst ?rows)" using outer_join_index(1)[OF assms] by simp
  then have "distinct (map fst (sort_key fst ?rows))" by (simp only: distinct_map_sort_key)
  moreover have "sorted (map fst (sort_key fst ?rows))" by (rule sorted_sort_key)
  ultimately have "sorted_wrt (<) (map fst (sort_key fst ?rows))"
    by (simp add: strict_sorted_iff)
  then have "sorted_wrt (\<lambda>p q. q < p) (rev (map fst (sort_key fst ?rows)))"
    by (simp add: sorted_wrt_rev)
  then show ?thesis by (simp only: newest_first_def sorted_table_index)
qed

lemma table_row:
  assumes dist: "\<forall>(name, s) \<in> set d. distinct (map fst s)"
    and p: "p \<in> set (df_index (sort_index_descending (outer_join d)))"
  shows "row_values (sort_index_descending (outer_join d)) p
           = Some (map (\<lambda>(name, s). value_at s p) d)"
proof -
  let ?T = "sort_index_descending (outer_join d)"
  let ?idx = "union_indexes (map (\<lambda>(name, s). map fst s) d)"
  let ?rows = "map (\<lambda>l. (l, map (\<lambda>(name, s). value_at s l) d)) ?idx"
  have rows: "zip (df_index ?T) (df_values ?T) = rev (sort_key fst ?rows)"
    by (simp only: sorted_table_rows outer_join_rows)
  have keys: "map fst ?rows = ?idx" by (simp add: comp_def)
  have "distinct (map fst ?rows)" unfolding keys using dist by (rule outer_join_index)
  then have d: "distinct (map fst (rev (sort_key fst ?rows)))"
    by (simp only: rev_map[symmetric] distinct_rev distinct_map_sort_key)
  have "p \<in> set ?idx"
    using p by (simp only: table_index_set[OF dist] outer_join_index(2)[OF dist])
  then have "(p, map (\<lambda>(name, s). value_at s p) d) \<in> set (rev (sort_key fst ?rows))"
    by auto
  with d have "map_of (rev (sort_key fst ?rows)) p = Some (map (\<lambda>(name, s). value_at s p) d)"
    by (simp only: map_of_eq_Some_iff)
  then show ?thesis by (simp only: row_values_def rows)
qed

lemma table_cell:
  assumes dist: "\<forall>(name, s) \<in> set d. distinct (map fst s)"
    and p: "p \<in> set (df_index (sort_index_descending (outer_join d)))"
    and names: "distinct (map fst d)" and mem: "(name, s) \<in> set d"
  shows "df_cell (sort_index_descending (outer_join d)) p name = Some (value_at s p)"
proof -
  let ?T = "sort_index_descending (outer_join d)"
  have cols: "df_columns ?T = map fst d"
    by (simp add: sorted_table_columns outer_join_def Let_def)
  have z: "zip (map fst d) (map (\<lambda>(name, s). value_at s p) d)
      = map (\<lambda>(name, s). (name, value_at s p)) d"
    by (induction d) auto
  have k: "map fst (map (\<lambda>(name, s). (name, value_at s p)) d) = map fst d"
    by (induction d) auto
  have "(name, value_at s p) \<in> set (map (\<lambda>(name, s). (name, value_at s p)) d)"
    using mem by force
  then have "map_of (map (\<lambda>(name, s). (name, value_at s p)) d) name = Some (value_at s p)"
    using names k by (metis map_of_eq_Some_iff)
  then show ?thesis
    by (simp add: df_cell_def table_row[OF dist p] cols z)
qed

lemma value_at_absent:
  assumes "p \<notin> fst ` set s"
  shows "value_at s p = NaN"
proof -
  from assms have "map_of s p = None" by (simp add: map_of_eq_None_iff)
  then show ?thesis by (simp add: value_at_def)
qed

lemma distinct_metric_names: "distinct (map metric_name all_metrics)"
  by (simp add: all_metrics_def)

lemma all_metrics_complete: "m \<in> set all_metrics"
  by (cases m) (simp_all add: all_metrics_def)

lemma metric_in_dict: "(metric_name m, metric_series fm m self) \<in> set (named_series fm self)"
  using all_metrics_complete[of m] by (auto simp: named_series_def)

lemma dict_keys: "map fst (named_series fm self) = map metric_name all_metrics"
  by (simp add: named_series_def comp_def)

lemma metrics_frame_cell:
  assumes "distinct_periods self" and "p \<in> set (df_index (metrics_frame fm self))"
  shows "df_cell (metrics_frame fm self) p (metric_name m)
           = Some (value_at (metric_series fm m self) p)"
  unfolding metrics_frame_def
  using distinct_named_series[OF assms(1)] assms(2)[unfolded metrics_frame_def]
  by (rule table_cell) (simp_all only: dict_keys distinct_metric_names metric_in_dict)

lemma metrics_frame_index_set:
  assumes "distinct_periods self"
  shows "set (df_index (metrics_frame fm self)) = (\<Union>m. fst ` set (metric_series fm m self))"
proof -
  have "set (df_index (metrics_frame fm self))
      = (\<Union>(name, s) \<in> set (named_series fm self). fst ` set s)"
    unfolding metrics_frame_def using distinct_named_series[OF assms] by (rule table_index_set)
  also have "\<dots> = (\<Union>m \<in> set all_metrics. fst ` set (metric_series fm m self))"
    by (auto simp: named_series_def)
  also have "\<dots> = (\<Union>m. fst ` set (metric_series fm m self))"
    using all_metrics_complete by auto
  finally show ?thesis .
qed

lemma metrics_frame_columns: "df_columns (metrics_frame fm self) = map metric_name all_metrics"
  by (simp add: metrics_frame_def sorted_table_columns outer_join_def Let_def dict_keys)

lemma metrics_frame_newest_first:
  assumes "distinct_periods self"
  shows "newest_first (df_index (metrics_frame fm self))"
  unfolding metrics_frame_def using distinct_named_series[OF assms]
  by (rule table_index_newest_first)

lemma metrics_frame_values_length:
  "length (df_values (metrics_frame fm self)) = length (df_index (metrics_frame fm self))"
  by (simp add: metrics_frame_def sort_index_descending_def Let_def outer_join_def)

lemma example_fcf_series:
  "fst (calculate fm FreeCashFlow (init_calculator i b example_cash_flow) out)
     = [(2023, Fin 380), (2022, Fin 350)]"
  by (simp add: calculate_free_cash_flow_def free_cash_flow_try_def loc_def row_values_def
      example_cash_flow_def init_calculator_def series_add_def series_binop_def except_print_def)

lemma empty_balance_roe_series:
  "fst (calculate fm ROE (init_calculator example_income_statement empty_frame c) out) = []"
  by (simp add: calculate_roe_def roe_try_def loc_def row_values_def empty_frame_def
      example_income_statement_def init_calculator_def except_print_def empty_series_def)

lemma wf_statements_distinct_periods: "wf_statements self \<Longrightarrow> distinct_periods self"
  by (simp add: wf_statements_def distinct_periods_def wf_frame_def)

lemma example_wf_statements:
  "wf_statements (init_calculator example_income_statement empty_frame example_cash_flow)"
  by (simp add: wf_statements_def wf_frame_def init_calculator_def example_income_statement_def
      empty_frame_def example_cash_flow_def)

section \<open>The metrics table is an outer join, newest period first\<close>

text \<open>
  C5. For a StatementSet (three well-formed statements) \<open>calculate_all_metrics\<close>
  returns a frame. The frame has the nine metric columns; its
  rows are the periods that occur in at least one of the nine Series; under each metric
  a row holds the value the Series of that metric has for the period, and NaN when the
  Series lacks the period; the rows are in strictly descending order of period.
\<close>

theorem all_metrics_outer_join_newest_first:
  assumes wf: "wf_statements self"
  shows "\<exists>table out'.
           calculate_all_metrics fm self out = Inr (table, out')
         \<and> df_columns table = map metric_name all_metrics
         \<and> set (df_index table) = (\<Union>m. fst ` set (fst (calculate fm m self out)))
         \<and> newest_first (df_index table)
         \<and> (\<forall>p \<in> set (df_index table). \<forall>m.
               df_cell table p (metric_name m) = Some (value_at (fst (calculate fm m self out)) p)
               \<and> (p \<notin> fst ` set (fst (calculate fm m self out)) \<longrightarrow>
                    df_cell table p (metric_name m) = Some NaN))"
proof -
  let ?T = "metrics_frame fm self"
  have assms: "distinct_periods self" using wf by (rule wf_statements_distinct_periods)
  obtain out' where r: "calculate_all_metrics fm self out = Inr (?T, out')"
    using all_metrics_returns[OF assms] by blast
  have c: "df_columns ?T = map metric_name all_metrics" by (rule metrics_frame_columns)
  have s: "set (df_index ?T) = (\<Union>m. fst ` set (fst (calculate fm m self out)))"
    by (simp only: fst_calculate_series metrics_frame_index_set[OF assms])
  have n: "newest_first (df_index ?T)" using assms by (rule metrics_frame_newest_first)
  have cells: "\<forall>p \<in> set (df_index ?T). \<forall>m.
      df_cell ?T p (metric_name m) = Some (value_at (fst (calculate fm m self out)) p)
      \<and> (p \<notin> fst ` set (fst (calculate fm m self out)) \<longrightarrow>
           df_cell ?T p (metric_name m) = Some NaN)"
  proof (intro ballI allI conjI impI)
    fix p m assume p: "p \<in> set (df_index ?T)"
    show v: "df_cell ?T p (metric_name m) = Some (value_at (fst (calculate fm m self out)) p)"
      by (simp only: fst_calculate_series metrics_frame_cell[OF assms p])
    assume "p \<notin> fst ` set (fst (calculate fm m self out))"
    then have "value_at (fst (calculate fm m self out)) p = NaN" by (rule value_at_absent)
    with v show "df_cell ?T p (metric_name m) = Some NaN" by simp
  qed
  from r c s n cells show ?thesis by blast
qed

theorem all_metrics_outer_join_newest_first_witness:
  "wf_statements (init_calculator example_income_statement empty_frame example_cash_flow)
   \<and> (\<exists>table out'.
         calculate_all_metrics Pad
           (init_calculator example_income_statement empty_frame example_cash_flow) []
           = Inr (table, out')
       \<and> 2023 \<in> set (df_index table)
       \<and> 2023 \<notin> fst ` set (fst (calculate Pad ROE
            (init_calculator example_income_statement empty_frame example_cash_flow) []))
       \<and> df_cell table 2023 ''Free Cash Flow'' = Some (Fin 380)
       \<and> df_cell table 2023 ''ROE (%)'' = Some NaN)"
proof -
  let ?c = "init_calculator example_income_statement empty_frame example_cash_flow"
  have dp: "wf_statements ?c" by (rule example_wf_statements)
  from all_metrics_outer_join_newest_first[OF dp, of Pad "[]"]
  obtain table out' where r: "calculate_all_metrics Pad ?c [] = Inr (table, out')"
    and ix: "set (df_index table) = (\<Union>m. fst ` set (fst (calculate Pad m ?c [])))"
    and cells: "\<forall>p \<in> set (df_index table). \<forall>m.
      df_cell table p (metric_name m) = Some (value_at (fst (calculate Pad m ?c [])) p)
      \<and> (p \<notin> fst ` set (fst (calculate Pad m ?c [])) \<longrightarrow>
           df_cell table p (metric_name m) = Some NaN)"
    by (elim exE conjE)
  have fcf: "fst (calculate Pad FreeCashFlow ?c []) = [(2023, Fin 380), (2022, Fin 350)]"
    by (rule example_fcf_series)
  have roe: "fst (calculate Pad ROE ?c []) = []"
    by (rule empty_balance_roe_series)
  have "2023 \<in> fst ` set (fst (calculate Pad FreeCashFlow ?c []))"
    by (simp only: fcf) simp
  with ix have p: "2023 \<in> set (df_index table)" by blast
  have a: "2023 \<notin> fst ` set (fst (calculate Pad ROE ?c []))" by (simp only: roe) simp
  from cells[THEN bspec, OF p, THEN spec, of FreeCashFlow]
  have c1: "df_cell table 2023 ''Free Cash Flow'' = Some (Fin 380)"
    by (simp only: fcf metric_name.simps) (simp add: value_at_def)
  from cells[THEN bspec, OF p, THEN spec, of ROE, THEN conjunct2, THEN mp, OF a]
  have c2: "df_cell table 2023 ''ROE (%)'' = Some NaN" by (simp only: metric_name.simps)
  from dp r p a c1 c2 show ?thesis by blast
qed

section \<open>Facts about the dividing operations\<close>

lemma ratio_try_block:
  assumes "ratio_rows m self = Some ((nstmt, nlabel), (dstmt, dlabel))"
    and "row_values nstmt nlabel = Some nv" and "row_values dstmt dlabel = Some dv"
  shows "try_block fm m self =
     Inr (if percent m
          then series_mul_scalar
                 (series_div (zip (df_columns nstmt) nv) (zip (df_columns dstmt) dv)) 100
          else series_div (zip (df_columns nstmt) nv) (zip (df_columns dstmt) dv))"
  using assms by (cases m) (auto simp: try_defs loc_def)

lemma ratio_cell_NaN [simp]: "ratio_cell m NaN d = NaN"
  by (simp add: ratio_cell_def)

lemma ratio_cell_by_NaN [simp]: "ratio_cell m n NaN = NaN"
  by (cases n) (simp_all add: ratio_cell_def)

lemma ratio_cell_by_zero: "ratio_cell m n (Fin 0) = divided_by_zero n"
  by (cases n) (simp_all add: ratio_cell_def divided_by_zero_def signed_inf_def)

lemma growth_cell_by_zero: "growth_cell a (Fin 0) = divided_by_zero a"
  by (cases a) (simp_all add: growth_cell_def divided_by_zero_def signed_inf_def fsub_def)

lemma fneg_divided_by_zero:
  "fneg (divided_by_zero n) =
     (case n of
        Fin a \<Rightarrow> (if a = 0 then NaN else signed_inf (a < 0))
      | NegZero \<Rightarrow> NaN
      | PosInf \<Rightarrow> NegInf
      | NegInf \<Rightarrow> PosInf
      | NaN \<Rightarrow> NaN)"
  by (cases n) (auto simp: divided_by_zero_def signed_inf_def)

lemma ratio_cell_by_negative_zero: "ratio_cell m n NegZero = fneg (divided_by_zero n)"
  by (cases n) (auto simp: ratio_cell_def fneg_divided_by_zero signed_inf_def)

lemma growth_cell_by_negative_zero: "growth_cell a NegZero = fneg (divided_by_zero a)"
  by (cases a) (auto simp: growth_cell_def fneg_divided_by_zero signed_inf_def fsub_def)

lemma ratio_series_keys:
  assumes rows: "ratio_rows m self = Some ((nstmt, nlabel), (dstmt, dlabel))"
    and wfn: "wf_frame nstmt" and wfd: "wf_frame dstmt"
    and rn: "row_values nstmt nlabel = Some nv" and rd: "row_values dstmt dlabel = Some dv"
  shows "fst ` set (metric_series fm m self) = set (df_columns nstmt) \<union> set (df_columns dstmt)"
proof -
  have lnv: "length nv = length (df_columns nstmt)" using wfn rn by (rule wf_row_length)
  have ldv: "length dv = length (df_columns dstmt)" using wfd rd by (rule wf_row_length)
  show ?thesis
    by (simp add: metric_series_def ratio_try_block[OF rows rn rd] series_mul_scalar_keys
        series_div_def series_binop_keys keys_zip[OF lnv] keys_zip[OF ldv])
qed

lemma ratio_series_value:
  assumes rows: "ratio_rows m self = Some ((nstmt, nlabel), (dstmt, dlabel))"
    and wfn: "wf_frame nstmt" and wfd: "wf_frame dstmt"
    and rn: "row_values nstmt nlabel = Some nv" and rd: "row_values dstmt dlabel = Some dv"
  shows "value_at (metric_series fm m self) p
           = ratio_cell m (value_at (zip (df_columns nstmt) nv) p) (value_at (zip (df_columns dstmt) dv) p)"
proof -
  let ?N = "zip (df_columns nstmt) nv"
  let ?D = "zip (df_columns dstmt) dv"
  have lnv: "length nv = length (df_columns nstmt)" using wfn rn by (rule wf_row_length)
  have ldv: "length dv = length (df_columns dstmt)" using wfd rd by (rule wf_row_length)
  have dn: "distinct (map fst ?N)" using wfn lnv by (simp add: wf_frame_def)
  have dd: "distinct (map fst ?D)" using wfd ldv by (simp add: wf_frame_def)
  have q: "value_at (series_div ?N ?D) p = fdiv (value_at ?N p) (value_at ?D p)"
  proof (cases "p \<in> fst ` set (series_div ?N ?D)")
    case True
    then show ?thesis
      unfolding series_div_def using series_binop_value[OF dn dd] by blast
  next
    case False
    then have "p \<notin> fst ` set ?N" by (simp add: series_div_def series_binop_keys)
    then have "value_at ?N p = NaN" by (rule value_at_absent)
    moreover from False have "value_at (series_div ?N ?D) p = NaN" by (rule value_at_absent)
    ultimately show ?thesis by simp
  qed
  show ?thesis
    by (simp add: metric_series_def ratio_try_block[OF rows rn rd] series_mul_scalar_value q
        ratio_cell_def)
qed

lemma example_zero_wf: "wf_frame example_income_zero_revenue"
  by (simp add: wf_frame_def example_income_zero_revenue_def)

lemma example_negative_zero_wf: "wf_frame example_income_negative_zero"
  by (simp add: wf_frame_def example_income_negative_zero_def)

lemma ratio_divisor_rule: "divisor_rule n d (ratio_cell m n d)"
  by (simp add: divisor_rule_def ratio_cell_by_zero ratio_cell_by_negative_zero)

lemma growth_divisor_rule: "divisor_rule a b (growth_cell a b)"
  by (simp add: divisor_rule_def growth_cell_by_zero growth_cell_by_negative_zero)

section \<open>Division by zero or by an undefined value\<close>

text \<open>
  C2, as amended. For each of the seven dividing operations whose two rows are present:
  the \<open>try\<close> block does not raise and nothing is printed; the result has the periods of
  the two rows; the value under a period is computed from the two cells of that period
  alone (a cell the row lacks counts as NaN). Where the divisor is \<open>+0.0\<close> the value is
  plus or minus infinity for a positive or negative dividend and NaN for a zero or NaN
  dividend; where the divisor is \<open>-0.0\<close> the infinities are the opposite ones; where the
  divisor is NaN the value is NaN. Revenue growth divides each cell of the row that the
  fill of \<open>pct_change\<close> leaves by the next cell of that row, under the same rule; these
  are the stored cell and the next stored cell when pandas does not fill or the row
  has no NaN.
\<close>

theorem division_by_zero_gives_infinity_or_nan:
  "(ratio_rows m self = Some ((nstmt, nlabel), (dstmt, dlabel)) \<and> wf_frame nstmt \<and> wf_frame dstmt
      \<and> row_values nstmt nlabel = Some nv \<and> row_values dstmt dlabel = Some dv \<longrightarrow>
      (\<exists>r. try_block fm m self = Inr r \<and> calculate fm m self out = (r, out)
         \<and> fst ` set r = set (df_columns nstmt) \<union> set (df_columns dstmt)
         \<and> (\<forall>p. value_at r p
                   = ratio_cell m (value_at (zip (df_columns nstmt) nv) p)
                       (value_at (zip (df_columns dstmt) dv) p)
                \<and> divisor_rule (value_at (zip (df_columns nstmt) nv) p)
                     (value_at (zip (df_columns dstmt) dv) p) (value_at r p))))
   \<and> (wf_frame (income_stmt self)
        \<and> row_values (income_stmt self) ''Total Revenue'' = Some revenue \<longrightarrow>
      (\<forall>i. Suc i < length revenue \<longrightarrow>
         value_at (fst (calculate_revenue_growth fm self out)) (df_columns (income_stmt self) ! i)
           = growth_cell (fill_values fm revenue ! i) (fill_values fm revenue ! Suc i)
         \<and> divisor_rule (fill_values fm revenue ! i) (fill_values fm revenue ! Suc i)
              (value_at (fst (calculate_revenue_growth fm self out))
                 (df_columns (income_stmt self) ! i))
         \<and> (fill_keeps fm revenue \<longrightarrow>
              divisor_rule (revenue ! i) (revenue ! Suc i)
                (value_at (fst (calculate_revenue_growth fm self out))
                   (df_columns (income_stmt self) ! i)))))"
proof (intro conjI impI)
  assume h: "ratio_rows m self = Some ((nstmt, nlabel), (dstmt, dlabel)) \<and> wf_frame nstmt \<and> wf_frame dstmt
      \<and> row_values nstmt nlabel = Some nv \<and> row_values dstmt dlabel = Some dv"
  then have rows: "ratio_rows m self = Some ((nstmt, nlabel), (dstmt, dlabel))"
    and wfn: "wf_frame nstmt" and wfd: "wf_frame dstmt"
    and rn: "row_values nstmt nlabel = Some nv" and rd: "row_values dstmt dlabel = Some dv"
    by simp_all
  let ?N = "zip (df_columns nstmt) nv"
  let ?D = "zip (df_columns dstmt) dv"
  let ?r = "metric_series fm m self"
  have blk: "try_block fm m self = Inr ?r"
    by (simp add: metric_series_def ratio_try_block[OF rows rn rd])
  obtain what where w: "calculate fm m self = except_print what (try_block fm m self)"
    using calculate_eq by blast
  have res: "calculate fm m self out = (?r, out)"
    by (simp only: w blk except_print_def sum.case)
  have keys: "fst ` set ?r = set (df_columns nstmt) \<union> set (df_columns dstmt)"
    using rows wfn wfd rn rd by (rule ratio_series_keys)
  have v: "value_at ?r p = ratio_cell m (value_at ?N p) (value_at ?D p)" for p
    using rows wfn wfd rn rd by (rule ratio_series_value)
  have z: "divisor_rule (value_at ?N p) (value_at ?D p) (value_at ?r p)" for p
    by (simp only: v ratio_divisor_rule)
  from blk res keys v z
  show "\<exists>r. try_block fm m self = Inr r \<and> calculate fm m self out = (r, out)
         \<and> fst ` set r = set (df_columns nstmt) \<union> set (df_columns dstmt)
         \<and> (\<forall>p. value_at r p = ratio_cell m (value_at ?N p) (value_at ?D p)
                \<and> divisor_rule (value_at ?N p) (value_at ?D p) (value_at r p))"
    by blast
next
  assume h: "wf_frame (income_stmt self)
        \<and> row_values (income_stmt self) ''Total Revenue'' = Some revenue"
  then have wf: "wf_frame (income_stmt self)"
    and rev: "row_values (income_stmt self) ''Total Revenue'' = Some revenue"
    by simp_all
  let ?cols = "df_columns (income_stmt self)"
  let ?g = "fst (calculate_revenue_growth fm self out)"
  let ?F = "fill_values fm revenue"
  have l: "length revenue = length ?cols" using wf rev by (rule wf_row_length)
  show "\<forall>i. Suc i < length revenue \<longrightarrow>
         value_at ?g (?cols ! i) = growth_cell (?F ! i) (?F ! Suc i)
         \<and> divisor_rule (?F ! i) (?F ! Suc i) (value_at ?g (?cols ! i))
         \<and> (fill_keeps fm revenue \<longrightarrow>
              divisor_rule (revenue ! i) (revenue ! Suc i) (value_at ?g (?cols ! i)))"
  proof (intro allI impI conjI)
    fix i assume i: "Suc i < length revenue"
    then have i': "i < length ?cols" using l by simp
    show v: "value_at ?g (?cols ! i) = growth_cell (?F ! i) (?F ! Suc i)"
      using revenue_growth_value_at[OF wf rev i', of fm out] i l by simp
    show "divisor_rule (?F ! i) (?F ! Suc i) (value_at ?g (?cols ! i))"
      by (simp only: v growth_divisor_rule)
    assume "fill_keeps fm revenue"
    then have "?F = revenue" by (rule fill_values_id)
    then show "divisor_rule (revenue ! i) (revenue ! Suc i) (value_at ?g (?cols ! i))"
      using v growth_divisor_rule[of "revenue ! i" "revenue ! Suc i"] by simp
  qed
qed

theorem division_by_zero_gives_infinity_or_nan_witness:
  "ratio_rows GrossMargin (init_calculator example_income_zero_revenue empty_frame empty_frame)
     = Some ((example_income_zero_revenue, ''Gross Profit''),
             (example_income_zero_revenue, ''Total Revenue''))
   \<and> wf_frame example_income_zero_revenue
   \<and> row_values example_income_zero_revenue ''Gross Profit'' = Some [Fin 54, Fin 40]
   \<and> row_values example_income_zero_revenue ''Total Revenue'' = Some [Fin 120, Fin 0]
   \<and> value_at (zip (df_columns example_income_zero_revenue) [Fin 120, Fin 0]) 2022 = Fin 0
   \<and> value_at (fst (calculate Pad GrossMargin
        (init_calculator example_income_zero_revenue empty_frame empty_frame) [])) 2022 = PosInf
   \<and> Suc 0 < length [Fin 120, Fin 0 :: fval]
   \<and> fill_keeps Pad [Fin 120, Fin 0]
   \<and> [Fin 120, Fin 0] ! Suc 0 = Fin 0
   \<and> value_at (fst (calculate_revenue_growth Pad
        (init_calculator example_income_zero_revenue empty_frame empty_frame) [])) 2023 = PosInf
   \<and> ratio_rows GrossMargin (init_calculator example_income_negative_zero empty_frame empty_frame)
     = Some ((example_income_negative_zero, ''Gross Profit''),
             (example_income_negative_zero, ''Total Revenue''))
   \<and> wf_frame example_income_negative_zero
   \<and> row_values example_income_negative_zero ''Gross Profit'' = Some [Fin 54, Fin 40]
   \<and> row_values example_income_negative_zero ''Total Revenue'' = Some [Fin 120, NegZero]
   \<and> value_at (zip (df_columns example_income_negative_zero) [Fin 120, NegZero]) 2022 = NegZero
   \<and> value_at (fst (calculate Pad GrossMargin
        (init_calculator example_income_negative_zero empty_frame empty_frame) [])) 2022 = NegInf"
proof -
  let ?e = "example_income_zero_revenue"
  let ?c = "init_calculator ?e empty_frame empty_frame"
  have inc: "income_stmt ?c = ?e" by (simp add: init_calculator_def)
  have cols: "df_columns ?e = [2023, 2022]" by (simp add: example_income_zero_revenue_def)
  have rows: "ratio_rows GrossMargin ?c = Some ((?e, ''Gross Profit''), (?e, ''Total Revenue''))"
    by (simp add: inc)
  have wf: "wf_frame ?e" by (rule example_zero_wf)
  have gp: "row_values ?e ''Gross Profit'' = Some [Fin 54, Fin 40]"
    by (simp add: row_values_def example_income_zero_revenue_def)
  have rev: "row_values ?e ''Total Revenue'' = Some [Fin 120, Fin 0]"
    by (simp add: row_values_def example_income_zero_revenue_def)
  have d0: "value_at (zip (df_columns ?e) [Fin 120, Fin 0]) 2022 = Fin 0"
    by (simp add: cols value_at_def)
  have n0: "value_at (zip (df_columns ?e) [Fin 54, Fin 40]) 2022 = Fin 40"
    by (simp add: cols value_at_def)
  have keeps: "fill_keeps Pad [Fin 120, Fin 0]" by (simp add: fill_keeps_def isna_def)
  have i: "Suc 0 < length [Fin 120, Fin 0 :: fval]" by simp
  have z: "[Fin 120, Fin 0] ! Suc 0 = Fin (0 :: rat)" by simp
  note inst = division_by_zero_gives_infinity_or_nan[of GrossMargin ?c ?e "''Gross Profit''" ?e
      "''Total Revenue''" "[Fin 54, Fin 40]" "[Fin 120, Fin 0]" Pad "[]" "[Fin 120, Fin 0]"]
  have prem1: "ratio_rows GrossMargin ?c = Some ((?e, ''Gross Profit''), (?e, ''Total Revenue''))
      \<and> wf_frame ?e \<and> wf_frame ?e
      \<and> row_values ?e ''Gross Profit'' = Some [Fin 54, Fin 40]
      \<and> row_values ?e ''Total Revenue'' = Some [Fin 120, Fin 0]"
    using rows wf gp rev by (intro conjI)
  from inst[THEN conjunct1, THEN mp, OF prem1] obtain r where
    r: "calculate Pad GrossMargin ?c [] = (r, [])"
    and v: "\<And>p. divisor_rule (value_at (zip (df_columns ?e) [Fin 54, Fin 40]) p)
              (value_at (zip (df_columns ?e) [Fin 120, Fin 0]) p) (value_at r p)"
    by blast
  from v[of 2022] have "value_at r 2022 = divided_by_zero (Fin 40)"
    by (simp add: n0 d0 divisor_rule_def)
  then have a: "value_at (fst (calculate Pad GrossMargin ?c [])) 2022 = PosInf"
    by (simp only: r fst_conv) (simp add: divided_by_zero_def signed_inf_def)
  have prem2: "wf_frame (income_stmt ?c)
      \<and> row_values (income_stmt ?c) ''Total Revenue'' = Some [Fin 120, Fin 0]"
    by (simp only: inc wf rev)
  from inst[THEN conjunct2, THEN mp, OF prem2, THEN spec, of 0, THEN mp, OF i, THEN conjunct2,
      THEN conjunct2, THEN mp, OF keeps]
  have "divisor_rule ([Fin 120, Fin 0] ! 0) ([Fin 120, Fin 0] ! Suc 0)
      (value_at (fst (calculate_revenue_growth Pad ?c [])) (df_columns (income_stmt ?c) ! 0))" .
  then have b: "value_at (fst (calculate_revenue_growth Pad ?c [])) 2023 = PosInf"
    by (simp only: inc cols) (simp add: divisor_rule_def divided_by_zero_def signed_inf_def)
  let ?e' = "example_income_negative_zero"
  let ?c' = "init_calculator ?e' empty_frame empty_frame"
  have inc': "income_stmt ?c' = ?e'" by (simp add: init_calculator_def)
  have cols': "df_columns ?e' = [2023, 2022]" by (simp add: example_income_negative_zero_def)
  have rows': "ratio_rows GrossMargin ?c' = Some ((?e', ''Gross Profit''), (?e', ''Total Revenue''))"
    by (simp add: inc')
  have wf': "wf_frame ?e'" by (rule example_negative_zero_wf)
  have gp': "row_values ?e' ''Gross Profit'' = Some [Fin 54, Fin 40]"
    by (simp add: row_values_def example_income_negative_zero_def)
  have rev': "row_values ?e' ''Total Revenue'' = Some [Fin 120, NegZero]"
    by (simp add: row_values_def example_income_negative_zero_def)
  have d0': "value_at (zip (df_columns ?e') [Fin 120, NegZero]) 2022 = NegZero"
    by (simp add: cols' value_at_def)
  have n0': "value_at (zip (df_columns ?e') [Fin 54, Fin 40]) 2022 = Fin 40"
    by (simp add: cols' value_at_def)
  note inst' = division_by_zero_gives_infinity_or_nan[of GrossMargin ?c' ?e' "''Gross Profit''" ?e'
      "''Total Revenue''" "[Fin 54, Fin 40]" "[Fin 120, NegZero]" Pad "[]" "[Fin 120, NegZero]"]
  have prem1': "ratio_rows GrossMargin ?c' = Some ((?e', ''Gross Profit''), (?e', ''Total Revenue''))
      \<and> wf_frame ?e' \<and> wf_frame ?e'
      \<and> row_values ?e' ''Gross Profit'' = Some [Fin 54, Fin 40]
      \<and> row_values ?e' ''Total Revenue'' = Some [Fin 120, NegZero]"
    using rows' wf' gp' rev' by (intro conjI)
  from inst'[THEN conjunct1, THEN mp, OF prem1'] obtain r' where
    r': "calculate Pad GrossMargin ?c' [] = (r', [])"
    and v': "\<And>p. divisor_rule (value_at (zip (df_columns ?e') [Fin 54, Fin 40]) p)
              (value_at (zip (df_columns ?e') [Fin 120, NegZero]) p) (value_at r' p)"
    by blast
  from v'[of 2022] have "value_at r' 2022 = fneg (divided_by_zero (Fin 40))"
    by (simp add: n0' d0' divisor_rule_def)
  then have a': "value_at (fst (calculate Pad GrossMargin ?c' [])) 2022 = NegInf"
    by (simp only: r' fst_conv) (simp add: divided_by_zero_def signed_inf_def)
  from rows wf gp rev d0 a i keeps z b rows' wf' gp' rev' d0' a' show ?thesis by (intro conjI)
qed

text \<open>
  C2 as stated fails where a positive number is divided by zero: with revenue 0 and
  gross profit 40 in 2022 the gross margin of 2022 is plus infinity, which is not the
  undefined value; with revenue 120 in 2023 the revenue growth of 2023 is plus infinity.
\<close>

theorem zero_denominator_counterexample:
  "row_values (income_stmt (init_calculator example_income_zero_revenue empty_frame empty_frame))
      ''Total Revenue'' = Some [Fin 120, Fin 0]
   \<and> row_values (income_stmt (init_calculator example_income_zero_revenue empty_frame empty_frame))
      ''Gross Profit'' = Some [Fin 54, Fin 40]
   \<and> fst (calculate_gross_margin
        (init_calculator example_income_zero_revenue empty_frame empty_frame) [])
        = [(2023, Fin 45), (2022, PosInf)]
   \<and> \<not> isna PosInf
   \<and> fst (calculate_revenue_growth Pad
        (init_calculator example_income_zero_revenue empty_frame empty_frame) [])
        = [(2023, PosInf), (2022, NaN)]
   \<and> fst (calculate_revenue_growth NoFill
        (init_calculator example_income_zero_revenue empty_frame empty_frame) [])
        = [(2023, PosInf), (2022, NaN)]"
proof -
  let ?e = "example_income_zero_revenue"
  let ?c = "init_calculator ?e empty_frame empty_frame"
  have inc: "income_stmt ?c = ?e" by (simp add: init_calculator_def)
  have cols: "df_columns ?e = [2023, 2022]" by (simp add: example_income_zero_revenue_def)
  have wf: "wf_frame (income_stmt ?c)" unfolding inc by (rule example_zero_wf)
  have gp: "row_values (income_stmt ?c) ''Gross Profit'' = Some [Fin 54, Fin 40]"
    unfolding inc by (simp add: row_values_def example_income_zero_revenue_def)
  have rev: "row_values (income_stmt ?c) ''Total Revenue'' = Some [Fin 120, Fin 0]"
    unfolding inc by (simp add: row_values_def example_income_zero_revenue_def)
  have gp': "row_values ?e ''Gross Profit'' = Some [Fin 54, Fin 40]" using gp by (simp only: inc)
  have rev': "row_values ?e ''Total Revenue'' = Some [Fin 120, Fin 0]" using rev by (simp only: inc)
  have "gross_margin_try ?c =
      Inr (series_mul_scalar (series_div (zip [2023, 2022] [Fin 54, Fin 40])
             (zip [2023, 2022] [Fin 120, Fin 0])) 100)"
    by (simp only: gross_margin_try_def inc loc_Some[OF rev'] loc_Some[OF gp'] sum.case cols)
  then have gm: "fst (calculate_gross_margin ?c []) = [(2023, Fin 45), (2022, PosInf)]"
    by (simp add: calculate_gross_margin_def except_print_def series_div_def series_binop_def
        series_mul_scalar_def signed_inf_def)
  have g: "fst (calculate_revenue_growth fm ?c []) = [(2023, PosInf), (2022, NaN)]" for fm
    by (cases fm)
       (simp_all add: revenue_growth_result[OF wf rev] inc cols fill_values_def isna_def
          growth_cell_def fsub_def signed_inf_def)
  show ?thesis using rev gp gm g[of Pad] g[of NoFill] by (simp add: isna_def)
qed

lemma empty_balance_sheet_series:
  assumes "balance_sheet self = empty_frame"
    and "m = CurrentRatio \<or> m = DebtToEquity \<or> m = ROE \<or> m = ROA"
  shows "metric_series fm m self = empty_series"
proof -
  from assms(2) have "\<exists>label. (balance_sheet self, label) \<in> set (required_rows m self)"
    by (elim disjE) (simp_all, blast+)
  then obtain label where "(balance_sheet self, label) \<in> set (required_rows m self)" ..
  moreover have "row_values (balance_sheet self) label = None" for label
    by (simp only: assms(1) row_values_empty_frame)
  ultimately obtain e where "try_block fm m self = Inl e"
    using try_block_missing by blast
  then show ?thesis by (simp add: metric_series_def)
qed

lemma value_at_empty_series [simp]: "value_at empty_series p = NaN"
  by (simp add: value_at_def empty_series_def)

lemma margin_value:
  assumes rows: "ratio_rows m self = Some ((income_stmt self, label), (income_stmt self, ''Total Revenue''))"
    and pc: "percent m"
    and wf: "wf_frame (income_stmt self)"
    and num: "row_values (income_stmt self) label = Some nv"
    and rev: "row_values (income_stmt self) ''Total Revenue'' = Some revenue"
    and i: "i < length (df_columns (income_stmt self))"
  shows "value_at (metric_series fm m self) (df_columns (income_stmt self) ! i)
           = fmul (fdiv (nv ! i) (revenue ! i)) (Fin 100)"
proof -
  let ?cols = "df_columns (income_stmt self)"
  have d: "distinct ?cols" using wf by (simp add: wf_frame_def)
  have l1: "length nv = length ?cols" using wf num by (rule wf_row_length)
  have l2: "length revenue = length ?cols" using wf rev by (rule wf_row_length)
  have "value_at (metric_series fm m self) (?cols ! i)
      = ratio_cell m (value_at (zip ?cols nv) (?cols ! i)) (value_at (zip ?cols revenue) (?cols ! i))"
    using rows wf wf num rev by (rule ratio_series_value)
  also have "\<dots> = ratio_cell m (nv ! i) (revenue ! i)"
    by (simp only: value_at_zip[OF d l1 i] value_at_zip[OF d l2 i])
  finally show ?thesis using pc by (simp add: ratio_cell_def)
qed

section \<open>An empty balance sheet\<close>

text \<open>
  C7. For a StatementSet (three well-formed statements) with the empty frame as balance
  sheet and an income statement that has the rows 'Total Revenue', 'Gross Profit',
  'Operating Income' and 'Net Income': \<open>calculate_all_metrics\<close> returns a table; every row of the table has
  NaN under Current Ratio, Debt to Equity, ROE and ROA; every period of the income
  statement is a row of the table; and in that row Revenue Growth and the three margins
  hold the values computed from the cells of the income statement.
\<close>

theorem empty_balance_sheet_keeps_income_metrics:
  assumes bs: "balance_sheet self = empty_frame"
    and wf: "wf_frame (income_stmt self)"
    and cf: "wf_frame (cash_flow self)"
    and rev: "row_values (income_stmt self) ''Total Revenue'' = Some revenue"
    and gp: "row_values (income_stmt self) ''Gross Profit'' = Some gross_profit"
    and oi: "row_values (income_stmt self) ''Operating Income'' = Some operating_income"
    and ni: "row_values (income_stmt self) ''Net Income'' = Some net_income"
  shows "\<exists>table out'. calculate_all_metrics fm self out = Inr (table, out')
       \<and> (\<forall>p \<in> set (df_index table).
            df_cell table p ''Current Ratio'' = Some NaN
          \<and> df_cell table p ''Debt to Equity'' = Some NaN
          \<and> df_cell table p ''ROE (%)'' = Some NaN
          \<and> df_cell table p ''ROA (%)'' = Some NaN)
       \<and> set (df_columns (income_stmt self)) \<subseteq> set (df_index table)
       \<and> (\<forall>i < length (df_columns (income_stmt self)).
            df_cell table (df_columns (income_stmt self) ! i) ''Revenue Growth (%)''
              = Some (if Suc i < length (df_columns (income_stmt self))
                      then growth_cell (fill_values fm revenue ! i) (fill_values fm revenue ! Suc i)
                      else NaN)
          \<and> df_cell table (df_columns (income_stmt self) ! i) ''Gross Margin (%)''
              = Some (fmul (fdiv (gross_profit ! i) (revenue ! i)) (Fin 100))
          \<and> df_cell table (df_columns (income_stmt self) ! i) ''Operating Margin (%)''
              = Some (fmul (fdiv (operating_income ! i) (revenue ! i)) (Fin 100))
          \<and> df_cell table (df_columns (income_stmt self) ! i) ''Net Margin (%)''
              = Some (fmul (fdiv (net_income ! i) (revenue ! i)) (Fin 100)))"
proof -
  let ?T = "metrics_frame fm self"
  let ?cols = "df_columns (income_stmt self)"
  have dp: "distinct_periods self"
    using wf cf by (simp add: distinct_periods_def bs empty_frame_def wf_frame_def)
  obtain out' where ret: "calculate_all_metrics fm self out = Inr (?T, out')"
    using all_metrics_returns[OF dp] by blast
  have cell: "df_cell ?T p (metric_name m) = Some (value_at (metric_series fm m self) p)"
    if "p \<in> set (df_index ?T)" for p m
    using dp that by (rule metrics_frame_cell)
  have undefined_cell: "df_cell ?T p (metric_name m) = Some NaN"
    if "p \<in> set (df_index ?T)" and "m = CurrentRatio \<or> m = DebtToEquity \<or> m = ROE \<or> m = ROA"
    for p m
    using cell[OF that(1), of m] empty_balance_sheet_series[OF bs that(2), of fm] by simp
  have "fst ` set (metric_series fm RevenueGrowth self) = set ?cols"
    using revenue_growth_index[OF wf rev, of fm out] fst_calculate_series[of fm RevenueGrowth self out]
    by (metis calculate.simps(1) set_map)
  then have sub: "set ?cols \<subseteq> set (df_index ?T)"
    by (auto simp only: metrics_frame_index_set[OF dp])
  have growth: "value_at (metric_series fm RevenueGrowth self) (?cols ! i)
      = (if Suc i < length ?cols
         then growth_cell (fill_values fm revenue ! i) (fill_values fm revenue ! Suc i) else NaN)"
    if "i < length ?cols" for i
    using revenue_growth_value_at[OF wf rev that, of fm out]
      fst_calculate_series[of fm RevenueGrowth self out] by simp
  have u: "\<forall>p \<in> set (df_index ?T).
            df_cell ?T p ''Current Ratio'' = Some NaN
          \<and> df_cell ?T p ''Debt to Equity'' = Some NaN
          \<and> df_cell ?T p ''ROE (%)'' = Some NaN
          \<and> df_cell ?T p ''ROA (%)'' = Some NaN"
  proof (intro ballI conjI)
    fix p assume p: "p \<in> set (df_index ?T)"
    show "df_cell ?T p ''Current Ratio'' = Some NaN"
      using undefined_cell[OF p, of CurrentRatio] by simp
    show "df_cell ?T p ''Debt to Equity'' = Some NaN"
      using undefined_cell[OF p, of DebtToEquity] by simp
    show "df_cell ?T p ''ROE (%)'' = Some NaN"
      using undefined_cell[OF p, of ROE] by simp
    show "df_cell ?T p ''ROA (%)'' = Some NaN"
      using undefined_cell[OF p, of ROA] by simp
  qed
  have r: "\<forall>i < length ?cols.
            df_cell ?T (?cols ! i) ''Revenue Growth (%)''
              = Some (if Suc i < length ?cols
                      then growth_cell (fill_values fm revenue ! i) (fill_values fm revenue ! Suc i)
                      else NaN)
          \<and> df_cell ?T (?cols ! i) ''Gross Margin (%)''
              = Some (fmul (fdiv (gross_profit ! i) (revenue ! i)) (Fin 100))
          \<and> df_cell ?T (?cols ! i) ''Operating Margin (%)''
              = Some (fmul (fdiv (operating_income ! i) (revenue ! i)) (Fin 100))
          \<and> df_cell ?T (?cols ! i) ''Net Margin (%)''
              = Some (fmul (fdiv (net_income ! i) (revenue ! i)) (Fin 100))"
  proof (intro allI impI conjI)
    fix i assume i: "i < length ?cols"
    then have p: "?cols ! i \<in> set (df_index ?T)" using sub by auto
    show "df_cell ?T (?cols ! i) ''Revenue Growth (%)''
        = Some (if Suc i < length ?cols
                then growth_cell (fill_values fm revenue ! i) (fill_values fm revenue ! Suc i)
                else NaN)"
      using cell[OF p, of RevenueGrowth] growth[OF i] by simp
    show "df_cell ?T (?cols ! i) ''Gross Margin (%)''
        = Some (fmul (fdiv (gross_profit ! i) (revenue ! i)) (Fin 100))"
      using cell[OF p, of GrossMargin] margin_value[OF _ _ wf gp rev i, of GrossMargin fm] by simp
    show "df_cell ?T (?cols ! i) ''Operating Margin (%)''
        = Some (fmul (fdiv (operating_income ! i) (revenue ! i)) (Fin 100))"
      using cell[OF p, of OperatingMargin] margin_value[OF _ _ wf oi rev i, of OperatingMargin fm]
      by simp
    show "df_cell ?T (?cols ! i) ''Net Margin (%)''
        = Some (fmul (fdiv (net_income ! i) (revenue ! i)) (Fin 100))"
      using cell[OF p, of NetMargin] margin_value[OF _ _ wf ni rev i, of NetMargin fm] by simp
  qed
  from ret u sub r show ?thesis by blast
qed

theorem empty_balance_sheet_keeps_income_metrics_witness:
  "balance_sheet (init_calculator example_income_statement empty_frame example_cash_flow) = empty_frame
   \<and> wf_frame (income_stmt (init_calculator example_income_statement empty_frame example_cash_flow))
   \<and> wf_frame (cash_flow (init_calculator example_income_statement empty_frame example_cash_flow))
   \<and> row_values (income_stmt (init_calculator example_income_statement empty_frame example_cash_flow))
        ''Total Revenue'' = Some [Fin 200, Fin 100]
   \<and> row_values (income_stmt (init_calculator example_income_statement empty_frame example_cash_flow))
        ''Gross Profit'' = Some [Fin 50, Fin 40]
   \<and> row_values (income_stmt (init_calculator example_income_statement empty_frame example_cash_flow))
        ''Operating Income'' = Some [Fin 30, Fin 20]
   \<and> row_values (income_stmt (init_calculator example_income_statement empty_frame example_cash_flow))
        ''Net Income'' = Some [Fin 40, Fin 15]
   \<and> (\<exists>table out'. calculate_all_metrics Pad
          (init_calculator example_income_statement empty_frame example_cash_flow) []
            = Inr (table, out')
        \<and> 2023 \<in> set (df_index table)
        \<and> df_cell table 2023 ''ROE (%)'' = Some NaN
        \<and> df_cell table 2023 ''Current Ratio'' = Some NaN
        \<and> df_cell table 2023 ''Revenue Growth (%)'' = Some (Fin 100)
        \<and> df_cell table 2023 ''Gross Margin (%)'' = Some (Fin 25)
        \<and> df_cell table 2023 ''Net Margin (%)'' = Some (Fin 20))"
proof -
  let ?c = "init_calculator example_income_statement empty_frame example_cash_flow"
  have inc: "income_stmt ?c = example_income_statement" by (simp add: init_calculator_def)
  have cols: "df_columns example_income_statement = [2023, 2022]"
    by (simp add: example_income_statement_def)
  have bs: "balance_sheet ?c = empty_frame" by (simp add: init_calculator_def)
  have wf: "wf_frame (income_stmt ?c)" unfolding inc by (rule example_income_wf)
  have cf: "wf_frame (cash_flow ?c)"
    by (simp add: init_calculator_def example_cash_flow_def wf_frame_def)
  have rev: "row_values (income_stmt ?c) ''Total Revenue'' = Some [Fin 200, Fin 100]"
    unfolding inc by (simp add: row_values_def example_income_statement_def)
  have gp: "row_values (income_stmt ?c) ''Gross Profit'' = Some [Fin 50, Fin 40]"
    unfolding inc by (simp add: row_values_def example_income_statement_def)
  have oi: "row_values (income_stmt ?c) ''Operating Income'' = Some [Fin 30, Fin 20]"
    unfolding inc by (simp add: row_values_def example_income_statement_def)
  have ni: "row_values (income_stmt ?c) ''Net Income'' = Some [Fin 40, Fin 15]"
    unfolding inc by (simp add: row_values_def example_income_statement_def)
  have fv: "fill_values Pad [Fin 200, Fin 100] = [Fin 200, Fin 100]"
    by (simp add: fill_values_def isna_def)
  have gc: "growth_cell (Fin 200) (Fin 100) = Fin 100"
    by (simp add: growth_cell_def fsub_def)
  note inst = empty_balance_sheet_keeps_income_metrics[OF bs wf cf rev gp oi ni, of Pad "[]",
      unfolded inc cols fv]
  from inst obtain T out' where ret: "calculate_all_metrics Pad ?c [] = Inr (T, out')"
    and und: "\<forall>p \<in> set (df_index T).
            df_cell T p ''Current Ratio'' = Some NaN
          \<and> df_cell T p ''Debt to Equity'' = Some NaN
          \<and> df_cell T p ''ROE (%)'' = Some NaN
          \<and> df_cell T p ''ROA (%)'' = Some NaN"
    and sub: "set [2023, 2022] \<subseteq> set (df_index T)"
    and row: "\<forall>i<length [2023, 2022 :: int].
            df_cell T ([2023, 2022] ! i) ''Revenue Growth (%)''
              = Some (if Suc i < length [2023, 2022 :: int]
                      then growth_cell ([Fin 200, Fin 100] ! i) ([Fin 200, Fin 100] ! Suc i)
                      else NaN)
          \<and> df_cell T ([2023, 2022] ! i) ''Gross Margin (%)''
              = Some (fmul (fdiv ([Fin 50, Fin 40] ! i) ([Fin 200, Fin 100] ! i)) (Fin 100))
          \<and> df_cell T ([2023, 2022] ! i) ''Operating Margin (%)''
              = Some (fmul (fdiv ([Fin 30, Fin 20] ! i) ([Fin 200, Fin 100] ! i)) (Fin 100))
          \<and> df_cell T ([2023, 2022] ! i) ''Net Margin (%)''
              = Some (fmul (fdiv ([Fin 40, Fin 15] ! i) ([Fin 200, Fin 100] ! i)) (Fin 100))"
    by (elim exE conjE)
  from sub have p: "2023 \<in> set (df_index T)" by simp
  from und[THEN bspec, OF p] have u1: "df_cell T 2023 ''ROE (%)'' = Some NaN"
    and u2: "df_cell T 2023 ''Current Ratio'' = Some NaN"
    by simp_all
  from row[THEN spec, of 0] have
    g: "df_cell T 2023 ''Revenue Growth (%)'' = Some (Fin 100)"
    and m1: "df_cell T 2023 ''Gross Margin (%)'' = Some (Fin 25)"
    and m2: "df_cell T 2023 ''Net Margin (%)'' = Some (Fin 20)"
    by (simp_all add: gc)
  from ret p u1 u2 g m1 m2 have "\<exists>table out'. calculate_all_metrics Pad ?c [] = Inr (table, out')
        \<and> 2023 \<in> set (df_index table)
        \<and> df_cell table 2023 ''ROE (%)'' = Some NaN
        \<and> df_cell table 2023 ''Current Ratio'' = Some NaN
        \<and> df_cell table 2023 ''Revenue Growth (%)'' = Some (Fin 100)
        \<and> df_cell table 2023 ''Gross Margin (%)'' = Some (Fin 25)
        \<and> df_cell table 2023 ''Net Margin (%)'' = Some (Fin 20)"
    by blast
  with bs wf cf rev gp oi ni show ?thesis by (intro conjI)
qed

lemma returned_all_metrics:
  "returned (calculate_all_metrics fm self out)
     = map_sum id sort_index_descending (DataFrame_of_dict (named_series fm self))"
proof -
  obtain out' where "calculate_all_metrics fm self out =
     (case DataFrame_of_dict (named_series fm self) of
        Inl e \<Rightarrow> Inl e
      | Inr df \<Rightarrow> Inr (sort_index_descending df, out'))"
    using calculate_all_metrics_result by blast
  then show ?thesis
    by (cases "DataFrame_of_dict (named_series fm self)") (simp_all add: returned_def)
qed

section \<open>Two invocations\<close>

text \<open>
  C9. What \<open>calculate_all_metrics\<close> gives its caller, the table or the exception, depends
  on the statements alone: it is the same whatever has been printed before the call, so a
  second call on the same calculator, after the first one has returned a table and
  printed its lines, returns the same table.
\<close>

theorem all_metrics_deterministic:
  "returned (calculate_all_metrics fm self out1) = returned (calculate_all_metrics fm self out2)
   \<and> (calculate_all_metrics fm self out = Inr (table, out')
        \<longrightarrow> returned (calculate_all_metrics fm self out') = Inr table)"
proof (intro conjI impI)
  show "returned (calculate_all_metrics fm self out1) = returned (calculate_all_metrics fm self out2)"
    by (simp only: returned_all_metrics)
  assume "calculate_all_metrics fm self out = Inr (table, out')"
  then have "returned (calculate_all_metrics fm self out) = Inr table"
    by (simp add: returned_def)
  then show "returned (calculate_all_metrics fm self out') = Inr table"
    by (simp only: returned_all_metrics)
qed

theorem all_metrics_deterministic_witness:
  "\<exists>table out'. calculate_all_metrics Pad
        (init_calculator example_income_statement empty_frame example_cash_flow) []
          = Inr (table, out')
      \<and> returned (calculate_all_metrics Pad
          (init_calculator example_income_statement empty_frame example_cash_flow) out')
          = Inr table
      \<and> df_index table = [2023, 2022]
      \<and> out' \<noteq> []"
proof -
  let ?c = "init_calculator example_income_statement empty_frame example_cash_flow"
  have dp: "distinct_periods ?c"
    by (simp add: distinct_periods_def init_calculator_def example_income_statement_def
        empty_frame_def example_cash_flow_def)
  obtain out' where ret: "calculate_all_metrics Pad ?c [] = Inr (metrics_frame Pad ?c, out')"
    using all_metrics_returns[OF dp] by blast
  have ix: "df_index (metrics_frame Pad ?c) = [2023, 2022]" by code_simp
  have "calculate_all_metrics Pad ?c [] \<noteq> Inr (metrics_frame Pad ?c, [])" by code_simp
  with ret have ne: "out' \<noteq> []" by auto
  from all_metrics_deterministic[THEN conjunct2, THEN mp, OF ret] ret ix ne
  show ?thesis by blast
qed

section \<open>Facts about the aggregator\<close>

lemma company_calculator_items:
  assumes "company_calculator data = Some self"
  shows "\<exists>i b c. getitem data ''income_statement'' = Inr i
      \<and> getitem data ''balance_sheet'' = Inr b
      \<and> getitem data ''cash_flow'' = Inr c
      \<and> self = init_calculator i b c"
  using assms by (auto simp: company_calculator_def getitem_def split: option.splits)

lemma statement_set_calculator:
  assumes "statement_set data"
  shows "\<exists>self. company_calculator data = Some self \<and> distinct_periods self"
  using assms
  by (auto simp: statement_set_def wf_statements_distinct_periods split: option.splits)

lemma metrics_table_of_calculator:
  assumes "company_calculator data = Some self" and "distinct_periods self"
  shows "metrics_table fm data = Some (metrics_frame fm self)"
proof -
  obtain out' where "calculate_all_metrics fm self [] = Inr (metrics_frame fm self, out')"
    using all_metrics_returns[OF assms(2)] by blast
  with assms(1) show ?thesis by (simp add: metrics_table_def)
qed

lemma statement_set_table:
  assumes "statement_set data"
  shows "\<exists>self. company_calculator data = Some self \<and> distinct_periods self
      \<and> metrics_table fm data = Some (metrics_frame fm self)"
  using statement_set_calculator[OF assms] metrics_table_of_calculator by blast

lemma metrics_frame_empty_iff:
  "df_empty (metrics_frame fm self) \<longleftrightarrow> df_index (metrics_frame fm self) = []"
  by (simp add: df_empty_def metrics_frame_columns all_metrics_def)

lemma iloc_first_row:
  assumes "\<not> df_empty (metrics_frame fm self)"
  shows "iloc (metrics_frame fm self) 0
           = Inr (zip (df_columns (metrics_frame fm self)) (hd (df_values (metrics_frame fm self))))"
proof -
  from assms have ne: "df_index (metrics_frame fm self) \<noteq> []"
    by (simp add: metrics_frame_empty_iff)
  then have "df_values (metrics_frame fm self) \<noteq> []"
    using metrics_frame_values_length[of fm self] by auto
  then have "df_values (metrics_frame fm self) ! 0 = hd (df_values (metrics_frame fm self))"
    by (simp add: hd_conv_nth)
  with ne show ?thesis by (simp add: iloc_def)
qed

lemma dict_set_fresh: "k \<notin> fst ` set d \<Longrightarrow> dict_set d k v = d @ [(k, v)]"
  by (induction d) auto

lemma to_dict_keys: "fst ` set (to_dict s) = fst ` set s"
  by (force simp: to_dict_def)

lemma company_not_a_metric: "''Company'' \<notin> set (map metric_name all_metrics)"
  by (simp add: all_metrics_def)

lemma latest_row_dict:
  "dict_set (to_dict (zip (df_columns (metrics_frame fm self)) vs)) ''Company'' (Str ticker)
     = map (\<lambda>(name, v). (name, Num v)) (zip (df_columns (metrics_frame fm self)) vs)
       @ [(''Company'', Str ticker)]"
proof -
  have "fst ` set (zip (df_columns (metrics_frame fm self)) vs)
      \<subseteq> set (map metric_name all_metrics)"
    by (auto simp: metrics_frame_columns dest: set_zip_leftD)
  then have "''Company'' \<notin> fst ` set (to_dict (zip (df_columns (metrics_frame fm self)) vs))"
    using company_not_a_metric by (auto simp only: to_dict_keys)
  then have "dict_set (to_dict (zip (df_columns (metrics_frame fm self)) vs)) ''Company'' (Str ticker)
      = to_dict (zip (df_columns (metrics_frame fm self)) vs) @ [(''Company'', Str ticker)]"
    by (rule dict_set_fresh)
  then show ?thesis by (simp add: to_dict_def)
qed

lemma comparison_loop_step:
  assumes cc: "company_calculator data = Some self" and dp: "distinct_periods self"
  shows "\<exists>out'. comparison_loop fm ((ticker, data) # items) acc out =
     comparison_loop fm items
       (if df_empty (metrics_frame fm self) then acc
        else acc @ [comparison_row ticker (metrics_frame fm self)])
       out'"
proof -
  obtain i b c where gi: "getitem data ''income_statement'' = Inr i"
    and gb: "getitem data ''balance_sheet'' = Inr b"
    and gc: "getitem data ''cash_flow'' = Inr c"
    and self: "self = init_calculator i b c"
    using company_calculator_items[OF cc] by blast
  obtain out' where ret: "calculate_all_metrics fm (init_calculator i b c) out
      = Inr (metrics_frame fm self, out')"
    using all_metrics_returns[OF dp, of fm out] self by blast
  show ?thesis
  proof (cases "df_empty (metrics_frame fm self)")
    case True
    then have "comparison_loop fm ((ticker, data) # items) acc out
        = comparison_loop fm items acc out'"
      by (simp add: gi gb gc ret)
    with True show ?thesis by auto
  next
    case False
    then have "comparison_loop fm ((ticker, data) # items) acc out
        = comparison_loop fm items (acc @ [comparison_row ticker (metrics_frame fm self)]) out'"
      by (simp add: gi gb gc ret Let_def iloc_first_row latest_row_dict comparison_row_def)
    with False show ?thesis by auto
  qed
qed

lemma spec_comparison_Cons:
  assumes "metrics_table fm data = Some table"
  shows "spec_comparison fm ((ticker, data) # items)
     = (if df_empty table then [] else [comparison_row ticker table]) @ spec_comparison fm items"
  using assms by (simp add: spec_comparison_def)

lemma comparison_loop_result:
  assumes "\<forall>(ticker, data) \<in> set items. statement_set data"
  shows "\<exists>out'. comparison_loop fm items acc out = Inr (acc @ spec_comparison fm items, out')"
  using assms
proof (induction items arbitrary: acc out)
  case Nil
  then show ?case by (simp add: spec_comparison_def)
next
  case (Cons item items)
  obtain ticker data where item: "item = (ticker, data)" by (cases item)
  from Cons.prems have ss: "statement_set data"
    and rest: "\<forall>(ticker, data) \<in> set items. statement_set data"
    by (simp_all add: item)
  obtain self where cc: "company_calculator data = Some self" and dp: "distinct_periods self"
    and mt: "metrics_table fm data = Some (metrics_frame fm self)"
    using statement_set_table[OF ss] by blast
  let ?acc = "if df_empty (metrics_frame fm self) then acc
      else acc @ [comparison_row ticker (metrics_frame fm self)]"
  obtain out1 where step: "comparison_loop fm ((ticker, data) # items) acc out
      = comparison_loop fm items ?acc out1"
    using comparison_loop_step[OF cc dp] by blast
  from Cons.IH[OF rest, of ?acc out1] obtain out' where
    "comparison_loop fm items ?acc out1 = Inr (?acc @ spec_comparison fm items, out')" ..
  moreover have "?acc @ spec_comparison fm items = acc @ spec_comparison fm (item # items)"
    by (simp add: item spec_comparison_Cons[OF mt])
  ultimately show ?case by (simp only: item step) simp
qed

lemma create_comparison_result:
  assumes "\<forall>(ticker, data) \<in> set companies. statement_set data"
  shows "\<exists>out'. create_comparison_dataframe fm companies out
      = Inr (spec_comparison fm companies, out')"
  using comparison_loop_result[OF assms, of fm "[]" out]
  by (simp add: create_comparison_dataframe_def)

lemma newest_first_hd_Max:
  assumes "newest_first ps" and "ps \<noteq> []"
  shows "hd ps = Max (set ps)"
proof -
  from assms(2) obtain p qs where ps: "ps = p # qs" by (cases ps) auto
  with assms(1) have "\<forall>q \<in> set qs. q < p" by (simp add: newest_first_def)
  then have "Max (set (p # qs)) = p" by (intro Max_eqI) auto
  then show ?thesis by (simp add: ps)
qed

lemma first_row_is_latest:
  assumes dp: "distinct_periods self" and ne: "\<not> df_empty (metrics_frame fm self)"
  shows "row_values (metrics_frame fm self) (Max (set (df_index (metrics_frame fm self))))
           = Some (hd (df_values (metrics_frame fm self)))"
proof -
  let ?T = "metrics_frame fm self"
  from ne have ne: "df_index ?T \<noteq> []" by (simp add: metrics_frame_empty_iff)
  have nf: "newest_first (df_index ?T)" using dp by (rule metrics_frame_newest_first)
  from ne obtain p ps where i: "df_index ?T = p # ps" by (cases "df_index ?T") auto
  with metrics_frame_values_length[of fm self] obtain v vs where v: "df_values ?T = v # vs"
    by (cases "df_values ?T") auto
  have "Max (set (df_index ?T)) = p" using newest_first_hd_Max[OF nf ne] i by simp
  then show ?thesis by (simp add: row_values_def i v)
qed

lemma example_table: "metrics_table Pad example_company = Some
  \<lparr>df_index = [2023, 2022],
   df_columns = [''Revenue Growth (%)'', ''Gross Margin (%)'', ''Operating Margin (%)'',
     ''Net Margin (%)'', ''Free Cash Flow'', ''Current Ratio'', ''Debt to Equity'', ''ROE (%)'',
     ''ROA (%)''],
   df_values = [[Fin 100, Fin 25, Fin 15, Fin 20, Fin 380, NaN, NaN, NaN, NaN],
                [NaN, Fin 40, Fin 20, Fin 15, Fin 350, NaN, NaN, NaN, NaN]]\<rparr>"
  by code_simp

lemma example_no_data_table: "metrics_table Pad example_company_no_data = Some
  \<lparr>df_index = [],
   df_columns = [''Revenue Growth (%)'', ''Gross Margin (%)'', ''Operating Margin (%)'',
     ''Net Margin (%)'', ''Free Cash Flow'', ''Current Ratio'', ''Debt to Equity'', ''ROE (%)'',
     ''ROA (%)''],
   df_values = []\<rparr>"
  by code_simp

lemma example_comparison:
  "spec_comparison Pad [(''A'', example_company), (''B'', example_company_no_data)] =
     [[(''Revenue Growth (%)'', Num (Fin 100)), (''Gross Margin (%)'', Num (Fin 25)),
       (''Operating Margin (%)'', Num (Fin 15)), (''Net Margin (%)'', Num (Fin 20)),
       (''Free Cash Flow'', Num (Fin 380)), (''Current Ratio'', Num NaN),
       (''Debt to Equity'', Num NaN), (''ROE (%)'', Num NaN), (''ROA (%)'', Num NaN),
       (''Company'', Str ''A'')]]"
  by code_simp

lemma example_statement_sets:
  "statement_set example_company" "statement_set example_company_no_data"
  by code_simp+

lemma comparison_row_company:
  "map_of (comparison_row ticker (metrics_frame fm self)) ''Company'' = Some (Str ticker)"
proof -
  let ?m = "map (\<lambda>(name, v). (name, Num v))
       (zip (df_columns (metrics_frame fm self)) (hd (df_values (metrics_frame fm self))))"
  have "fst ` set ?m \<subseteq> set (map metric_name all_metrics)"
    by (auto simp: metrics_frame_columns dest: set_zip_leftD)
  then have "''Company'' \<notin> fst ` set ?m" using company_not_a_metric by blast
  then have "map_of ?m ''Company'' = None" by (simp add: map_of_eq_None_iff)
  then show ?thesis by (simp add: comparison_row_def map_add_def)
qed

lemma spec_comparison_rows:
  "row \<in> set (spec_comparison fm companies) \<longleftrightarrow>
     (\<exists>(ticker, data) \<in> set companies. \<exists>table.
        metrics_table fm data = Some table \<and> \<not> df_empty table
        \<and> row = comparison_row ticker table)"
proof
  assume "row \<in> set (spec_comparison fm companies)"
  then obtain ticker data where mem: "(ticker, data) \<in> set companies"
    and r: "row \<in> set (case metrics_table fm data of
                None \<Rightarrow> []
              | Some table \<Rightarrow> if df_empty table then [] else [comparison_row ticker table])"
    by (auto simp: spec_comparison_def)
  from r obtain table where "metrics_table fm data = Some table" and "\<not> df_empty table"
    and "row = comparison_row ticker table"
    by (cases "metrics_table fm data"; cases "df_empty (the (metrics_table fm data))") auto
  with mem show "\<exists>(ticker, data) \<in> set companies. \<exists>table.
        metrics_table fm data = Some table \<and> \<not> df_empty table
        \<and> row = comparison_row ticker table"
    by blast
next
  assume "\<exists>(ticker, data) \<in> set companies. \<exists>table.
        metrics_table fm data = Some table \<and> \<not> df_empty table
        \<and> row = comparison_row ticker table"
  then obtain ticker data table where mem: "(ticker, data) \<in> set companies"
    and t: "metrics_table fm data = Some table" and ne: "\<not> df_empty table"
    and r: "row = comparison_row ticker table"
    by blast
  have "row \<in> set (case (ticker, data) of (ticker, data) \<Rightarrow>
        case metrics_table fm data of
          None \<Rightarrow> []
        | Some table \<Rightarrow> if df_empty table then [] else [comparison_row ticker table])"
    by (simp add: t ne r)
  with mem show "row \<in> set (spec_comparison fm companies)"
    unfolding spec_comparison_def set_concat set_map by blast
qed

lemma spec_comparison_length:
  "length (spec_comparison fm companies)
     = length (filter (\<lambda>(ticker, data).
                 case metrics_table fm data of None \<Rightarrow> False | Some table \<Rightarrow> \<not> df_empty table)
               companies)"
  by (induction companies) (auto simp: spec_comparison_def split: option.splits)

section \<open>The comparison table\<close>

text \<open>
  C6. For companies whose data are StatementSets (the three statements, each well
  formed), \<open>create_comparison_dataframe\<close> raises nothing and returns, in
  the order of the companies, one row for each company whose metrics table is not
  empty: the first row of that table, which is the row of its most recent period, with
  the ticker under 'Company'. Every row of the result is such a row; a company whose
  metrics table is empty has no row under its ticker.
\<close>

theorem comparison_has_latest_row_of_each_nonempty_company:
  assumes ss: "\<forall>(ticker, data) \<in> set companies. statement_set data"
  shows "(\<exists>out'. create_comparison_dataframe fm companies out
             = Inr (spec_comparison fm companies, out'))
   \<and> length (spec_comparison fm companies)
       = length (filter (\<lambda>(ticker, data).
                   case metrics_table fm data of None \<Rightarrow> False | Some table \<Rightarrow> \<not> df_empty table)
                 companies)
   \<and> (\<forall>(ticker, data) \<in> set companies.
         \<exists>table. metrics_table fm data = Some table
           \<and> (\<not> df_empty table \<longrightarrow>
                comparison_row ticker table \<in> set (spec_comparison fm companies)
                \<and> map_of (comparison_row ticker table) ''Company'' = Some (Str ticker)
                \<and> row_values table (Max (set (df_index table))) = Some (hd (df_values table))))
   \<and> (\<forall>row \<in> set (spec_comparison fm companies).
         \<exists>(ticker, data) \<in> set companies. \<exists>table.
           metrics_table fm data = Some table \<and> \<not> df_empty table
           \<and> row = comparison_row ticker table)
   \<and> (distinct (map fst companies) \<longrightarrow>
        (\<forall>(ticker, data) \<in> set companies. \<forall>table.
           metrics_table fm data = Some table \<and> df_empty table \<longrightarrow>
             (\<forall>row \<in> set (spec_comparison fm companies).
                map_of row ''Company'' \<noteq> Some (Str ticker))))"
proof (intro conjI)
  show "\<exists>out'. create_comparison_dataframe fm companies out
             = Inr (spec_comparison fm companies, out')"
    using ss by (rule create_comparison_result)
next
  show "length (spec_comparison fm companies)
       = length (filter (\<lambda>(ticker, data).
                   case metrics_table fm data of None \<Rightarrow> False | Some table \<Rightarrow> \<not> df_empty table)
                 companies)"
    by (rule spec_comparison_length)
next
  show "\<forall>(ticker, data) \<in> set companies.
         \<exists>table. metrics_table fm data = Some table
           \<and> (\<not> df_empty table \<longrightarrow>
                comparison_row ticker table \<in> set (spec_comparison fm companies)
                \<and> map_of (comparison_row ticker table) ''Company'' = Some (Str ticker)
                \<and> row_values table (Max (set (df_index table))) = Some (hd (df_values table)))"
  proof (intro ballI, clarify)
    fix ticker data
    assume mem: "(ticker, data) \<in> set companies"
    with ss have "statement_set data" by blast
    then obtain self where dp: "distinct_periods self"
      and mt: "metrics_table fm data = Some (metrics_frame fm self)"
      using statement_set_table by blast
    let ?T = "metrics_frame fm self"
    have "comparison_row ticker ?T \<in> set (spec_comparison fm companies)
           \<and> map_of (comparison_row ticker ?T) ''Company'' = Some (Str ticker)
           \<and> row_values ?T (Max (set (df_index ?T))) = Some (hd (df_values ?T))"
      if ne: "\<not> df_empty ?T"
    proof -
      have "comparison_row ticker ?T \<in> set (spec_comparison fm companies)"
        unfolding spec_comparison_rows using mem mt ne by blast
      then show ?thesis
        using comparison_row_company first_row_is_latest[OF dp ne] by simp
    qed
    with mt show "\<exists>table. metrics_table fm data = Some table
           \<and> (\<not> df_empty table \<longrightarrow>
                comparison_row ticker table \<in> set (spec_comparison fm companies)
                \<and> map_of (comparison_row ticker table) ''Company'' = Some (Str ticker)
                \<and> row_values table (Max (set (df_index table))) = Some (hd (df_values table)))"
      by blast
  qed
next
  show "\<forall>row \<in> set (spec_comparison fm companies).
         \<exists>(ticker, data) \<in> set companies. \<exists>table.
           metrics_table fm data = Some table \<and> \<not> df_empty table
           \<and> row = comparison_row ticker table"
    using spec_comparison_rows[of _ fm companies] by blast
next
  show "distinct (map fst companies) \<longrightarrow>
        (\<forall>(ticker, data) \<in> set companies. \<forall>table.
           metrics_table fm data = Some table \<and> df_empty table \<longrightarrow>
             (\<forall>row \<in> set (spec_comparison fm companies).
                map_of row ''Company'' \<noteq> Some (Str ticker)))"
  proof (intro impI ballI allI, clarify)
    fix ticker data table row
    assume dist: "distinct (map fst companies)"
      and mem: "(ticker, data) \<in> set companies"
      and mt: "metrics_table fm data = Some table"
      and emp: "df_empty table"
      and row: "row \<in> set (spec_comparison fm companies)"
      and c: "map_of row ''Company'' = Some (Str ticker)"
    from row obtain t d T where td: "(t, d) \<in> set companies"
      and mt': "metrics_table fm d = Some T"
      and ne: "\<not> df_empty T" and r: "row = comparison_row t T"
      unfolding spec_comparison_rows by blast
    from ss td have "statement_set d" by blast
    then obtain self where "metrics_table fm d = Some (metrics_frame fm self)"
      using statement_set_table by blast
    with mt' have "T = metrics_frame fm self" by simp
    with c r have "t = ticker" by (simp add: comparison_row_company)
    with dist mem td have "d = data" by (metis eq_key_imp_eq_value)
    with ne emp mt mt' show False by simp
  qed
qed

theorem comparison_has_latest_row_of_each_nonempty_company_witness:
  "statement_set example_company
   \<and> statement_set example_company_no_data
   \<and> (\<exists>out'. create_comparison_dataframe Pad
              [(''A'', example_company), (''B'', example_company_no_data)] []
      = Inr ([[(''Revenue Growth (%)'', Num (Fin 100)), (''Gross Margin (%)'', Num (Fin 25)),
               (''Operating Margin (%)'', Num (Fin 15)), (''Net Margin (%)'', Num (Fin 20)),
               (''Free Cash Flow'', Num (Fin 380)), (''Current Ratio'', Num NaN),
               (''Debt to Equity'', Num NaN), (''ROE (%)'', Num NaN), (''ROA (%)'', Num NaN),
               (''Company'', Str ''A'')]], out'))
   \<and> (''A'', example_company) \<in> set [(''A'', example_company), (''B'', example_company_no_data)]
   \<and> (\<exists>table. metrics_table Pad example_company = Some table
        \<and> \<not> df_empty table
        \<and> comparison_row ''A'' table
            \<in> set (spec_comparison Pad [(''A'', example_company), (''B'', example_company_no_data)])
        \<and> row_values table (Max (set (df_index table)))
            = Some [Fin 100, Fin 25, Fin 15, Fin 20, Fin 380, NaN, NaN, NaN, NaN])
   \<and> distinct (map fst [(''A'', example_company), (''B'', example_company_no_data)])
   \<and> (''B'', example_company_no_data)
        \<in> set [(''A'', example_company), (''B'', example_company_no_data)]
   \<and> (\<exists>table. metrics_table Pad example_company_no_data = Some table \<and> df_empty table)
   \<and> Some (Str ''B'')
        \<notin> (\<lambda>row. map_of row ''Company'')
            ` set (spec_comparison Pad [(''A'', example_company), (''B'', example_company_no_data)])
   \<and> length (spec_comparison Pad [(''A'', example_company), (''B'', example_company_no_data)]) = 1"
proof -
  let ?cs = "[(''A'', example_company), (''B'', example_company_no_data)]"
  have ss: "\<forall>(ticker, data) \<in> set ?cs. statement_set data"
    by (simp add: example_statement_sets)
  note inst = comparison_has_latest_row_of_each_nonempty_company[OF ss, of Pad "[]"]
  have ma: "(''A'', example_company) \<in> set ?cs" and mb: "(''B'', example_company_no_data) \<in> set ?cs"
    by simp_all
  have dist: "distinct (map fst ?cs)" by simp
  obtain TA where ta: "metrics_table Pad example_company = Some TA"
    and ne: "\<not> df_empty TA"
    and hd: "hd (df_values TA) = [Fin 100, Fin 25, Fin 15, Fin 20, Fin 380, NaN, NaN, NaN, NaN]"
    by (simp add: example_table df_empty_def)
  obtain TB where tb: "metrics_table Pad example_company_no_data = Some TB"
    and emp: "df_empty TB"
    by (simp add: example_no_data_table df_empty_def)
  from inst have "\<exists>out'. create_comparison_dataframe Pad ?cs [] = Inr (spec_comparison Pad ?cs, out')"
    by (elim conjE)
  then have a: "\<exists>out'. create_comparison_dataframe Pad ?cs []
      = Inr ([[(''Revenue Growth (%)'', Num (Fin 100)), (''Gross Margin (%)'', Num (Fin 25)),
               (''Operating Margin (%)'', Num (Fin 15)), (''Net Margin (%)'', Num (Fin 20)),
               (''Free Cash Flow'', Num (Fin 380)), (''Current Ratio'', Num NaN),
               (''Debt to Equity'', Num NaN), (''ROE (%)'', Num NaN), (''ROA (%)'', Num NaN),
               (''Company'', Str ''A'')]], out')"
    by (simp only: example_comparison)
  from inst have "\<forall>(ticker, data) \<in> set ?cs.
         \<exists>table. metrics_table Pad data = Some table
           \<and> (\<not> df_empty table \<longrightarrow>
                comparison_row ticker table \<in> set (spec_comparison Pad ?cs)
                \<and> map_of (comparison_row ticker table) ''Company'' = Some (Str ticker)
                \<and> row_values table (Max (set (df_index table))) = Some (hd (df_values table)))"
    by (elim conjE)
  from this[THEN bspec, OF ma] ta ne
  have b: "comparison_row ''A'' TA \<in> set (spec_comparison Pad ?cs)"
    and c0: "row_values TA (Max (set (df_index TA))) = Some (hd (df_values TA))"
    by auto
  from ta ne b c0 hd have c: "\<exists>table. metrics_table Pad example_company = Some table
        \<and> \<not> df_empty table
        \<and> comparison_row ''A'' table \<in> set (spec_comparison Pad ?cs)
        \<and> row_values table (Max (set (df_index table)))
            = Some [Fin 100, Fin 25, Fin 15, Fin 20, Fin 380, NaN, NaN, NaN, NaN]"
    by simp
  from inst have "distinct (map fst ?cs) \<longrightarrow>
        (\<forall>(ticker, data) \<in> set ?cs. \<forall>table.
           metrics_table Pad data = Some table \<and> df_empty table \<longrightarrow>
             (\<forall>row \<in> set (spec_comparison Pad ?cs).
                map_of row ''Company'' \<noteq> Some (Str ticker)))"
    by (elim conjE)
  from this[THEN mp, OF dist, THEN bspec, OF mb] tb emp
  have "\<forall>row \<in> set (spec_comparison Pad ?cs). map_of row ''Company'' \<noteq> Some (Str ''B'')"
    by auto
  then have d: "Some (Str ''B'') \<notin> (\<lambda>row. map_of row ''Company'') ` set (spec_comparison Pad ?cs)"
    by force
  from tb emp have e: "\<exists>table. metrics_table Pad example_company_no_data = Some table \<and> df_empty table"
    by blast
  have len: "length (spec_comparison Pad ?cs) = 1" by (simp add: example_comparison)
  from example_statement_sets a ma c dist mb e d len show ?thesis by (intro conjI)
qed

lemma spec_comparison_append:
  "spec_comparison fm (xs @ ys) = spec_comparison fm xs @ spec_comparison fm ys"
  by (simp add: spec_comparison_def)

lemma spec_comparison_empty_company:
  "metrics_table fm data = Some table \<Longrightarrow> df_empty table
     \<Longrightarrow> spec_comparison fm [(ticker, data)] = []"
  by (simp add: spec_comparison_def)

lemma example_index_with_cash_flow:
  "df_index (metrics_frame Pad
      (init_calculator example_income_statement empty_frame example_cash_flow)) = [2023, 2022]"
  by code_simp

lemma example_index_without_cash_flow:
  "df_index (metrics_frame Pad
      (init_calculator example_income_statement empty_frame empty_frame)) = [2023, 2022]"
  by code_simp

lemma example_gross_margin_cell:
  "df_cell (metrics_frame Pad
      (init_calculator example_income_statement empty_frame example_cash_flow))
      2023 ''Gross Margin (%)'' = Some (Fin 25)"
  by code_simp

lemma example_wf_statements_without_cash_flow:
  "wf_statements (init_calculator example_income_statement empty_frame empty_frame)"
  by (simp add: wf_statements_def wf_frame_def init_calculator_def example_income_statement_def
      empty_frame_def)

lemma example_roe_fails:
  "try_block Pad ROE (init_calculator example_income_statement empty_frame example_cash_flow)
     = Inl (KeyError ''Stockholders Equity'')"
  by code_simp

lemma example_gross_margin_same:
  "try_block Pad GrossMargin (init_calculator example_income_statement empty_frame example_cash_flow)
     = try_block Pad GrossMargin (init_calculator example_income_statement empty_frame empty_frame)"
  by (simp add: gross_margin_try_def init_calculator_def split: sum.splits)

section \<open>Failures stay local\<close>

text \<open>
  C8. On a StatementSet (three well-formed statements) \<open>calculate_all_metrics\<close>
  returns a table, and on companies whose data are StatementSets
  \<open>create_comparison_dataframe\<close> returns its rows: no exception reaches the caller. A metric whose \<open>try\<close> block raises is the empty Series and shows as NaN in
  every row of the table. The column of a metric depends on the \<open>try\<close> block of that
  metric alone: two calculators on which the block gives the same result have the same
  cells under that metric in the rows they share, whatever the other metrics do. The
  rows of the other companies are the same with and without a company in the input, and
  a company whose table is empty adds no row.
\<close>

theorem failures_stay_local:
  "(wf_statements self \<longrightarrow>
      (\<exists>table out'. calculate_all_metrics fm self out = Inr (table, out')
         \<and> (\<forall>m. (\<exists>e. try_block fm m self = Inl e) \<longrightarrow>
               (\<forall>p \<in> set (df_index table). df_cell table p (metric_name m) = Some NaN))))
   \<and> (wf_statements self \<and> wf_statements self' \<longrightarrow>
      (\<exists>table out1 table' out2.
         calculate_all_metrics fm self out = Inr (table, out1)
         \<and> calculate_all_metrics fm self' out = Inr (table', out2)
         \<and> (\<forall>m. try_block fm m self = try_block fm m self' \<longrightarrow>
               (\<forall>p \<in> set (df_index table) \<inter> set (df_index table').
                  df_cell table p (metric_name m) = df_cell table' p (metric_name m)))))
   \<and> (\<forall>m. (\<exists>e. try_block fm m self = Inl e) \<longrightarrow>
          fst (calculate fm m self out) = empty_series)
   \<and> ((\<forall>(t, d) \<in> set companies. statement_set d) \<longrightarrow>
        (\<exists>rows out'. create_comparison_dataframe fm companies out = Inr (rows, out')))
   \<and> ((\<forall>(t, d) \<in> set (before @ after). statement_set d) \<and> statement_set data \<longrightarrow>
        (\<exists>r1 r2 r3 o1 o2.
           create_comparison_dataframe fm (before @ after) out = Inr (r1 @ r3, o1)
           \<and> create_comparison_dataframe fm (before @ (ticker, data) # after) out
                = Inr (r1 @ r2 @ r3, o2)
           \<and> (\<forall>table. metrics_table fm data = Some table \<and> df_empty table \<longrightarrow> r2 = [])))"
proof (intro conjI impI)
  assume "wf_statements self"
  then have dp: "distinct_periods self" by (rule wf_statements_distinct_periods)
  let ?T = "metrics_frame fm self"
  obtain out' where ret: "calculate_all_metrics fm self out = Inr (?T, out')"
    using all_metrics_returns[OF dp] by blast
  have "df_cell ?T p (metric_name m) = Some NaN"
    if f: "\<exists>e. try_block fm m self = Inl e" and p: "p \<in> set (df_index ?T)" for m p
  proof -
    from f have "metric_series fm m self = empty_series" by (auto simp: metric_series_def)
    then show ?thesis using metrics_frame_cell[OF dp p, of m] by simp
  qed
  with ret show "\<exists>table out'. calculate_all_metrics fm self out = Inr (table, out')
         \<and> (\<forall>m. (\<exists>e. try_block fm m self = Inl e) \<longrightarrow>
               (\<forall>p \<in> set (df_index table). df_cell table p (metric_name m) = Some NaN))"
    by blast
next
  assume "wf_statements self \<and> wf_statements self'"
  then have dp: "distinct_periods self" and dp': "distinct_periods self'"
    by (simp_all add: wf_statements_distinct_periods)
  let ?T = "metrics_frame fm self"
  let ?T' = "metrics_frame fm self'"
  obtain out1 where ret: "calculate_all_metrics fm self out = Inr (?T, out1)"
    using all_metrics_returns[OF dp] by blast
  obtain out2 where ret': "calculate_all_metrics fm self' out = Inr (?T', out2)"
    using all_metrics_returns[OF dp'] by blast
  have "df_cell ?T p (metric_name m) = df_cell ?T' p (metric_name m)"
    if same: "try_block fm m self = try_block fm m self'"
      and p: "p \<in> set (df_index ?T) \<inter> set (df_index ?T')" for m p
  proof -
    from same have s: "metric_series fm m self = metric_series fm m self'"
      by (simp add: metric_series_def)
    from p have p1: "p \<in> set (df_index ?T)" and p2: "p \<in> set (df_index ?T')" by simp_all
    show ?thesis
      by (simp only: metrics_frame_cell[OF dp p1] metrics_frame_cell[OF dp' p2] s)
  qed
  with ret ret' show "\<exists>table out1 table' out2.
         calculate_all_metrics fm self out = Inr (table, out1)
         \<and> calculate_all_metrics fm self' out = Inr (table', out2)
         \<and> (\<forall>m. try_block fm m self = try_block fm m self' \<longrightarrow>
               (\<forall>p \<in> set (df_index table) \<inter> set (df_index table').
                  df_cell table p (metric_name m) = df_cell table' p (metric_name m)))"
    by blast
next
  show "\<forall>m. (\<exists>e. try_block fm m self = Inl e) \<longrightarrow>
          fst (calculate fm m self out) = empty_series"
    by (auto simp: fst_calculate)
next
  assume "\<forall>(t, d) \<in> set companies. statement_set d"
  then show "\<exists>rows out'. create_comparison_dataframe fm companies out = Inr (rows, out')"
    using create_comparison_result[of companies fm out] by blast
next
  assume h: "(\<forall>(t, d) \<in> set (before @ after). statement_set d) \<and> statement_set data"
  then have ss1: "\<forall>(t, d) \<in> set (before @ after). statement_set d"
    and ss2: "\<forall>(t, d) \<in> set (before @ (ticker, data) # after). statement_set d"
    by auto
  obtain o1 where a: "create_comparison_dataframe fm (before @ after) out
      = Inr (spec_comparison fm (before @ after), o1)"
    using create_comparison_result[OF ss1] by blast
  obtain o2 where b: "create_comparison_dataframe fm (before @ (ticker, data) # after) out
      = Inr (spec_comparison fm (before @ (ticker, data) # after), o2)"
    using create_comparison_result[OF ss2] by blast
  have c: "spec_comparison fm (before @ (ticker, data) # after)
      = spec_comparison fm before @ spec_comparison fm [(ticker, data)] @ spec_comparison fm after"
    using spec_comparison_append[of fm before "[(ticker, data)] @ after"]
      spec_comparison_append[of fm "[(ticker, data)]" after] by simp
  have a': "create_comparison_dataframe fm (before @ after) out
          = Inr (spec_comparison fm before @ spec_comparison fm after, o1)"
    using a by (simp only: spec_comparison_append)
  have b': "create_comparison_dataframe fm (before @ (ticker, data) # after) out
          = Inr (spec_comparison fm before @ spec_comparison fm [(ticker, data)]
                 @ spec_comparison fm after, o2)"
    using b by (simp only: c)
  have e: "\<forall>table. metrics_table fm data = Some table \<and> df_empty table
      \<longrightarrow> spec_comparison fm [(ticker, data)] = []"
    by (simp add: spec_comparison_empty_company)
  from a' b' e
  have "create_comparison_dataframe fm (before @ after) out
          = Inr (spec_comparison fm before @ spec_comparison fm after, o1)
      \<and> create_comparison_dataframe fm (before @ (ticker, data) # after) out
          = Inr (spec_comparison fm before @ spec_comparison fm [(ticker, data)]
                 @ spec_comparison fm after, o2)
      \<and> (\<forall>table. metrics_table fm data = Some table \<and> df_empty table
            \<longrightarrow> spec_comparison fm [(ticker, data)] = [])"
    by (intro conjI)
  then show "\<exists>r1 r2 r3 o1 o2.
          create_comparison_dataframe fm (before @ after) out = Inr (r1 @ r3, o1)
          \<and> create_comparison_dataframe fm (before @ (ticker, data) # after) out
               = Inr (r1 @ r2 @ r3, o2)
          \<and> (\<forall>table. metrics_table fm data = Some table \<and> df_empty table \<longrightarrow> r2 = [])"
    by blast
qed

theorem failures_stay_local_witness:
  "wf_statements (init_calculator example_income_statement empty_frame example_cash_flow)
   \<and> wf_statements (init_calculator example_income_statement empty_frame empty_frame)
   \<and> (\<exists>e. try_block Pad ROE
          (init_calculator example_income_statement empty_frame example_cash_flow) = Inl e)
   \<and> try_block Pad GrossMargin
        (init_calculator example_income_statement empty_frame example_cash_flow)
      = try_block Pad GrossMargin
        (init_calculator example_income_statement empty_frame empty_frame)
   \<and> (\<exists>table out'.
         calculate_all_metrics Pad
           (init_calculator example_income_statement empty_frame example_cash_flow) []
           = Inr (table, out')
         \<and> 2023 \<in> set (df_index table)
         \<and> df_cell table 2023 ''ROE (%)'' = Some NaN)
   \<and> (\<exists>table out1 table' out2.
         calculate_all_metrics Pad
           (init_calculator example_income_statement empty_frame example_cash_flow) []
           = Inr (table, out1)
         \<and> calculate_all_metrics Pad
           (init_calculator example_income_statement empty_frame empty_frame) []
           = Inr (table', out2)
         \<and> 2023 \<in> set (df_index table) \<inter> set (df_index table')
         \<and> df_cell table 2023 ''Gross Margin (%)'' = Some (Fin 25)
         \<and> df_cell table' 2023 ''Gross Margin (%)'' = Some (Fin 25))
   \<and> fst (calculate Pad ROE
        (init_calculator example_income_statement empty_frame example_cash_flow) [])
        = empty_series
   \<and> statement_set example_company
   \<and> statement_set example_company_no_data
   \<and> (\<exists>table. metrics_table Pad example_company_no_data = Some table \<and> df_empty table)
   \<and> (\<exists>rows o1 o2.
         create_comparison_dataframe Pad ([(''A'', example_company)] @ []) [] = Inr (rows, o1)
         \<and> create_comparison_dataframe Pad
              ([(''A'', example_company)] @ (''B'', example_company_no_data) # []) []
            = Inr (rows, o2)
         \<and> length rows = 1)"
proof -
  let ?c = "init_calculator example_income_statement empty_frame example_cash_flow"
  let ?c' = "init_calculator example_income_statement empty_frame empty_frame"
  note inst = failures_stay_local[of ?c Pad "[]" ?c' "[(''A'', example_company)]"
      "[(''A'', example_company)]" "[]" example_company_no_data "''B''"]
  have wf: "wf_statements ?c" by (rule example_wf_statements)
  have wf': "wf_statements ?c'" by (rule example_wf_statements_without_cash_flow)
  have dp: "distinct_periods ?c" using wf by (rule wf_statements_distinct_periods)
  have dp': "distinct_periods ?c'" using wf' by (rule wf_statements_distinct_periods)
  have f: "\<exists>e. try_block Pad ROE ?c = Inl e" by (simp only: example_roe_fails) blast
  obtain oa where r: "calculate_all_metrics Pad ?c [] = Inr (metrics_frame Pad ?c, oa)"
    using all_metrics_returns[OF dp] by blast
  obtain ob where r': "calculate_all_metrics Pad ?c' [] = Inr (metrics_frame Pad ?c', ob)"
    using all_metrics_returns[OF dp'] by blast
  from inst[THEN conjunct1, THEN mp, OF wf] obtain T out' where
    t: "calculate_all_metrics Pad ?c [] = Inr (T, out')"
    and nan: "\<forall>m. (\<exists>e. try_block Pad m ?c = Inl e) \<longrightarrow>
               (\<forall>p \<in> set (df_index T). df_cell T p (metric_name m) = Some NaN)"
    by blast
  from t r have T: "T = metrics_frame Pad ?c" by simp
  have p: "2023 \<in> set (df_index T)" by (simp add: T example_index_with_cash_flow)
  from nan[THEN spec, of ROE, THEN mp, OF f, THEN bspec, OF p]
  have "df_cell T 2023 ''ROE (%)'' = Some NaN" by simp
  with t p have a: "\<exists>table out'. calculate_all_metrics Pad ?c [] = Inr (table, out')
         \<and> 2023 \<in> set (df_index table) \<and> df_cell table 2023 ''ROE (%)'' = Some NaN"
    by blast
  from inst[THEN conjunct2, THEN conjunct1, THEN mp, OF conjI[OF wf wf']]
  obtain T1 o1 T2 o2 where
    t1: "calculate_all_metrics Pad ?c [] = Inr (T1, o1)"
    and t2: "calculate_all_metrics Pad ?c' [] = Inr (T2, o2)"
    and same: "\<forall>m. try_block Pad m ?c = try_block Pad m ?c' \<longrightarrow>
               (\<forall>p \<in> set (df_index T1) \<inter> set (df_index T2).
                  df_cell T1 p (metric_name m) = df_cell T2 p (metric_name m))"
    by blast
  from t1 r have T1: "T1 = metrics_frame Pad ?c" by simp
  from t2 r' have T2: "T2 = metrics_frame Pad ?c'" by simp
  have p': "2023 \<in> set (df_index T1) \<inter> set (df_index T2)"
    by (simp add: T1 T2 example_index_with_cash_flow example_index_without_cash_flow)
  from same[THEN spec, of GrossMargin, THEN mp, OF example_gross_margin_same, THEN bspec, OF p']
  have eq: "df_cell T1 2023 ''Gross Margin (%)'' = df_cell T2 2023 ''Gross Margin (%)''" by simp
  have g1: "df_cell T1 2023 ''Gross Margin (%)'' = Some (Fin 25)"
    by (simp only: T1 example_gross_margin_cell)
  with eq have g2: "df_cell T2 2023 ''Gross Margin (%)'' = Some (Fin 25)" by simp
  from t1 t2 p' g1 g2 have b: "\<exists>table out1 table' out2.
         calculate_all_metrics Pad ?c [] = Inr (table, out1)
         \<and> calculate_all_metrics Pad ?c' [] = Inr (table', out2)
         \<and> 2023 \<in> set (df_index table) \<inter> set (df_index table')
         \<and> df_cell table 2023 ''Gross Margin (%)'' = Some (Fin 25)
         \<and> df_cell table' 2023 ''Gross Margin (%)'' = Some (Fin 25)"
    by blast
  from inst have "\<forall>m. (\<exists>e. try_block Pad m ?c = Inl e) \<longrightarrow>
          fst (calculate Pad m ?c []) = empty_series"
    by (elim conjE)
  from this[THEN spec, of ROE, THEN mp, OF f]
  have c: "fst (calculate Pad ROE ?c []) = empty_series" .
  have ss: "\<forall>(t, d) \<in> set ([(''A'', example_company)] @ []). statement_set d"
    by (simp add: example_statement_sets)
  have ssb: "statement_set example_company_no_data" by (rule example_statement_sets)
  obtain TB where tb: "metrics_table Pad example_company_no_data = Some TB"
    and emp: "df_empty TB"
    by (simp add: example_no_data_table df_empty_def)
  from inst have "(\<forall>(t, d) \<in> set ([(''A'', example_company)] @ []). statement_set d)
        \<and> statement_set example_company_no_data \<longrightarrow>
        (\<exists>r1 r2 r3 o1 o2.
           create_comparison_dataframe Pad ([(''A'', example_company)] @ []) [] = Inr (r1 @ r3, o1)
           \<and> create_comparison_dataframe Pad
                ([(''A'', example_company)] @ (''B'', example_company_no_data) # []) []
                = Inr (r1 @ r2 @ r3, o2)
           \<and> (\<forall>table. metrics_table Pad example_company_no_data = Some table \<and> df_empty table
                 \<longrightarrow> r2 = []))"
    by (elim conjE)
  from this[THEN mp, OF conjI[OF ss ssb]] obtain r1 r2 r3 o1 o2 where
    x: "create_comparison_dataframe Pad ([(''A'', example_company)] @ []) [] = Inr (r1 @ r3, o1)"
    and y: "create_comparison_dataframe Pad
              ([(''A'', example_company)] @ (''B'', example_company_no_data) # []) []
            = Inr (r1 @ r2 @ r3, o2)"
    and z: "\<forall>table. metrics_table Pad example_company_no_data = Some table \<and> df_empty table
              \<longrightarrow> r2 = []"
    by blast
  from z tb emp have r2: "r2 = []" by blast
  obtain o3 where "create_comparison_dataframe Pad [(''A'', example_company)] []
      = Inr (spec_comparison Pad [(''A'', example_company)], o3)"
    using create_comparison_result[of "[(''A'', example_company)]" Pad "[]"]
    by (auto simp: example_statement_sets)
  with x have "r1 @ r3 = spec_comparison Pad [(''A'', example_company)]" by simp
  moreover have "length (spec_comparison Pad [(''A'', example_company)]) = 1" by code_simp
  ultimately have len: "length (r1 @ r3) = 1" by simp
  from x y r2 len have d: "\<exists>rows o1 o2.
         create_comparison_dataframe Pad ([(''A'', example_company)] @ []) [] = Inr (rows, o1)
         \<and> create_comparison_dataframe Pad
              ([(''A'', example_company)] @ (''B'', example_company_no_data) # []) []
            = Inr (rows, o2)
         \<and> length rows = 1"
    by auto
  from tb emp have e: "\<exists>table. metrics_table Pad example_company_no_data = Some table \<and> df_empty table"
    by blast
  from wf wf' f example_gross_margin_same a b c example_statement_sets(1) ssb e d
  show ?thesis by (intro conjI)
qed

text \<open>
  The hypothesis is needed: outside StatementSets an exception is raised outside the nine
  \<open>try\<close> blocks and reaches the caller. An income statement with the period 2023 twice
  gives Series with that label twice, which the frame constructor of
  \<open>calculate_all_metrics\<close> cannot reindex on the periods of the cash-flow statement
  (ValueError); in \<open>create_comparison_dataframe\<close> the same exception, or the KeyError of
  a company whose data lack the \<open>'cash_flow'\<close> entry, ends the whole call, and the row
  of company A, which is returned when A stands alone, is not returned.
\<close>

lemma exceptions_outside_statement_sets:
  "calculate_all_metrics Pad
      (init_calculator example_income_repeated_period empty_frame example_cash_flow) []
     = Inl ValueError
   \<and> create_comparison_dataframe Pad
        [(''A'', example_company), (''B'', example_company_repeated_period)] []
     = Inl ValueError
   \<and> create_comparison_dataframe Pad
        [(''A'', example_company), (''B'', example_company_missing_key)] []
     = Inl (KeyError ''cash_flow'')
   \<and> returned (create_comparison_dataframe Pad [(''A'', example_company)] [])
     = Inr [[(''Revenue Growth (%)'', Num (Fin 100)), (''Gross Margin (%)'', Num (Fin 25)),
             (''Operating Margin (%)'', Num (Fin 15)), (''Net Margin (%)'', Num (Fin 20)),
             (''Free Cash Flow'', Num (Fin 380)), (''Current Ratio'', Num NaN),
             (''Debt to Equity'', Num NaN), (''ROE (%)'', Num NaN), (''ROA (%)'', Num NaN),
             (''Company'', Str ''A'')]]"
  by code_simp

end
